(* ===== verification/Prelude.thy ===== *)
theory Prelude
  imports Complex_Main "HOL-Library.Multiset"
begin

text \<open>
  Shared vocabulary of the development: the named collections that the
  component theories fill, and the generic facts on lists, folds and
  descending sorts that several components use (the price query, the zone
  statistics query and the summariser all rank rows by a key, descending,
  and keep a prefix).
\<close>

named_theorems fmt_simps \<open>equations that evaluate the model of Python's string formatting\<close>
named_theorems sql_simps \<open>equations that evaluate the model of the SQL queries\<close>
named_theorems frame_simps \<open>fields of the world that an operation leaves unchanged\<close>

type_synonym price = rat

text \<open>A descending stable sort on a key: SQL \<open>ORDER BY key DESC\<close> as the model reads it.\<close>

definition sort_desc :: "('a \<Rightarrow> rat) \<Rightarrow> 'a list \<Rightarrow> 'a list" where
  "sort_desc f xs = sort_key (\<lambda>x. - f x) xs"

text \<open>The arithmetic mean, \<open>sum(xs)/len(xs)\<close> and SQL \<open>AVG\<close>.\<close>

definition mean :: "rat list \<Rightarrow> rat" where
  "mean xs = sum_list xs / of_nat (length xs)"

lemma sorted_desc_sort_desc [simp]:
  "sorted_wrt (\<lambda>a b. f b \<le> f a) (sort_desc f xs)"
proof -
  have "sorted (map (\<lambda>x. - f x) (sort_key (\<lambda>x. - f x) xs))"
    by (rule sorted_sort_key)
  then show ?thesis
    by (simp add: sort_desc_def sorted_map)
qed

lemma mset_sort_desc [simp]: "mset (sort_desc f xs) = mset xs"
  by (simp add: sort_desc_def)

lemma set_sort_desc [simp]: "set (sort_desc f xs) = set xs"
  by (simp add: sort_desc_def)

lemma length_sort_desc [simp]: "length (sort_desc f xs) = length xs"
  by (simp add: sort_desc_def)

lemma sort_desc_stable:
  "filter (\<lambda>y. f y = k) (sort_desc f xs) = filter (\<lambda>y. f y = k) xs"
proof -
  have "filter (\<lambda>y. - f y = - k) (sort_key (\<lambda>x. - f x) xs) = filter (\<lambda>y. - f y = - k) xs"
    by (rule sort_key_stable)
  then show ?thesis by (simp add: sort_desc_def)
qed

text \<open>
  Keeping the first \<open>k\<close> of a descending sort keeps the top \<open>k\<close>: every row
  that is left out is no larger than every row that is kept.
\<close>

lemma sorted_wrt_take_drop:
  assumes "sorted_wrt R xs" and "x \<in> set (take k xs)" and "y \<in> set (drop k xs)"
  shows "R x y"
proof -
  have "sorted_wrt R (take k xs @ drop k xs)" using assms(1) by simp
  with assms(2,3) show ?thesis by (simp only: sorted_wrt_append)
qed

lemma take_sort_desc_top:
  assumes "y \<in># mset xs - mset (take k (sort_desc f xs))"
    and "x \<in> set (take k (sort_desc f xs))"
  shows "f y \<le> f x"
proof -
  let ?s = "sort_desc f xs"
  have "mset xs = mset (take k ?s) + mset (drop k ?s)"
    by (metis append_take_drop_id mset_append mset_sort_desc)
  with assms(1) have "y \<in> set (drop k ?s)" by simp
  from sorted_wrt_take_drop [OF sorted_desc_sort_desc assms(2) this]
  show ?thesis .
qed

lemma mset_take_subseteq [simp]: "mset (take k xs) \<subseteq># mset xs"
  by (metis append_take_drop_id mset_append mset_subset_eq_add_left)

text \<open>Python's \<open>max\<close> on a non-empty list, and the arithmetic mean.\<close>

lemma fold_max_Max: "fold max xs x = Max (insert x (set xs))"
  by (simp add: Max.set_eq_fold [symmetric])

lemma mean_le_Max:
  assumes "xs \<noteq> []"
  shows "mean xs \<le> Max (set xs)"
proof -
  have "(\<Sum>x\<leftarrow>xs. x) \<le> (\<Sum>x\<leftarrow>xs. Max (set xs))"
    by (rule sum_list_mono) (simp add: assms)
  then have "sum_list xs \<le> of_nat (length xs) * Max (set xs)"
    by (simp add: sum_list_triv)
  moreover have "0 < (of_nat (length xs) :: rat)" using assms by simp
  ultimately show ?thesis
    by (simp add: mean_def divide_le_eq mult.commute)
qed

lemma floor_numeral_divide [simp]: "\<lfloor>(numeral a / numeral b :: rat)\<rfloor> = numeral a div numeral b"
  and floor_neg_numeral_divide [simp]: "\<lfloor>(- numeral a / numeral b :: rat)\<rfloor> = - numeral a div numeral b"
  by (metis floor_divide_of_int_eq of_int_numeral, metis floor_divide_of_int_eq of_int_numeral of_int_neg_numeral)

lemma replicate_numeral [simp]: "replicate (numeral n) x = x # replicate (pred_numeral n) x"
  by (simp add: numeral_eq_Suc)

lemma sort_desc_Nil [simp]: "sort_desc f xs = [] \<longleftrightarrow> xs = []"
  by (metis length_0_conv length_sort_desc)

lemma sort_eq_Nil_iff [simp]: "sort xs = [] \<longleftrightarrow> xs = []"
  by (metis length_0_conv length_sort)

lemma sum_list_group_lengths:
  "(\<Sum>z\<leftarrow>remdups (map f xs). length (filter (\<lambda>x. f x = z) xs)) = length xs"
proof -
  have "(\<Sum>z\<leftarrow>remdups (map f xs). length (filter (\<lambda>x. f x = z) xs))
      = (\<Sum>z\<in>set (map f xs). count_list (map f xs) z)"
    by (simp add: sum_list_distinct_conv_sum_set count_list_eq_length_filter filter_map
        comp_def eq_commute)
  also have "\<dots> = length (map f xs)" by (rule sum_count_set) simp_all
  finally show ?thesis by simp
qed

lemma sorted_le_last: "sorted xs \<Longrightarrow> y \<in> set xs \<Longrightarrow> y \<le> last xs"
proof (induction xs rule: rev_induct)
  case Nil
  then show ?case by simp
next
  case (snoc x xs)
  then show ?case by (auto simp: sorted_append)
qed

lemma last_sort_Max: "xs \<noteq> [] \<Longrightarrow> last (sort xs) = Max (set xs)"
proof -
  assume ne: "xs \<noteq> []"
  then have sne: "sort xs \<noteq> []" by simp
  have "\<forall>y\<in>set (sort xs). y \<le> last (sort xs)"
    using sorted_le_last [OF sorted_sort] by blast
  moreover have "last (sort xs) \<in> set (sort xs)" using sne by (rule last_in_set)
  ultimately show ?thesis by (intro Max_eqI [symmetric]) simp_all
qed

lemma mset_map_sort_desc [simp]: "mset (map g (sort_desc f xs)) = mset (map g xs)"
  by simp

lemma sum_list_map_sort_desc:
  fixes g :: "'a \<Rightarrow> 'b :: comm_monoid_add"
  shows "sum_list (map g (sort_desc f xs)) = sum_list (map g xs)"
proof -
  have "sum_list (map g (sort_desc f xs)) = sum_mset (mset (map g (sort_desc f xs)))"
    by (rule sum_mset_sum_list [symmetric])
  also have "\<dots> = sum_mset (mset (map g xs))" by (simp only: mset_map_sort_desc)
  also have "\<dots> = sum_list (map g xs)" by (rule sum_mset_sum_list)
  finally show ?thesis .
qed

end
