(* ===== verification/World.thy ===== *)
theory World
  imports Prelude
begin

text \<open>
  The data model of \<^verbatim>\<open>src/pjm_daily_agent.py\<close> and the world it runs in.
  Rows of \<^verbatim>\<open>pjm_data.realtime_prices\<close> and of the per-zone aggregate are
  records with the columns the queries select; dates are a datatype with the
  calendar order, so that \<open>ORDER BY date DESC\<close> has a meaning. Everything the
  program reaches outside Python (the database, the generation service, the
  file system, the mail server, the clock and \<open>os.environ\<close>) is a field of
  the record \<open>world\<close>; every external call appends an \<open>event\<close> to the
  world's trace, so that the order of calls and their absence are facts about
  the trace.
\<close>

section \<open>Dates and timestamps\<close>

datatype date = Date (year: nat) (month: nat) (day: nat)

instantiation date :: linorder
begin

definition less_eq_date :: "date \<Rightarrow> date \<Rightarrow> bool" where
  "less_eq_date a b \<longleftrightarrow>
     year a < year b \<or> year a = year b \<and>
       (month a < month b \<or> month a = month b \<and> day a \<le> day b)"

definition less_date :: "date \<Rightarrow> date \<Rightarrow> bool" where
  "less_date a b \<longleftrightarrow> a \<le> b \<and> \<not> b \<le> a"

instance
proof
  fix a b c :: date
  show "a < b \<longleftrightarrow> a \<le> b \<and> \<not> b \<le> a" by (simp add: less_date_def)
  show "a \<le> a" by (simp add: less_eq_date_def)
  show "a \<le> b \<Longrightarrow> b \<le> c \<Longrightarrow> a \<le> c" by (auto simp: less_eq_date_def)
  show "a \<le> b \<Longrightarrow> b \<le> a \<Longrightarrow> a = b"
    by (cases a; cases b) (auto simp: less_eq_date_def)
  show "a \<le> b \<or> b \<le> a" by (auto simp: less_eq_date_def)
qed

end

declare less_eq_date_def [sql_simps] less_date_def [sql_simps]

text \<open>A Python \<open>datetime\<close> (the \<open>timestamp\<close> column, and \<open>datetime.now()\<close>).\<close>

record datetime =
  dt_date :: date
  dt_hour :: nat
  dt_minute :: nat
  dt_second :: nat

section \<open>Rows of the queries\<close>

text \<open>
  One row of \<^verbatim>\<open>pjm_data.realtime_prices\<close>, in the column order of the
  price query (\<^verbatim>\<open>pjm_daily_agent.py\<close> lines 48-55). Numeric columns are exact
  rationals (the \<open>numeric\<close> values the driver returns).
\<close>

record price_row =
  node_name :: string
  zone :: string
  lmp :: price
  energy_component :: price
  congestion_component :: price
  loss_component :: price
  timestamp :: datetime

definition row_date :: "price_row \<Rightarrow> date" where
  "row_date r = dt_date (timestamp r)"

text \<open>One row of the per-zone aggregate (lines 66-79), in its column order.\<close>

record zone_stat =
  stat_zone :: string
  records :: nat
  avg_lmp :: price
  max_lmp :: price
  min_lmp :: price
  avg_congestion :: price
  max_congestion :: price

section \<open>Exceptions and external events\<close>

text \<open>The exception classes the program's external calls raise.\<close>

datatype py_exc =
    DatabaseError   \<comment> \<open>psycopg2: connection or query failure\<close>
  | APIError        \<comment> \<open>anthropic: authentication, rate limit, network\<close>
  | IndexError      \<comment> \<open>\<open>message.content[0]\<close> on an empty reply\<close>
  | OSError         \<comment> \<open>\<open>os.makedirs\<close>, \<open>open\<close>\<close>
  | ValueError      \<comment> \<open>\<open>int()\<close> of a malformed port\<close>
  | SMTPException   \<comment> \<open>smtplib: connection, TLS, authentication, delivery\<close>
  | ZeroDivisionError \<comment> \<open>\<open>sum(xs)/len(xs)\<close> on an empty list\<close>
  | OverflowError   \<comment> \<open>date arithmetic out of the range of \<open>datetime\<close>\<close>
  | TypeError       \<comment> \<open>anthropic: no authentication method set when a request is built\<close>

text \<open>The message that \<open>send_email\<close> builds (lines 195-227), field by field.\<close>

record mail =
  mail_from :: string
  mail_to :: string
  mail_subject :: string
  mail_body :: string
  attachment_name :: string
  attachment_payload :: string

datatype event =
    Db_connect
  | Db_execute nat          \<comment> \<open>the n-th \<open>cur.execute\<close> of the running function or script\<close>
  | Db_close
  | Llm_request string nat string  \<comment> \<open>model, \<open>max_tokens\<close>, the user message\<close>
  | Fs_makedirs string
  | Fs_write string string  \<comment> \<open>path, whole content\<close>
  | Fs_read string
  | Smtp_connect string int
  | Smtp_starttls
  | Smtp_login string string
  | Smtp_sendmail string string mail
  | Smtp_quit

section \<open>The world\<close>

text \<open>
  The database either works or fails at connection or at the n-th
  \<open>execute\<close>; the generation service answers a prompt with the text blocks of
  its reply or raises; the mail server, given host and port, works or fails
  at one step of the session.
\<close>

datatype db_fault = No_fault | Connect_fails | Execute_fails nat

text \<open>
  A relation of the catalogue: its schema and name as \<open>information_schema\<close>
  lists them, its columns (name and \<open>data_type\<close>) in ordinal order, and its
  rows in storage order, each as the \<open>repr\<close> of the tuple psycopg2 returns.
\<close>

record relation =
  rel_schema :: string
  rel_name :: string
  rel_columns :: "(string \<times> string) list"
  rel_rows :: "string list"

text \<open>
  The server: its fault, the rows of \<open>pjm_data.realtime_prices\<close> with the
  columns the agent reads, and the catalogue of all relations, which the
  diagnostic scripts inspect.
\<close>

record db_server =
  fault :: db_fault
  table :: "price_row list"
  catalogue :: "relation list"

datatype smtp_fault =
    Smtp_ok | Connect_refused | Starttls_fails | Login_fails | Sendmail_fails | Quit_fails

record world =
  db :: db_server
  environ :: "string \<rightharpoonup> string"
  llm :: "string \<Rightarrow> py_exc + string list"
  fs_dirs :: "string list"
  fs_files :: "string \<rightharpoonup> string"
  clock :: datetime
  smtp :: "string \<Rightarrow> int \<Rightarrow> smtp_fault"
  trace :: "event list"

text \<open>
  \<open>trace_ext w es\<close> is the world after the external events \<open>es\<close> and
  nothing else; \<open>emit\<close> records one event.
\<close>

definition trace_ext :: "world \<Rightarrow> event list \<Rightarrow> world" where
  "trace_ext w es = w\<lparr>trace := trace w @ es\<rparr>"

definition emit :: "event \<Rightarrow> world \<Rightarrow> world" where
  "emit e w = trace_ext w [e]"

section \<open>Example inputs\<close>

text \<open>
  A small table on two dates and a world in which every external service
  works; the witnesses of the component theories evaluate the program on them.
\<close>

definition example_row :: "string \<Rightarrow> string \<Rightarrow> rat \<Rightarrow> rat \<Rightarrow> date \<Rightarrow> price_row" where
  "example_row n z p c d =
     \<lparr>node_name = n, zone = z, lmp = p, energy_component = p - c, congestion_component = c,
      loss_component = 0, timestamp = \<lparr>dt_date = d, dt_hour = 12, dt_minute = 0, dt_second = 0\<rparr>\<rparr>"

definition example_table :: "price_row list" where
  "example_table =
     [example_row ''N1'' ''A'' 50 5 (Date 2025 3 7), example_row ''N2'' ''B'' 30 (-2) (Date 2025 3 7),
      example_row ''N3'' ''A'' 61 9 (Date 2025 3 6), example_row ''N4'' ''A'' 52 4 (Date 2025 3 7)]"

text \<open>The rows the reader returns for 2025-03-07 on that table, and its zone rows.\<close>

definition example_prices :: "price_row list" where
  "example_prices =
     [example_row ''N4'' ''A'' 52 4 (Date 2025 3 7), example_row ''N1'' ''A'' 50 5 (Date 2025 3 7),
      example_row ''N2'' ''B'' 30 (-2) (Date 2025 3 7)]"

definition example_zone_stats :: "zone_stat list" where
  "example_zone_stats =
     [\<lparr>stat_zone = ''A'', records = 2, avg_lmp = 51, max_lmp = 52, min_lmp = 50,
       avg_congestion = 9/2, max_congestion = 5\<rparr>,
      \<lparr>stat_zone = ''B'', records = 1, avg_lmp = 30, max_lmp = 30, min_lmp = 30,
       avg_congestion = -2, max_congestion = -2\<rparr>]"

text \<open>
  A catalogue with the price table, an empty table, and a table in another
  schema.
\<close>

definition example_catalogue :: "relation list" where
  "example_catalogue =
     [\<lparr>rel_schema = ''pjm_data'', rel_name = ''realtime_prices'',
       rel_columns = [(''node_name'', ''text''), (''lmp'', ''numeric''), (''timestamp'', ''timestamp without time zone'')],
       rel_rows = [''(N1, 50)'', ''(N2, 30)'', ''(N3, 61)'', ''(N4, 52)'']\<rparr>,
      \<lparr>rel_schema = ''public'', rel_name = ''users'', rel_columns = [(''id'', ''integer'')],
       rel_rows = [''(1,)'']\<rparr>,
      \<lparr>rel_schema = ''pjm_data'', rel_name = ''load_forecast'', rel_columns = [(''mw'', ''numeric'')],
       rel_rows = []\<rparr>]"

definition example_world :: world where
  "example_world =
     \<lparr>db = \<lparr>fault = No_fault, table = example_table, catalogue = example_catalogue\<rparr>,
      environ = [''EMAIL_FROM'' \<mapsto> ''agent@example.com'', ''EMAIL_PASSWORD'' \<mapsto> ''pw'',
                 ''EMAIL_TO'' \<mapsto> ''trader@example.com''],
      llm = (\<lambda>prompt. Inr [''Prices rose in zone A.'']),
      fs_dirs = [], fs_files = Map.empty,
      clock = \<lparr>dt_date = Date 2025 3 8, dt_hour = 6, dt_minute = 30, dt_second = 5\<rparr>,
      smtp = (\<lambda>host port. Smtp_ok), trace = []\<rparr>"

lemma trace_ext_fields [simp, frame_simps]:
  "db (trace_ext w es) = db w" "environ (trace_ext w es) = environ w"
  "llm (trace_ext w es) = llm w" "fs_dirs (trace_ext w es) = fs_dirs w"
  "fs_files (trace_ext w es) = fs_files w" "clock (trace_ext w es) = clock w"
  "smtp (trace_ext w es) = smtp w" "trace (trace_ext w es) = trace w @ es"
  by (simp_all add: trace_ext_def)

lemma trace_ext_inject [simp]: "trace_ext w es = trace_ext w fs \<longleftrightarrow> es = fs"
proof
  assume "trace_ext w es = trace_ext w fs"
  then have "trace (trace_ext w es) = trace (trace_ext w fs)" by (rule arg_cong)
  then show "es = fs" by (simp add: trace_ext_def)
qed simp

lemma trace_ext_self [simp]: "trace_ext w es = w \<longleftrightarrow> es = []" "w = trace_ext w es \<longleftrightarrow> es = []"
  using trace_ext_inject [of w es "[]"] by (auto simp: trace_ext_def)

lemma trace_ext_Nil [simp]: "trace_ext w [] = w"
  and trace_ext_trace_ext [simp]: "trace_ext (trace_ext w es) fs = trace_ext w (es @ fs)"
  and emit_trace_ext [simp]: "emit e w = trace_ext w [e]"
  by (simp_all add: trace_ext_def emit_def)

end
