(* ===== verification/PyFormat.thy ===== *)
theory PyFormat
  imports World
begin

text \<open>
  The part of Python's string formatting that the program uses: \<open>str\<close> of a
  non-negative \<open>int\<close>, the alignment specs \<open>:<w\<close>, \<open>:>w\<close> and \<open>:ws\<close>, the
  fixed-point spec \<open>.2f\<close>, \<open>str * n\<close>, \<open>str(date)\<close>, the \<open>strftime\<close> formats of
  the program, and \<open>int()\<close> of a string. Strings are byte lists; the program's
  three emoji are written as their UTF-8 bytes. Each formatter comes with the
  parser that inverts it, and the round trip is proved.
\<close>

section \<open>Decimal digits\<close>

definition digit_char :: "nat \<Rightarrow> char" where
  "digit_char n = char_of (48 + n)"

fun str_nat :: "nat \<Rightarrow> string" where
  "str_nat n = (if n < 10 then [digit_char n] else str_nat (n div 10) @ [digit_char (n mod 10)])"

declare str_nat.simps [simp del]

definition digit_val :: "char \<Rightarrow> nat option" where
  "digit_val c = (let n = of_char c in if 48 \<le> n \<and> n < 58 then Some (n - 48) else None)"

fun digits_val :: "nat \<Rightarrow> string \<Rightarrow> nat option" where
  "digits_val acc [] = Some acc"
| "digits_val acc (c # cs) =
     (case digit_val c of None \<Rightarrow> None | Some d \<Rightarrow> digits_val (10 * acc + d) cs)"

definition parse_nat :: "string \<Rightarrow> nat option" where
  "parse_nat s = (if s = [] then None else digits_val 0 s)"

section \<open>Padding\<close>

text \<open>
  \<open>format(s, '<w')\<close> (and \<open>'ws'\<close> for strings) pads on the right,
  \<open>format(x, '>w')\<close> (the default for numbers) pads on the left, \<open>%02d\<close> and
  \<open>%04d\<close> pad with zeros; none of them truncates.
\<close>

definition ljust :: "nat \<Rightarrow> string \<Rightarrow> string" where
  "ljust w s = s @ replicate (w - length s) CHR '' ''"

definition rjust :: "nat \<Rightarrow> string \<Rightarrow> string" where
  "rjust w s = replicate (w - length s) CHR '' '' @ s"

definition zpad :: "nat \<Rightarrow> string \<Rightarrow> string" where
  "zpad w s = replicate (w - length s) CHR ''0'' @ s"

section \<open>Fixed point: \<open>.2f\<close>\<close>

text \<open>
  Python rounds the exact value of the number to two decimals, halves to
  even. Prices are modelled as exact rationals, so \<open>float()\<close> is the identity
  here (the error of the binary conversion is not modelled).
\<close>

definition round_half_even :: "rat \<Rightarrow> int" where
  "round_half_even x =
     (let f = \<lfloor>x\<rfloor>; r = x - of_int f in
      if r < 1/2 then f else if 1/2 < r then f + 1 else if even f then f else f + 1)"

definition fmt_f2 :: "rat \<Rightarrow> string" where
  "fmt_f2 x =
     (let q = nat (round_half_even (\<bar>x\<bar> * 100)) in
      (if x < 0 then ''-'' else []) @ str_nat (q div 100) @ ''.'' @ zpad 2 (str_nat (q mod 100)))"

definition parse_f2 :: "string \<Rightarrow> rat option" where
  "parse_f2 s =
     (let neg = (take 1 s = ''-''); t = (if neg then drop 1 s else s); k = length t - 3 in
      if 4 \<le> length t \<and> t ! k = CHR ''.'' then
        (case (parse_nat (take k t), parse_nat (drop (Suc k) t)) of
           (Some a, Some b) \<Rightarrow> Some ((if neg then -1 else 1) * (of_nat a + of_nat b / 100))
         | _ \<Rightarrow> None)
      else None)"

text \<open>The value that the printed text stands for.\<close>

definition f2_value :: "rat \<Rightarrow> rat" where
  "f2_value x = (if x < 0 then -1 else 1) * of_nat (nat (round_half_even (\<bar>x\<bar> * 100))) / 100"

section \<open>Repetition, dates, \<open>int()\<close>\<close>

text \<open>\<open>s * n\<close> on strings.\<close>

definition rep :: "nat \<Rightarrow> string \<Rightarrow> string" where
  "rep n s = concat (replicate n s)"

text \<open>
  Python's \<open>date\<close> admits years 1 to 9999 and the days of the Gregorian
  calendar; \<open>valid_date\<close> is that invariant of the type.
\<close>

definition leap_year :: "nat \<Rightarrow> bool" where
  "leap_year y \<longleftrightarrow> 4 dvd y \<and> (\<not> 100 dvd y \<or> 400 dvd y)"

definition days_in_month :: "nat \<Rightarrow> nat \<Rightarrow> nat" where
  "days_in_month y m =
     (if m = 2 then (if leap_year y then 29 else 28) else if m \<in> {4, 6, 9, 11} then 30 else 31)"

definition valid_date :: "date \<Rightarrow> bool" where
  "valid_date d \<longleftrightarrow>
     1 \<le> year d \<and> year d \<le> 9999 \<and> 1 \<le> month d \<and> month d \<le> 12 \<and>
     1 \<le> day d \<and> day d \<le> days_in_month (year d) (month d)"

definition month_names :: "string list" where
  "month_names =
     [''January'', ''February'', ''March'', ''April'', ''May'', ''June'', ''July'',
      ''August'', ''September'', ''October'', ''November'', ''December'']"

text \<open>
  \<open>str(date)\<close> is \<open>isoformat()\<close>, \<open>%04d-%02d-%02d\<close>. In \<open>strftime\<close>,
  \<open>%Y\<close> is the year in decimal as the C library prints it (no padding below
  1000; from 1000 on both agree), \<open>%m\<close>, \<open>%d\<close>, \<open>%H\<close>, \<open>%M\<close>, \<open>%S\<close>
  are two digits, \<open>%B\<close> the English month name (C locale; no other month
  exists in a Python date).
\<close>

definition date_str :: "date \<Rightarrow> string" where
  "date_str d = zpad 4 (str_nat (year d)) @ ''-'' @ zpad 2 (str_nat (month d)) @ ''-''
     @ zpad 2 (str_nat (day d))"

definition strftime_Ymd :: "date \<Rightarrow> string" where  \<comment> \<open>\<open>'%Y%m%d'\<close>\<close>
  "strftime_Ymd d = str_nat (year d) @ zpad 2 (str_nat (month d)) @ zpad 2 (str_nat (day d))"

definition strftime_Y_m_d :: "date \<Rightarrow> string" where  \<comment> \<open>\<open>'%Y-%m-%d'\<close>\<close>
  "strftime_Y_m_d d = str_nat (year d) @ ''-'' @ zpad 2 (str_nat (month d)) @ ''-''
     @ zpad 2 (str_nat (day d))"

definition strftime_B_d_Y :: "date \<Rightarrow> string" where  \<comment> \<open>\<open>'%B %d, %Y'\<close>\<close>
  "strftime_B_d_Y d =
     (if 1 \<le> month d \<and> month d \<le> 12 then month_names ! (month d - 1) else [])
     @ '' '' @ zpad 2 (str_nat (day d)) @ '', '' @ str_nat (year d)"

definition strftime_datetime :: "datetime \<Rightarrow> string" where  \<comment> \<open>\<open>'%Y-%m-%d %H:%M:%S'\<close>\<close>
  "strftime_datetime t =
     strftime_Y_m_d (dt_date t) @ '' '' @ zpad 2 (str_nat (dt_hour t)) @ '':''
     @ zpad 2 (str_nat (dt_minute t)) @ '':'' @ zpad 2 (str_nat (dt_second t))"

text \<open>
  \<open>int(s)\<close> for a string \<open>s\<close>: surrounding whitespace stripped, an optional
  sign, decimal digits with single underscores between digits (\<open>'5_87'\<close>);
  anything else raises \<open>ValueError\<close> (\<open>None\<close> here). Strings are bytes:
  the non-ASCII digits and spaces Python also accepts are not modelled.
\<close>

definition is_py_space :: "char \<Rightarrow> bool" where
  "is_py_space c \<longleftrightarrow> (let n = of_char c :: nat in (9 \<le> n \<and> n \<le> 13) \<or> (28 \<le> n \<and> n \<le> 32))"

definition py_strip :: "string \<Rightarrow> string" where
  "py_strip s = rev (dropWhile is_py_space (rev (dropWhile is_py_space s)))"

fun us_ok :: "string \<Rightarrow> bool" where
  "us_ok (a # b # cs) \<longleftrightarrow> \<not> (a = CHR ''_'' \<and> b = CHR ''_'') \<and> us_ok (b # cs)"
| "us_ok cs \<longleftrightarrow> True"

definition py_digits :: "string \<Rightarrow> nat option" where
  "py_digits t =
     (if t \<noteq> [] \<and> hd t \<noteq> CHR ''_'' \<and> last t \<noteq> CHR ''_'' \<and> us_ok t
      then parse_nat (filter (\<lambda>c. c \<noteq> CHR ''_'') t) else None)"

definition py_int :: "string \<Rightarrow> int option" where
  "py_int s =
     (let t = py_strip s in
      if t \<noteq> [] \<and> hd t = CHR ''-'' then map_option (\<lambda>n. - int n) (py_digits (tl t))
      else if t \<noteq> [] \<and> hd t = CHR ''+'' then map_option int (py_digits (tl t))
      else map_option int (py_digits t))"

text \<open>
  \<open>s.split('\\n')\<close>, the way a reader of the program's text output sees it
  line by line: \<open>''a\<newline>b\<newline>''\<close> splits into \<open>a\<close>, \<open>b\<close> and an empty last line.
\<close>

fun split_nl :: "string \<Rightarrow> string list" where
  "split_nl [] = [[]]"
| "split_nl (c # cs) =
     (if c = CHR ''\<newline>'' then [] # split_nl cs
      else (case split_nl cs of l # ls \<Rightarrow> (c # l) # ls | [] \<Rightarrow> [[c]]))"

declare digit_char_def [fmt_simps] ljust_def [fmt_simps] rjust_def [fmt_simps]
  zpad_def [fmt_simps] rep_def [fmt_simps] fmt_f2_def [fmt_simps] round_half_even_def [fmt_simps]
  date_str_def [fmt_simps] strftime_Ymd_def [fmt_simps] strftime_Y_m_d_def [fmt_simps]
  strftime_B_d_Y_def [fmt_simps] strftime_datetime_def [fmt_simps] month_names_def [fmt_simps]
  str_nat.simps [fmt_simps] char_of_def [fmt_simps] bit_0 [fmt_simps] f2_value_def [fmt_simps]

section \<open>Properties: round trips and bounds\<close>

lemma digit_val_digit_char [simp]: "d < 10 \<Longrightarrow> digit_val (digit_char d) = Some d"
  by (simp add: digit_val_def digit_char_def)

lemma digits_val_append:
  "digits_val acc (xs @ ys) = Option.bind (digits_val acc xs) (\<lambda>a. digits_val a ys)"
  by (induction xs arbitrary: acc) (auto split: option.split)

lemma str_nat_ne [simp]: "str_nat n \<noteq> []"
  by (subst str_nat.simps) simp

lemma digits_val_str_nat:
  "digits_val acc (str_nat n) = Some (acc * 10 ^ length (str_nat n) + n)"
proof (induction n arbitrary: acc rule: str_nat.induct)
  case (1 n)
  show ?case
  proof (cases "n < 10")
    case True
    then show ?thesis by (simp add: str_nat.simps [of n])
  next
    case False
    then have "digits_val acc (str_nat n) =
        Option.bind (digits_val acc (str_nat (n div 10))) (\<lambda>a. digits_val a [digit_char (n mod 10)])"
      by (simp add: str_nat.simps [of n] digits_val_append)
    also have "\<dots> = Some (10 * (acc * 10 ^ length (str_nat (n div 10)) + n div 10) + n mod 10)"
      using False "1.IH" by simp
    also have "\<dots> = Some (acc * 10 ^ length (str_nat n) + n)"
      using False by (simp add: str_nat.simps [of n] algebra_simps)
    finally show ?thesis .
  qed
qed

theorem parse_nat_str_nat [simp]: "parse_nat (str_nat n) = Some n"
  by (simp add: parse_nat_def digits_val_str_nat)

lemma length_str_nat_lt100: "n < 100 \<Longrightarrow> length (str_nat n) \<le> 2"
  by (cases "n < 10") (simp_all add: str_nat.simps [of n] str_nat.simps [of "n div 10"] less_mult_imp_div_less)

lemma set_str_nat: "set (str_nat n) \<subseteq> digit_char ` {..<10}"
proof (induction n rule: str_nat.induct)
  case (1 n)
  then show ?case by (subst str_nat.simps) auto
qed

lemma notin_str_nat:
  assumes "(of_char c :: nat) < 48 \<or> 58 \<le> (of_char c :: nat)"
  shows "c \<notin> set (str_nat n)"
proof
  assume "c \<in> set (str_nat n)"
  then obtain d where "d < 10" and "c = digit_char d" using set_str_nat [of n] by blast
  then have "(of_char c :: nat) = 48 + d" by (simp add: digit_char_def)
  with assms \<open>d < 10\<close> show False by simp
qed

lemma digit_char_not_minus [simp]:
  assumes "d < 10" shows "digit_char d \<noteq> CHR ''-''"
proof
  assume "digit_char d = CHR ''-''"
  then have "of_char (digit_char d) = (of_char (CHR ''-'') :: nat)" by simp
  with assms show False by (simp add: digit_char_def of_char_of)
qed

lemma str_nat_not_minus: "c \<in> set (str_nat n) \<Longrightarrow> c \<noteq> CHR ''-''"
proof -
  assume "c \<in> set (str_nat n)"
  then obtain d where "d < 10" and "c = digit_char d" using set_str_nat [of n] by blast
  then show ?thesis by simp
qed

lemma take1_str_nat_append: "take 1 (str_nat n @ t) \<noteq> ''-''"
proof (cases "str_nat n")
  case Nil
  then show ?thesis by simp
next
  case (Cons c cs)
  then have "c \<in> set (str_nat n)" by simp
  then have "c \<noteq> CHR ''-''" by (rule str_nat_not_minus)
  with Cons show ?thesis by simp
qed

lemma length_ljust [simp]: "length (ljust w s) = max w (length s)"
  and length_rjust [simp]: "length (rjust w s) = max w (length s)"
  and length_zpad [simp]: "length (zpad w s) = max w (length s)"
  by (simp_all add: ljust_def rjust_def zpad_def)

lemma digits_val_zeros [simp]: "digits_val 0 (replicate k CHR ''0'' @ s) = digits_val 0 s"
  by (induction k) (simp_all add: digit_val_def)

lemma parse_nat_zpad_str_nat [simp]: "parse_nat (zpad w (str_nat n)) = Some n"
  by (simp add: parse_nat_def zpad_def digits_val_str_nat)

lemma round_half_even_dist: "\<bar>of_int (round_half_even x) - x\<bar> \<le> 1/2"
proof -
  have "of_int \<lfloor>x\<rfloor> \<le> x" "x < of_int \<lfloor>x\<rfloor> + 1" by linarith+
  then show ?thesis by (simp add: round_half_even_def Let_def abs_le_iff)
qed

lemma round_half_even_nonneg: "0 \<le> x \<Longrightarrow> 0 \<le> round_half_even x"
  by (simp add: round_half_even_def Let_def)

lemma round_half_even_of_int [simp]: "round_half_even (of_int n) = n"
  by (simp add: round_half_even_def)

lemma parse_f2_shape:
  assumes "take 1 t \<noteq> ''-''" and "4 \<le> length t" and "t ! (length t - 3) = CHR ''.''"
    and "parse_nat (take (length t - 3) t) = Some a"
    and "parse_nat (drop (Suc (length t - 3)) t) = Some b"
  shows "parse_f2 t = Some (of_nat a + of_nat b / 100)"
    and "parse_f2 (''-'' @ t) = Some (- (of_nat a + of_nat b / 100))"
  using assms by (simp_all add: parse_f2_def Let_def)

theorem fmt_f2_parse [simp]: "parse_f2 (fmt_f2 x) = Some (f2_value x)"
proof -
  let ?q = "nat (round_half_even (\<bar>x\<bar> * 100))"
  let ?a = "str_nat (?q div 100)" and ?z = "zpad 2 (str_nat (?q mod 100))"
  have z: "length ?z = 2"
    using length_str_nat_lt100 [of "?q mod 100"] by simp
  let ?t = "?a @ ''.'' @ ?z"
  have k: "length ?t - 3 = length ?a" using z by simp
  have dot: "?t ! (length ?t - 3) = CHR ''.''" using k by (simp add: nth_append)
  have tk: "parse_nat (take (length ?t - 3) ?t) = Some (?q div 100)" using k by simp
  have dk: "parse_nat (drop (Suc (length ?t - 3)) ?t) = Some (?q mod 100)" using k by simp
  have l4: "4 \<le> length ?t" using z str_nat_ne [of "?q div 100"] by (simp add: Suc_le_eq)
  have neg: "take 1 ?t \<noteq> ''-''" by (rule take1_str_nat_append)
  have "(of_nat ?q :: rat) = of_nat (?q div 100) * 100 + of_nat (?q mod 100)"
    by (metis div_mult_mod_eq of_nat_add of_nat_mult of_nat_numeral)
  then have val: "of_nat (?q div 100) + of_nat (?q mod 100) / 100 = (of_nat ?q / 100 :: rat)"
    by simp
  note shape = parse_f2_shape [OF neg l4 dot tk dk]
  have f: "fmt_f2 x = (if x < 0 then ''-'' @ ?t else ?t)"
    by (simp add: fmt_f2_def Let_def)
  show ?thesis
  proof (cases "x < 0")
    case True
    then have "parse_f2 (fmt_f2 x) = Some (- (of_nat ?q / 100))"
      unfolding f by (simp only: if_True shape(2) val)
    with True show ?thesis by (simp add: f2_value_def)
  next
    case False
    then have "parse_f2 (fmt_f2 x) = Some (of_nat ?q / 100)"
      unfolding f by (simp only: if_False shape(1) val)
    with False show ?thesis by (simp add: f2_value_def)
  qed
qed

lemma f2_value_dist: "\<bar>f2_value x - x\<bar> \<le> 1/200"
proof -
  let ?r = "round_half_even (\<bar>x\<bar> * 100)"
  have r0: "0 \<le> ?r" by (simp add: round_half_even_nonneg)
  have "\<bar>of_int ?r - \<bar>x\<bar> * 100\<bar> \<le> 1/2" by (rule round_half_even_dist)
  then have "of_int ?r - \<bar>x\<bar> * 100 \<le> 1/2" and "- (of_int ?r - \<bar>x\<bar> * 100) \<le> 1/2"
    by (simp_all only: abs_le_iff)
  then have lo: "\<bar>x\<bar> - 1/200 \<le> of_int ?r / 100" and hi: "of_int ?r / 100 \<le> \<bar>x\<bar> + 1/200"
    by linarith+
  have v: "f2_value x = (if x < 0 then - (of_int ?r / 100) else of_int ?r / 100)"
    using r0 by (simp add: f2_value_def)
  show ?thesis
  proof (cases "x < 0")
    case True
    then have "\<bar>x\<bar> = - x" by simp
    with True v lo hi show ?thesis by (simp only: if_True abs_le_iff) linarith
  next
    case False
    then have "\<bar>x\<bar> = x" by simp
    with False v lo hi show ?thesis by (simp only: if_False abs_le_iff) linarith
  qed
qed

lemma f2_value_cents: "f2_value (of_int n / 100) = of_int n / 100"
proof -
  have "\<bar>of_int n / 100\<bar> * 100 = (of_int \<bar>n\<bar> :: rat)" by simp
  then show ?thesis by (simp add: f2_value_def abs_if)
qed
lemma us_ok_no_us: "CHR ''_'' \<notin> set t \<Longrightarrow> us_ok t"
  by (induction t rule: us_ok.induct) auto

lemma py_digits_str_nat [simp]: "py_digits (str_nat n) = Some n"
proof -
  have u: "CHR ''_'' \<notin> set (str_nat n)" by (rule notin_str_nat) simp
  then have "hd (str_nat n) \<noteq> CHR ''_''" "last (str_nat n) \<noteq> CHR ''_''"
    using hd_in_set [OF str_nat_ne] last_in_set [OF str_nat_ne] by metis+
  moreover have "filter (\<lambda>c. c \<noteq> CHR ''_'') (str_nat n) = str_nat n"
    using u by (simp add: filter_id_conv) blast
  ultimately show ?thesis using u by (simp add: py_digits_def us_ok_no_us parse_nat_str_nat)
qed

lemma py_int_str_nat [simp]: "py_int (str_nat n) = Some (int n)"
proof -
  have sp: "\<not> is_py_space c" if "c \<in> set (str_nat n)" for c
  proof -
    from that obtain d where "d < 10" and "c = digit_char d" using set_str_nat [of n] by blast
    then show ?thesis by (simp add: is_py_space_def digit_char_def)
  qed
  then have "dropWhile is_py_space (str_nat n) = str_nat n"
    by (simp add: dropWhile_eq_self_iff)
  moreover have "dropWhile is_py_space (rev (str_nat n)) = rev (str_nat n)"
    using sp [OF last_in_set [OF str_nat_ne]] by (simp add: dropWhile_eq_self_iff hd_rev)
  ultimately have strip: "py_strip (str_nat n) = str_nat n" by (simp add: py_strip_def)
  show ?thesis
  proof (cases "str_nat n")
    case Nil
    then show ?thesis by simp
  next
    case (Cons c cs)
    then have "c \<in> set (str_nat n)" by simp
    then obtain d where d: "d < 10" and cd: "c = digit_char d" using set_str_nat [of n] by blast
    have "of_char c = (48 + d :: nat)" using d cd by (simp add: digit_char_def)
    then have "c \<noteq> CHR ''-''" and "c \<noteq> CHR ''+''" by auto
    with Cons strip py_digits_str_nat [of n] show ?thesis
      by (simp add: py_int_def)
  qed
qed

lemma split_nl_ne [simp]: "split_nl s \<noteq> []"
  by (induction s) (auto split: list.split)

lemma split_nl_no_nl: "CHR ''\<newline>'' \<notin> set a \<Longrightarrow> split_nl (a @ b) = (case split_nl b of l # ls \<Rightarrow> (a @ l) # ls)"
proof (induction a)
  case Nil
  then show ?case by (cases "split_nl b") simp_all
next
  case (Cons c a)
  then show ?case by (auto split: list.split)
qed

lemma split_nl_line: "CHR ''\<newline>'' \<notin> set a \<Longrightarrow> split_nl (a @ CHR ''\<newline>'' # b) = a # split_nl b"
  by (simp add: split_nl_no_nl)

lemma split_nl_last: "CHR ''\<newline>'' \<notin> set a \<Longrightarrow> split_nl a = [a]"
  using split_nl_no_nl [of a "[]"] by simp

text \<open>Characters the formatters produce: digits, sign, point and padding.\<close>

lemma nl_notin_str_nat [simp]: "CHR ''\<newline>'' \<notin> set (str_nat n)"
  by (rule notin_str_nat) simp

lemma nl_notin_pad [simp]:
  "CHR ''\<newline>'' \<notin> set (ljust w s) \<longleftrightarrow> CHR ''\<newline>'' \<notin> set s"
  "CHR ''\<newline>'' \<notin> set (rjust w s) \<longleftrightarrow> CHR ''\<newline>'' \<notin> set s"
  "CHR ''\<newline>'' \<notin> set (zpad w s) \<longleftrightarrow> CHR ''\<newline>'' \<notin> set s"
  by (auto simp: ljust_def rjust_def zpad_def)

lemma nl_notin_fmt_f2 [simp]: "CHR ''\<newline>'' \<notin> set (fmt_f2 x)"
  by (simp add: fmt_f2_def Let_def)

lemma nl_notin_rep [simp]: "CHR ''\<newline>'' \<notin> set s \<Longrightarrow> CHR ''\<newline>'' \<notin> set (rep n s)"
  by (simp add: rep_def)

lemma nl_notin_date_str [simp]: "CHR ''\<newline>'' \<notin> set (date_str d)"
  by (simp add: date_str_def)

end
