(* ===== verification/Price_Reader.thy ===== *)
theory Price_Reader
  imports PyFormat
begin

text \<open>
  The Price Reader: \<open>get_yesterday_prices\<close> (\<^verbatim>\<open>pjm_daily_agent.py\<close> lines
  15-93). Its three SQL statements are functions of the table: the five most
  recent distinct dates, the hundred highest-priced rows of the latest date,
  and one aggregate row per zone of that date. The handler threads the world:
  it connects, runs the statements in order and closes the connection, and
  every exception on the way becomes \<open>(None, None, None)\<close>, written \<open>None\<close>.
  \<open>ORDER BY \<dots> DESC\<close> is read as the stable descending sort: SQL leaves the
  order of equal keys open, and the table order is one admissible choice.
\<close>

section \<open>The SQL statements\<close>

text \<open>\<open>ROUND(x::numeric, 2)\<close>: PostgreSQL rounds numerics half away from zero.\<close>

definition pg_round2 :: "rat \<Rightarrow> rat" where
  "pg_round2 x =
     of_int (if x < 0 then - \<lfloor>- x * 100 + 1/2\<rfloor> else \<lfloor>x * 100 + 1/2\<rfloor>) / 100"

text \<open>Lines 29-35: \<open>SELECT DISTINCT timestamp::date \<dots> ORDER BY date DESC LIMIT 5\<close>.\<close>

definition available_dates_query :: "price_row list \<Rightarrow> date list" where
  "available_dates_query rows = take 5 (rev (sort (remdups (map row_date rows))))"

text \<open>Lines 47-63: the rows of one date, \<open>ORDER BY lmp DESC LIMIT 100\<close>.\<close>

definition price_query :: "price_row list \<Rightarrow> date \<Rightarrow> price_row list" where
  "price_query rows d = take 100 (sort_desc lmp (filter (\<lambda>r. row_date r = d) rows))"

text \<open>
  Lines 66-82: \<open>GROUP BY zone\<close> over the rows of one date, each aggregate
  rounded to cents, \<open>ORDER BY avg_lmp DESC\<close> (the rounded output column).
\<close>

definition zone_aggregate :: "price_row list \<Rightarrow> string \<Rightarrow> zone_stat" where
  "zone_aggregate rs z =
     (let g = filter (\<lambda>r. zone r = z) rs; ls = map lmp g; cs = map congestion_component g in
      \<lparr>stat_zone = z, records = length g,
       avg_lmp = pg_round2 (mean ls), max_lmp = pg_round2 (Max (set ls)),
       min_lmp = pg_round2 (Min (set ls)),
       avg_congestion = pg_round2 (mean cs), max_congestion = pg_round2 (Max (set cs))\<rparr>)"

definition stats_query :: "price_row list \<Rightarrow> date \<Rightarrow> zone_stat list" where
  "stats_query rows d =
     (let rs = filter (\<lambda>r. row_date r = d) rows in
      sort_desc avg_lmp (map (zone_aggregate rs) (remdups (map zone rs))))"

section \<open>The handler\<close>

text \<open>
  Lines 17-93. A failing connection raises before any connection exists; a
  failing \<open>execute\<close> raises with the connection open, and the \<open>except\<close>
  branch (lines 91-93) returns without closing it.
\<close>

definition get_yesterday_prices ::
  "world \<Rightarrow> (price_row list \<times> zone_stat list \<times> date) option \<times> world" where
  "get_yesterday_prices w =
     (let srv = db w; t = table srv in
      if fault srv = Connect_fails then (None, w) else
      let w1 = emit Db_connect w in
      if fault srv = Execute_fails 1 then (None, emit (Db_execute 1) w1) else
      let dates = available_dates_query t; w2 = emit (Db_execute 1) w1 in
      if dates = [] then (None, emit Db_close w2) else
      let latest_date = hd dates; w3 = emit (Db_execute 2) w2 in
      if fault srv = Execute_fails 2 then (None, w3) else
      let results = price_query t latest_date; w4 = emit (Db_execute 3) w3 in
      if fault srv = Execute_fails 3 then (None, w4) else
      let zone_stats = stats_query t latest_date in
      (Some (results, zone_stats, latest_date), emit Db_close w4))"

text \<open>
  A live table: besides the rows of 2025-03-07 it already holds a row of
  today, 2025-03-08, the date of the example clock.
\<close>

definition live_world :: world where
  "live_world = example_world\<lparr>db := \<lparr>fault = No_fault,
     table = example_table @ [example_row ''N5'' ''A'' 40 1 (Date 2025 3 8)], catalogue = []\<rparr>\<rparr>"

declare pg_round2_def [sql_simps] available_dates_query_def [sql_simps] price_query_def [sql_simps]
  zone_aggregate_def [sql_simps] stats_query_def [sql_simps]

section \<open>Properties of the queries\<close>

lemma available_dates_query_latest:
  assumes "rows \<noteq> []"
  shows "available_dates_query rows \<noteq> [] \<and> hd (available_dates_query rows) = Max (set (map row_date rows))"
proof -
  let ?ds = "remdups (map row_date rows)"
  have ne: "?ds \<noteq> []" using assms by simp
  then have "rev (sort ?ds) \<noteq> []" by simp
  moreover have "hd (rev (sort ?ds)) = Max (set ?ds)"
    using ne by (simp add: hd_rev last_sort_Max)
  ultimately show ?thesis by (simp add: available_dates_query_def)
qed

lemma available_dates_query_Nil [simp]: "available_dates_query rows = [] \<longleftrightarrow> rows = []"
  by (simp add: available_dates_query_def)

lemma price_query_date: "r \<in> set (price_query rows d) \<Longrightarrow> row_date r = d"
  by (auto simp: price_query_def dest: in_set_takeD)

lemma price_query_Nil: "price_query rows d = [] \<longleftrightarrow> (\<forall>r\<in>set rows. row_date r \<noteq> d)"
  by (auto simp: price_query_def filter_empty_conv)

lemma stats_query_Nil: "stats_query rows d = [] \<longleftrightarrow> (\<forall>r\<in>set rows. row_date r \<noteq> d)"
  by (auto simp: stats_query_def Let_def filter_empty_conv)

lemma set_price_query: "set (price_query rows d) \<subseteq> set rows"
  by (auto simp: price_query_def dest: in_set_takeD)

lemma stat_zone_stats_query: "s \<in> set (stats_query rows d) \<Longrightarrow> \<exists>r\<in>set rows. stat_zone s = zone r"
  by (auto simp: stats_query_def zone_aggregate_def Let_def)

text \<open>
  C2. The price query returns the top hundred rows of the date: each kept
  row has the date, there are \<open>min 100 n\<close> of them for \<open>n\<close> rows on
  that date, they are in descending price order, they are rows of the table,
  and every row of the date that is left out is priced no higher than every
  row that is kept.
\<close>

theorem price_query_top:
  shows "(\<forall>r\<in>set (price_query rows d). row_date r = d)
    \<and> length (price_query rows d) = min 100 (length (filter (\<lambda>r. row_date r = d) rows))
    \<and> sorted_wrt (\<lambda>a b. lmp b \<le> lmp a) (price_query rows d)
    \<and> mset (price_query rows d) \<subseteq># mset (filter (\<lambda>r. row_date r = d) rows)
    \<and> (\<forall>y \<in># mset (filter (\<lambda>r. row_date r = d) rows) - mset (price_query rows d). \<forall>x\<in>set (price_query rows d). lmp y \<le> lmp x)"
proof (intro conjI ballI)
  fix r assume "r \<in> set (price_query rows d)"
  then show "row_date r = d" by (rule price_query_date)
next
  show "length (price_query rows d) = min 100 (length (filter (\<lambda>r. row_date r = d) rows))"
    by (simp add: price_query_def )
next
  show "sorted_wrt (\<lambda>a b. lmp b \<le> lmp a) (price_query rows d)"
    by (simp add: price_query_def)
next
  show "mset (price_query rows d) \<subseteq># mset (filter (\<lambda>r. row_date r = d) rows)"
    by (metis mset_sort_desc mset_take_subseteq price_query_def )
next
  fix y x assume "y \<in># mset (filter (\<lambda>r. row_date r = d) rows) - mset (price_query rows d)" and "x \<in> set (price_query rows d)"
  then show "lmp y \<le> lmp x"
    unfolding price_query_def  by (rule take_sort_desc_top)
qed

lemma stat_zone_zone_aggregate [simp]: "stat_zone (zone_aggregate rs z) = z"
  and records_zone_aggregate [simp]: "records (zone_aggregate rs z) = length (filter (\<lambda>r. zone r = z) rs)"
  by (simp_all add: zone_aggregate_def Let_def)

text \<open>
  C6. The zone query returns one row per zone that has prices on the date
  (distinct zones, exactly the zones of that date), the record counts add up
  to the number of rows of the date, no zone has zero records, and the rows
  are in descending order of average price.
\<close>

theorem stats_query_zones:
  "distinct (map stat_zone (stats_query rows d))
   \<and> set (map stat_zone (stats_query rows d)) = zone ` set (filter (\<lambda>r. row_date r = d) rows)
   \<and> sum_list (map records (stats_query rows d)) = length (filter (\<lambda>r. row_date r = d) rows)
   \<and> (\<forall>s\<in>set (stats_query rows d). 0 < records s)
   \<and> sorted_wrt (\<lambda>a b. avg_lmp b \<le> avg_lmp a) (stats_query rows d)"
proof (intro conjI ballI)
  let ?rs = "filter (\<lambda>r. row_date r = d) rows"
  let ?zs = "remdups (map zone ?rs)"
  have "mset (map stat_zone (stats_query rows d))
      = mset (map stat_zone (map (zone_aggregate ?rs) ?zs))"
    unfolding stats_query_def Let_def by (rule mset_map_sort_desc)
  also have "map stat_zone (map (zone_aggregate ?rs) ?zs) = ?zs" by (simp add: comp_def)
  finally have m: "mset (map stat_zone (stats_query rows d)) = mset ?zs" .
  show "distinct (map stat_zone (stats_query rows d))"
    using mset_eq_imp_distinct_iff [OF m] by simp
  show "set (map stat_zone (stats_query rows d)) = zone ` set ?rs"
    using arg_cong [OF m, of set_mset] by simp
  have "sum_list (map records (stats_query rows d))
      = sum_list (map records (map (zone_aggregate ?rs) ?zs))"
    unfolding stats_query_def Let_def by (rule sum_list_map_sort_desc)
  also have "\<dots> = sum_list (map (\<lambda>z. length (filter (\<lambda>r. zone r = z) ?rs)) ?zs)"
    by (simp add: comp_def)
  also have "\<dots> = length ?rs" by (rule sum_list_group_lengths)
  finally show "sum_list (map records (stats_query rows d)) = length ?rs" .
  fix s assume "s \<in> set (stats_query rows d)"
  then obtain z where "z \<in> set ?zs" and "s = zone_aggregate ?rs z"
    by (auto simp: stats_query_def Let_def)
  then show "0 < records s" by (auto simp: filter_empty_conv)
next
  show "sorted_wrt (\<lambda>a b. avg_lmp b \<le> avg_lmp a) (stats_query rows d)"
    by (simp add: stats_query_def Let_def)
qed

lemma pg_round2_dist: "\<bar>pg_round2 x - x\<bar> \<le> 1/200"
proof (cases "x < 0")
  case True
  let ?f = "\<lfloor>- x * 100 + 1/2\<rfloor>"
  have "of_int ?f \<le> - x * 100 + 1/2" "- x * 100 + 1/2 < of_int ?f + 1" by linarith+
  moreover have "pg_round2 x = - (of_int ?f / 100)" using True by (simp add: pg_round2_def)
  ultimately show ?thesis by (simp only: abs_le_iff) linarith
next
  case False
  let ?f = "\<lfloor>x * 100 + 1/2\<rfloor>"
  have "of_int ?f \<le> x * 100 + 1/2" "x * 100 + 1/2 < of_int ?f + 1" by linarith+
  moreover have "pg_round2 x = of_int ?f / 100" using False by (simp add: pg_round2_def)
  ultimately show ?thesis by (simp only: abs_le_iff) linarith
qed

text \<open>The handler on each of its branches.\<close>

lemma get_yesterday_prices_branches:
  fixes w :: world
  defines "t \<equiv> table (db w)" and "f \<equiv> fault (db w)"
  shows get_yesterday_prices_connect_fails:
      "f = Connect_fails \<Longrightarrow> get_yesterday_prices w = (None, w)"
    and get_yesterday_prices_execute1_fails:
      "f = Execute_fails 1 \<Longrightarrow>
       get_yesterday_prices w = (None, trace_ext w [Db_connect, Db_execute 1])"
    and get_yesterday_prices_empty:
      "f \<noteq> Connect_fails \<Longrightarrow> f \<noteq> Execute_fails 1 \<Longrightarrow> t = [] \<Longrightarrow>
       get_yesterday_prices w = (None, trace_ext w [Db_connect, Db_execute 1, Db_close])"
    and get_yesterday_prices_execute2_fails:
      "f = Execute_fails 2 \<Longrightarrow> t \<noteq> [] \<Longrightarrow>
       get_yesterday_prices w = (None, trace_ext w [Db_connect, Db_execute 1, Db_execute 2])"
    and get_yesterday_prices_execute3_fails:
      "f = Execute_fails 3 \<Longrightarrow> t \<noteq> [] \<Longrightarrow>
       get_yesterday_prices w =
         (None, trace_ext w [Db_connect, Db_execute 1, Db_execute 2, Db_execute 3])"
    and get_yesterday_prices_success:
      "f \<notin> {Connect_fails, Execute_fails 1, Execute_fails 2, Execute_fails 3} \<Longrightarrow> t \<noteq> [] \<Longrightarrow>
       get_yesterday_prices w =
         (Some (price_query t (Max (set (map row_date t))), stats_query t (Max (set (map row_date t))),
                Max (set (map row_date t))),
          trace_ext w [Db_connect, Db_execute 1, Db_execute 2, Db_execute 3, Db_close])"
  unfolding t_def f_def
  using available_dates_query_latest [of "table (db w)"]
  by (simp_all add: get_yesterday_prices_def Let_def)

lemma latest_date_queries_ne:
  assumes "rows \<noteq> []"
  shows "price_query rows (Max (set (map row_date rows))) \<noteq> []"
    and "stats_query rows (Max (set (map row_date rows))) \<noteq> []"
proof -
  have "Max (set (map row_date rows)) \<in> set (map row_date rows)" using assms by simp
  then obtain r where "r \<in> set rows" and "row_date r = Max (set (map row_date rows))" by auto
  then show "price_query rows (Max (set (map row_date rows))) \<noteq> []"
    and "stats_query rows (Max (set (map row_date rows))) \<noteq> []"
    by (auto simp: price_query_Nil stats_query_Nil)
qed

text \<open>
  C7. When the database works and holds rows, the reader picks the latest
  date of the table (the specification's ``most recent available date'';
  the name and the docstring, line 16, say yesterday), returns a non-empty price list all of that date and a
  non-empty zone list, and runs connect, three statements and close in that
  order.
\<close>

theorem get_yesterday_prices_latest:
  assumes "fault (db w) = No_fault" and "table (db w) \<noteq> []"
  shows "\<exists>rs zs d. get_yesterday_prices w =
            (Some (rs, zs, d), trace_ext w [Db_connect, Db_execute 1, Db_execute 2, Db_execute 3, Db_close])
          \<and> d = Max (set (map row_date (table (db w)))) \<and> rs \<noteq> [] \<and> zs \<noteq> []
          \<and> (\<forall>r\<in>set rs. row_date r = d)"
proof -
  let ?t = "table (db w)"
  let ?d = "Max (set (map row_date ?t))"
  note ne = latest_date_queries_ne [OF assms(2)]
  have "get_yesterday_prices w =
     (Some (price_query ?t ?d, stats_query ?t ?d, ?d),
      trace_ext w [Db_connect, Db_execute 1, Db_execute 2, Db_execute 3, Db_close])"
    using assms by (simp add: get_yesterday_prices_success)
  with ne show ?thesis by (blast dest: price_query_date)
qed

text \<open>
  C21. The reader never reads the clock, so on a live table that already
  holds rows of today it returns today's partial day, not yesterday as its
  name and docstring (line 16) say: whatever the clock, the result is the
  same, and when the latest rows are of the clock's date they are the ones
  returned.
\<close>

theorem get_yesterday_prices_today:
  assumes "fault (db w) = No_fault" and "r \<in> set (table (db w))" and "row_date r = dt_date (clock w)"
    and "\<forall>x\<in>set (table (db w)). row_date x \<le> dt_date (clock w)"
  shows "fst (get_yesterday_prices w) =
           Some (price_query (table (db w)) (dt_date (clock w)), stats_query (table (db w)) (dt_date (clock w)),
                 dt_date (clock w))
         \<and> fst (get_yesterday_prices (w\<lparr>clock := c\<rparr>)) = fst (get_yesterday_prices w)"
proof
  have ne: "table (db w) \<noteq> []" using assms(2) by auto
  have m: "dt_date (clock w) \<in> row_date ` set (table (db w))"
    using image_eqI [of "dt_date (clock w)" row_date r, OF assms(3) [symmetric] assms(2)] .
  have "Max (set (map row_date (table (db w)))) = dt_date (clock w)"
    using m assms(4) by (intro Max_eqI) auto
  with assms(1) ne show "fst (get_yesterday_prices w) =
           Some (price_query (table (db w)) (dt_date (clock w)), stats_query (table (db w)) (dt_date (clock w)),
                 dt_date (clock w))"
    by (simp add: get_yesterday_prices_success)
  show "fst (get_yesterday_prices (w\<lparr>clock := c\<rparr>)) = fst (get_yesterday_prices w)"
    by (simp add: get_yesterday_prices_def Let_def)
qed

text \<open>
  C22. When a statement fails after the connection was opened, the reader
  returns no data and the connection it opened is never closed: the
  \<open>except\<close> branch skips \<open>conn.close()\<close>.
\<close>

theorem get_yesterday_prices_leak:
  assumes "fault (db w) = Execute_fails n" and "1 \<le> n" and "n \<le> 3"
    and "n = 1 \<or> table (db w) \<noteq> []"
  shows "\<exists>es. get_yesterday_prices w = (None, trace_ext w es)
           \<and> Db_connect \<in> set es \<and> Db_close \<notin> set es"
proof -
  have "n = 1 \<or> n = 2 \<or> n = 3" using assms(2,3) by arith
  then show ?thesis
  proof (elim disjE)
    assume "n = 1"
    with assms(1) show ?thesis
      by (intro exI [of _ "[Db_connect, Db_execute 1]"]) (simp add: get_yesterday_prices_execute1_fails)
  next
    assume "n = 2"
    with assms show ?thesis
      by (intro exI [of _ "[Db_connect, Db_execute 1, Db_execute 2]"])
        (simp add: get_yesterday_prices_execute2_fails)
  next
    assume "n = 3"
    with assms show ?thesis
      by (intro exI [of _ "[Db_connect, Db_execute 1, Db_execute 2, Db_execute 3]"])
        (simp add: get_yesterday_prices_execute3_fails)
  qed
qed


text \<open>
  C24. An empty table and an unreachable database give the caller the same
  value: the reader cannot tell "no data for any date" from a failure.
\<close>

theorem get_yesterday_prices_no_data_indistinct:
  assumes "fault (db w) = No_fault" and "table (db w) = []" and "fault (db w') = Connect_fails"
  shows "fst (get_yesterday_prices w) = fst (get_yesterday_prices w')"
  using assms by (simp add: get_yesterday_prices_empty get_yesterday_prices_connect_fails)

text \<open>
  C25. Each zone's reported average price is within half a cent of the exact
  mean of that zone's prices on the date (\<open>ROUND(AVG(lmp)::numeric, 2)\<close>).
\<close>

theorem stats_avg_close:
  assumes "s \<in> set (stats_query rows d)"
  shows "\<bar>avg_lmp s - mean (map lmp (filter (\<lambda>r. zone r = stat_zone s)
                                   (filter (\<lambda>r. row_date r = d) rows)))\<bar> \<le> 1/200"
proof -
  let ?rs = "filter (\<lambda>r. row_date r = d) rows"
  from assms obtain z where "s = zone_aggregate ?rs z"
    by (auto simp: stats_query_def Let_def)
  then have "avg_lmp s = pg_round2 (mean (map lmp (filter (\<lambda>r. zone r = z) ?rs)))"
    and "stat_zone s = z"
    by (simp_all add: zone_aggregate_def Let_def)
  then show ?thesis using pg_round2_dist by simp
qed

section \<open>Witnesses\<close>

lemma price_query_example:
  "price_query example_table (Date 2025 3 7) =
     [example_row ''N4'' ''A'' 52 4 (Date 2025 3 7), example_row ''N1'' ''A'' 50 5 (Date 2025 3 7),
      example_row ''N2'' ''B'' 30 (-2) (Date 2025 3 7)]"
  by (simp add: example_table_def price_query_def example_row_def row_date_def sort_desc_def)

lemma stats_query_example:
  "stats_query example_table (Date 2025 3 7) =
     [\<lparr>stat_zone = ''A'', records = 2, avg_lmp = 51, max_lmp = 52, min_lmp = 50,
       avg_congestion = 9/2, max_congestion = 5\<rparr>,
      \<lparr>stat_zone = ''B'', records = 1, avg_lmp = 30, max_lmp = 30, min_lmp = 30,
       avg_congestion = -2, max_congestion = -2\<rparr>]"
  by (simp add: example_table_def stats_query_def example_row_def row_date_def sort_desc_def
      zone_aggregate_def pg_round2_def mean_def)

theorem price_query_top_witness:
  "length (price_query example_table (Date 2025 3 7)) = 3 \<and>
   sorted_wrt (\<lambda>a b. lmp b \<le> lmp a) (price_query example_table (Date 2025 3 7)) \<and>
   mset (price_query example_table (Date 2025 3 7))
     \<subseteq># mset (filter (\<lambda>r. row_date r = Date 2025 3 7) example_table)"
  using price_query_top [of example_table "Date 2025 3 7"] price_query_example by simp

theorem stats_query_zones_witness:
  "map stat_zone (stats_query example_table (Date 2025 3 7)) = [''A'', ''B''] \<and>
   sum_list (map records (stats_query example_table (Date 2025 3 7))) = 3"
  using stats_query_zones [of example_table "Date 2025 3 7"] stats_query_example by simp

theorem get_yesterday_prices_latest_witness:
  "\<exists>rs zs d. get_yesterday_prices example_world =
     (Some (rs, zs, d), trace_ext example_world [Db_connect, Db_execute 1, Db_execute 2, Db_execute 3, Db_close])
   \<and> d = Date 2025 3 7 \<and> rs \<noteq> [] \<and> zs \<noteq> [] \<and> (\<forall>r\<in>set rs. row_date r = d)"
proof -
  have f: "fault (db example_world) = No_fault" and t: "table (db example_world) \<noteq> []"
    by (simp_all add: example_world_def example_table_def)
  have m: "Max (set (map row_date (table (db example_world)))) = Date 2025 3 7"
    by (simp add: example_world_def example_table_def example_row_def row_date_def less_eq_date_def
        max_def)
  show ?thesis using get_yesterday_prices_latest [OF f t] m by simp
qed

theorem get_yesterday_prices_today_witness:
  "fst (get_yesterday_prices live_world) =
     Some (price_query (table (db live_world)) (Date 2025 3 8), stats_query (table (db live_world)) (Date 2025 3 8),
           Date 2025 3 8)
   \<and> fst (get_yesterday_prices (live_world\<lparr>clock := clock example_world\<lparr>dt_date := Date 2025 3 9\<rparr>\<rparr>))
       = fst (get_yesterday_prices live_world)"
proof -
  let ?r = "example_row ''N5'' ''A'' 40 1 (Date 2025 3 8)"
  have h: "fault (db live_world) = No_fault" "?r \<in> set (table (db live_world))"
    "row_date ?r = dt_date (clock live_world)"
    "\<forall>x\<in>set (table (db live_world)). row_date x \<le> dt_date (clock live_world)"
    by (simp_all add: live_world_def example_world_def example_table_def example_row_def row_date_def
        less_eq_date_def)
  have c: "dt_date (clock live_world) = Date 2025 3 8" by (simp add: live_world_def example_world_def)
  from get_yesterday_prices_today [OF h, of "clock example_world\<lparr>dt_date := Date 2025 3 9\<rparr>"] show ?thesis
    by (simp only: c)
qed

theorem get_yesterday_prices_leak_witness:
  "\<exists>es. get_yesterday_prices (example_world\<lparr>db := \<lparr>fault = Execute_fails 2, table = example_table, catalogue = []\<rparr>\<rparr>)
        = (None, trace_ext (example_world\<lparr>db := \<lparr>fault = Execute_fails 2, table = example_table, catalogue = []\<rparr>\<rparr>) es)
      \<and> Db_connect \<in> set es \<and> Db_close \<notin> set es"
  by (rule get_yesterday_prices_leak [of _ 2]) (simp_all add: example_table_def)

theorem get_yesterday_prices_no_data_indistinct_witness:
  "fst (get_yesterday_prices (example_world\<lparr>db := \<lparr>fault = No_fault, table = [], catalogue = []\<rparr>\<rparr>))
   = fst (get_yesterday_prices (example_world\<lparr>db := \<lparr>fault = Connect_fails, table = example_table, catalogue = []\<rparr>\<rparr>))"
  by (rule get_yesterday_prices_no_data_indistinct) simp_all

theorem stats_avg_close_witness:
  "\<bar>avg_lmp (\<lparr>stat_zone = ''A'', records = 2, avg_lmp = 51, max_lmp = 52, min_lmp = 50,
       avg_congestion = 9/2, max_congestion = 5\<rparr>)
     - mean (map lmp (filter (\<lambda>r. zone r = ''A'')
                        (filter (\<lambda>r. row_date r = Date 2025 3 7) example_table)))\<bar> \<le> 1/200"
  using stats_avg_close [of "\<lparr>stat_zone = ''A'', records = 2, avg_lmp = 51, max_lmp = 52,
      min_lmp = 50, avg_congestion = 9/2, max_congestion = 5\<rparr>" example_table "Date 2025 3 7"]
    stats_query_example by simp

end
