(* ===== verification/Summarizer.thy ===== *)
theory Summarizer
  imports PyFormat
begin

text \<open>
  The Summarizer: the text \<open>data_summary\<close> that \<open>analyze_with_claude\<close> builds
  from the price rows, the zone rows and the date (\<^verbatim>\<open>pjm_daily_agent.py\<close>
  lines 103-138) before it sends it to the generation service. Each f-string
  of the source is one definition: a ranked line per price row of the first
  fifteen, the zone table in the order the rows come, and the overall
  metrics over all the price rows passed in (at most a hundred). Python raises
  \<open>ZeroDivisionError\<close> at \<open>sum(all_lmps)/len(all_lmps)\<close> on an empty list;
  the model returns that error. The three emoji are their UTF-8 bytes.
\<close>

section \<open>The digest\<close>

definition emoji_fire :: string where
  "emoji_fire = [CHR 0xF0, CHR 0x9F, CHR 0x94, CHR 0xA5]"

definition emoji_bar_chart :: string where
  "emoji_bar_chart = [CHR 0xF0, CHR 0x9F, CHR 0x93, CHR 0x8A]"

definition emoji_chart_up :: string where
  "emoji_chart_up = [CHR 0xF0, CHR 0x9F, CHR 0x93, CHR 0x88]"

text \<open>Lines 109-113: one ranked row, \<open>i\<close> counted from 1.\<close>

definition top_line :: "nat \<Rightarrow> price_row \<Rightarrow> string" where
  "top_line i row =
     rjust 2 (str_nat i) @ ''. '' @ ljust 20 (node_name row) @ '' | Zone: ''
       @ ljust 6 (zone row) @ '' | ''
     @ ''LMP: $'' @ rjust 7 (fmt_f2 (lmp row)) @ '' | ''
     @ ''Cong: $'' @ rjust 6 (fmt_f2 (congestion_component row)) @ '' | ''
     @ ''Energy: $'' @ rjust 6 (fmt_f2 (energy_component row)) @ ''\<newline>''"

text \<open>Line 108: \<open>for i, row in enumerate(price_data[:15], 1)\<close>.\<close>

fun top_lines :: "nat \<Rightarrow> price_row list \<Rightarrow> string" where
  "top_lines i [] = []"
| "top_lines i (row # rows) = top_line i row @ top_lines (Suc i) rows"

text \<open>Line 118: the header of the zone table.\<close>

definition zone_header :: string where
  "zone_header =
     ljust 10 ''Zone'' @ '' '' @ ljust 10 ''Records'' @ '' '' @ ljust 12 ''Avg LMP'' @ '' ''
     @ ljust 12 ''Max LMP'' @ '' '' @ ljust 12 ''Avg Cong'' @ '' '' @ ljust 12 ''Max Cong''
     @ ''\<newline>''"

text \<open>Lines 122-127: one zone row (\<open>min_lmp\<close> is unpacked and not shown).\<close>

definition zone_line :: "zone_stat \<Rightarrow> string" where
  "zone_line s =
     ljust 10 (stat_zone s) @ '' '' @ ljust 10 (str_nat (records s)) @ '' ''
     @ ''$'' @ rjust 9 (fmt_f2 (avg_lmp s)) @ ''  ''
     @ ''$'' @ rjust 9 (fmt_f2 (max_lmp s)) @ ''  ''
     @ ''$'' @ rjust 9 (fmt_f2 (avg_congestion s)) @ ''  ''
     @ ''$'' @ rjust 9 (fmt_f2 (max_congestion s)) @ ''\<newline>''"

text \<open>Lines 130-138: the overall metrics over the rows passed in.\<close>

definition overall_metrics :: "price_row list \<Rightarrow> py_exc + string" where
  "overall_metrics price_data =
     (let all_lmps = map lmp price_data; all_congestion = map congestion_component price_data in
      if all_lmps = [] then Inl ZeroDivisionError
      else Inr (''\<newline>'' @ rep 70 ''='' @ ''\<newline>''
        @ emoji_chart_up @ '' OVERALL MARKET METRICS:\<newline>''
        @ ''Average LMP: $'' @ fmt_f2 (mean all_lmps) @ ''/MWh\<newline>''
        @ ''Peak LMP: $'' @ fmt_f2 (Max (set all_lmps)) @ ''/MWh\<newline>''
        @ ''Average Congestion: $'' @ fmt_f2 (mean all_congestion) @ ''/MWh\<newline>''
        @ ''Max Congestion: $'' @ fmt_f2 (Max (set all_congestion)) @ ''/MWh\<newline>''))"

text \<open>Lines 103-138: the whole digest.\<close>

definition data_summary :: "price_row list \<Rightarrow> zone_stat list \<Rightarrow> date \<Rightarrow> py_exc + string" where
  "data_summary price_data zone_stats analysis_date =
     (let head =
        ''PJM Real-Time Market Analysis - '' @ date_str analysis_date @ ''\<newline>''
        @ rep 70 ''='' @ ''\<newline>\<newline>''
        @ emoji_fire @ '' TOP 15 HIGHEST LMP NODES:\<newline>''
        @ top_lines 1 (take 15 price_data)
        @ ''\<newline>'' @ rep 70 ''='' @ ''\<newline>''
        @ emoji_bar_chart @ '' ZONE-LEVEL STATISTICS:\<newline>''
        @ zone_header
        @ rep 70 ''-'' @ ''\<newline>''
        @ concat (map zone_line zone_stats)
      in case overall_metrics price_data of Inl e \<Rightarrow> Inl e | Inr m \<Rightarrow> Inr (head @ m))"

text \<open>The lines of the ranked section as a reader sees them (no newline).\<close>

fun rank_texts :: "nat \<Rightarrow> price_row list \<Rightarrow> string list" where
  "rank_texts i [] = []"
| "rank_texts i (row # rows) = butlast (top_line i row) # rank_texts (Suc i) rows"

text \<open>
  The digest as its reader sees it: the list of its lines. This is what the
  Summarizer promises; \<open>data_summary_split\<close> shows that the text the
  code builds has exactly these lines.
\<close>

definition digest_head :: "date \<Rightarrow> string list" where
  "digest_head d =
     [''PJM Real-Time Market Analysis - '' @ date_str d, rep 70 ''='', [],
      emoji_fire @ '' TOP 15 HIGHEST LMP NODES:'']"

definition zone_head :: "string list" where
  "zone_head =
     [[], rep 70 ''='', emoji_bar_chart @ '' ZONE-LEVEL STATISTICS:'', butlast zone_header,
      rep 70 ''-'']"

definition metric_lines :: "price_row list \<Rightarrow> string list" where
  "metric_lines rows =
     [[], rep 70 ''='', emoji_chart_up @ '' OVERALL MARKET METRICS:'',
      ''Average LMP: $'' @ fmt_f2 (mean (map lmp rows)) @ ''/MWh'',
      ''Peak LMP: $'' @ fmt_f2 (Max (set (map lmp rows))) @ ''/MWh'',
      ''Average Congestion: $'' @ fmt_f2 (mean (map congestion_component rows)) @ ''/MWh'',
      ''Max Congestion: $'' @ fmt_f2 (Max (set (map congestion_component rows))) @ ''/MWh'', []]"

definition digest_lines :: "price_row list \<Rightarrow> zone_stat list \<Rightarrow> date \<Rightarrow> string list" where
  "digest_lines rows zs d =
     digest_head d @ rank_texts 1 (take 15 rows) @ zone_head
     @ map (\<lambda>s. butlast (zone_line s)) zs @ metric_lines rows"

text \<open>Reading a metric line \<open>label $x/MWh\<close> back.\<close>

definition parse_metric :: "string \<Rightarrow> string \<Rightarrow> rat option" where
  "parse_metric label line =
     (let n = length line in
      if take (length label) line = label \<and> length label + 4 \<le> n \<and> drop (n - 4) line = ''/MWh''
      then parse_f2 (take (n - 4 - length label) (drop (length label) line)) else None)"

definition no_nl :: "string \<Rightarrow> bool" where
  "no_nl s \<longleftrightarrow> CHR ''\<newline>'' \<notin> set s"

section \<open>Reading the digest back\<close>

lemma top_line_nl:
  "top_line i r = butlast (top_line i r) @ ''\<newline>''"
  "no_nl (node_name r) \<Longrightarrow> no_nl (zone r) \<Longrightarrow> CHR ''\<newline>'' \<notin> set (butlast (top_line i r))"
  by (simp_all add: top_line_def butlast_append no_nl_def)

lemma zone_line_nl:
  "zone_line s = butlast (zone_line s) @ ''\<newline>''"
  "no_nl (stat_zone s) \<Longrightarrow> CHR ''\<newline>'' \<notin> set (butlast (zone_line s))"
  by (simp_all add: zone_line_def butlast_append no_nl_def)

lemma split_nl_top_lines:
  "\<forall>r\<in>set rs. no_nl (node_name r) \<and> no_nl (zone r) \<Longrightarrow>
   split_nl (top_lines i rs @ b) = rank_texts i rs @ split_nl b"
proof (induction rs arbitrary: i)
  case Nil
  then show ?case by simp
next
  case (Cons r rs)
  define u where "u = butlast (top_line i r)"
  from Cons.prems have ok: "CHR ''\<newline>'' \<notin> set u" by (simp add: u_def top_line_nl(2))
  have tu: "top_line i r = u @ ''\<newline>''" unfolding u_def by (rule top_line_nl(1))
  have "split_nl (top_lines i (r # rs) @ b) = split_nl (u @ CHR ''\<newline>'' # (top_lines (Suc i) rs @ b))"
    by (simp add: tu)
  also have "\<dots> = u # split_nl (top_lines (Suc i) rs @ b)"
    using ok by (rule split_nl_line)
  also have "\<dots> = rank_texts i (r # rs) @ split_nl b" using Cons by (simp add: u_def)
  finally show ?case .
qed

lemma split_nl_zone_lines:
  "\<forall>s\<in>set zs. no_nl (stat_zone s) \<Longrightarrow>
   split_nl (concat (map zone_line zs) @ b) = map (\<lambda>s. butlast (zone_line s)) zs @ split_nl b"
proof (induction zs)
  case Nil
  then show ?case by simp
next
  case (Cons s zs)
  define u where "u = butlast (zone_line s)"
  from Cons.prems have ok: "CHR ''\<newline>'' \<notin> set u" by (simp add: u_def zone_line_nl(2))
  have tu: "zone_line s = u @ ''\<newline>''" unfolding u_def by (rule zone_line_nl(1))
  have "split_nl (concat (map zone_line (s # zs)) @ b)
      = split_nl (u @ CHR ''\<newline>'' # (concat (map zone_line zs) @ b))"
    by (simp add: tu)
  also have "\<dots> = u # split_nl (concat (map zone_line zs) @ b)"
    using ok by (rule split_nl_line)
  also have "\<dots> = map (\<lambda>s. butlast (zone_line s)) (s # zs) @ split_nl b"
    using Cons by (simp add: u_def)
  finally show ?case .
qed

lemma length_rank_texts [simp]: "length (rank_texts i rs) = length rs"
  by (induction rs arbitrary: i) simp_all

lemma nth_rank_texts: "k < length rs \<Longrightarrow> rank_texts i rs ! k = butlast (top_line (i + k) (rs ! k))"
  by (induction rs arbitrary: i k) (auto simp: nth_Cons split: nat.split)

lemma nl_notin_emoji [simp]:
  "CHR ''\<newline>'' \<notin> set emoji_fire" "CHR ''\<newline>'' \<notin> set emoji_bar_chart"
  "CHR ''\<newline>'' \<notin> set emoji_chart_up"
  by (simp_all add: emoji_fire_def emoji_bar_chart_def emoji_chart_up_def)

lemma zone_header_text: "zone_header = butlast zone_header @ ''\<newline>''"
  and nl_notin_zone_header: "CHR ''\<newline>'' \<notin> set (butlast zone_header)"
  by (simp_all add: zone_header_def butlast_append)

lemma data_summary_split:
  assumes "rows \<noteq> []"
    and "\<forall>r\<in>set (take 15 rows). no_nl (node_name r) \<and> no_nl (zone r)"
    and "\<forall>s\<in>set zs. no_nl (stat_zone s)"
  shows "\<exists>s. data_summary rows zs d = Inr s \<and> split_nl s = digest_lines rows zs d"
proof -
  define zh where "zh = butlast zone_header"
  have zh: "zone_header = zh @ ''\<newline>''" "CHR ''\<newline>'' \<notin> set zh"
    unfolding zh_def by (rule zone_header_text, rule nl_notin_zone_header)
  show ?thesis
    using assms
    by (simp add: data_summary_def overall_metrics_def Let_def digest_lines_def digest_head_def
        zone_head_def metric_lines_def zh zh_def[symmetric]
        split_nl_no_nl split_nl_top_lines split_nl_zone_lines)
qed
lemma length_digest_parts [simp]:
  "length (digest_head d) = 4" "length zone_head = 5" "length (metric_lines rows) = 8"
  by (simp_all add: digest_head_def zone_head_def metric_lines_def)

lemma metric_lines_average: "metric_lines rows ! 3 = ''Average LMP: $'' @ fmt_f2 (mean (map lmp rows)) @ ''/MWh''"
  by (simp add: metric_lines_def)

lemma parse_metric_line [simp]:
  "parse_metric label (label @ fmt_f2 x @ ''/MWh'') = Some (f2_value x)"
  by (simp add: parse_metric_def Let_def)

text \<open>Where the zone table and the average sit among the digest's lines.\<close>

lemma digest_lines_zone_table:
  "take (length zs) (drop (9 + min 15 (length rows)) (digest_lines rows zs d))
     = map (\<lambda>z. butlast (zone_line z)) zs"
  and length_digest_lines: "length (digest_lines rows zs d) = 17 + min 15 (length rows) + length zs"
  by (simp_all add: digest_lines_def min.commute)

lemma digest_lines_average:
  "parse_metric ''Average LMP: $'' (digest_lines rows zs d ! (12 + min 15 (length rows) + length zs))
     = Some (f2_value (mean (map lmp rows)))"
proof -
  have "digest_lines rows zs d ! (12 + min 15 (length rows) + length zs)
        = ''Average LMP: $'' @ fmt_f2 (mean (map lmp rows)) @ ''/MWh''"
    by (simp add: digest_lines_def nth_append metric_lines_average min.commute) (simp add: min_def)
  then show ?thesis by (simp only: parse_metric_line)
qed

section \<open>Properties of the digest\<close>

text \<open>
  C8. For a non-empty price list whose names hold no newline, the digest
  lists exactly the first \<open>min 15 n\<close> rows, the k-th ranked line showing
  rank \<open>k+1\<close> and the k-th row, followed by the blank line that closes the
  section.
\<close>

theorem digest_ranked_lines:
  assumes "rows \<noteq> []"
    and "\<forall>r\<in>set (take 15 rows). no_nl (node_name r) \<and> no_nl (zone r)"
    and "\<forall>z\<in>set zs. no_nl (stat_zone z)"
  shows "\<exists>s. data_summary rows zs d = Inr s
           \<and> (\<forall>k < min 15 (length rows). split_nl s ! (4 + k) = butlast (top_line (Suc k) (rows ! k)))
           \<and> split_nl s ! (4 + min 15 (length rows)) = []"
proof -
  obtain s where s: "data_summary rows zs d = Inr s" and l: "split_nl s = digest_lines rows zs d"
    using data_summary_split [OF assms] by blast
  have "split_nl s ! (4 + k) = butlast (top_line (Suc k) (rows ! k))" if "k < min 15 (length rows)" for k
    using that by (simp add: l digest_lines_def nth_append nth_rank_texts min.commute)
  moreover have "split_nl s ! (4 + min 15 (length rows)) = []"
    by (simp add: l digest_lines_def nth_append zone_head_def min.commute)
  ultimately show ?thesis using s by blast
qed

text \<open>
  C18. The zone table of the digest shows the zone rows in exactly the order
  they are passed in (the reader's order is kept, not re-sorted), and the
  digest has \<open>17 + min 15 n + z\<close> lines for \<open>n\<close> prices and \<open>z\<close> zones.
\<close>

theorem digest_zone_table:
  assumes "rows \<noteq> []"
    and "\<forall>r\<in>set (take 15 rows). no_nl (node_name r) \<and> no_nl (zone r)"
    and "\<forall>z\<in>set zs. no_nl (stat_zone z)"
  shows "\<exists>s. data_summary rows zs d = Inr s
           \<and> take (length zs) (drop (9 + min 15 (length rows)) (split_nl s))
               = map (\<lambda>z. butlast (zone_line z)) zs
           \<and> length (split_nl s) = 17 + min 15 (length rows) + length zs"
proof -
  obtain s where s: "data_summary rows zs d = Inr s" and l: "split_nl s = digest_lines rows zs d"
    using data_summary_split [OF assms] by blast
  then show ?thesis by (simp add: digest_lines_zone_table length_digest_lines)
qed

text \<open>
  C19. The "Average LMP" line of the digest reads back as the mean price of
  the rows passed in, to within half a cent; the mean is over those rows
  (the reader's top hundred), not over the whole day.
\<close>

theorem digest_average_close:
  assumes "rows \<noteq> []"
    and "\<forall>r\<in>set (take 15 rows). no_nl (node_name r) \<and> no_nl (zone r)"
    and "\<forall>z\<in>set zs. no_nl (stat_zone z)"
  shows "\<exists>s v. data_summary rows zs d = Inr s
           \<and> parse_metric ''Average LMP: $'' (split_nl s ! (12 + min 15 (length rows) + length zs)) = Some v
           \<and> \<bar>v - mean (map lmp rows)\<bar> \<le> 1/200"
proof -
  obtain s where s: "data_summary rows zs d = Inr s" and l: "split_nl s = digest_lines rows zs d"
    using data_summary_split [OF assms] by blast
  have p: "parse_metric ''Average LMP: $'' (split_nl s ! (12 + min 15 (length rows) + length zs))
      = Some (f2_value (mean (map lmp rows)))"
    unfolding l by (rule digest_lines_average)
  show ?thesis using s p f2_value_dist [of "mean (map lmp rows)"] by blast
qed


section \<open>Witnesses\<close>

lemma example_digest_inputs:
  "example_prices \<noteq> []"
  "\<forall>r\<in>set (take 15 example_prices). no_nl (node_name r) \<and> no_nl (zone r)"
  "\<forall>z\<in>set example_zone_stats. no_nl (stat_zone z)"
  by (simp_all add: example_prices_def example_zone_stats_def example_row_def no_nl_def)

theorem digest_ranked_lines_witness:
  "\<exists>s. data_summary example_prices example_zone_stats (Date 2025 3 7) = Inr s
     \<and> split_nl s ! 4 = '' 1. N4                   | Zone: A      | LMP: $  52.00 | Cong: $  4.00 | Energy: $ 48.00''
     \<and> split_nl s ! 7 = []"
proof -
  obtain s where s: "data_summary example_prices example_zone_stats (Date 2025 3 7) = Inr s"
    and k: "\<forall>k < min 15 (length example_prices).
              split_nl s ! (4 + k) = butlast (top_line (Suc k) (example_prices ! k))"
    and e: "split_nl s ! (4 + min 15 (length example_prices)) = []"
    using digest_ranked_lines [OF example_digest_inputs, of "Date 2025 3 7"] by blast
  have "butlast (top_line 1 (example_prices ! 0))
        = '' 1. N4                   | Zone: A      | LMP: $  52.00 | Cong: $  4.00 | Energy: $ 48.00''"
    by code_simp
  moreover have "length example_prices = 3" by (simp add: example_prices_def)
  ultimately show ?thesis using s k [rule_format, of 0] e by simp
qed

theorem digest_zone_table_witness:
  "\<exists>s. data_summary example_prices example_zone_stats (Date 2025 3 7) = Inr s
     \<and> take 2 (drop 12 (split_nl s)) =
         [''A          2          $    51.00  $    52.00  $     4.50  $     5.00'',
          ''B          1          $    30.00  $    30.00  $    -2.00  $    -2.00'']
     \<and> length (split_nl s) = 22"
proof -
  obtain s where s: "data_summary example_prices example_zone_stats (Date 2025 3 7) = Inr s"
    and t: "take (length example_zone_stats) (drop (9 + min 15 (length example_prices)) (split_nl s))
            = map (\<lambda>z. butlast (zone_line z)) example_zone_stats"
    and n: "length (split_nl s) = 17 + min 15 (length example_prices) + length example_zone_stats"
    using digest_zone_table [OF example_digest_inputs, of "Date 2025 3 7"] by blast
  have "map (\<lambda>z. butlast (zone_line z)) example_zone_stats =
         [''A          2          $    51.00  $    52.00  $     4.50  $     5.00'',
          ''B          1          $    30.00  $    30.00  $    -2.00  $    -2.00'']"
  proof -
    have a: "butlast (zone_line (example_zone_stats ! 0))
          = ''A          2          $    51.00  $    52.00  $     4.50  $     5.00''"
      and b: "butlast (zone_line (example_zone_stats ! 1))
          = ''B          1          $    30.00  $    30.00  $    -2.00  $    -2.00''"
      by code_simp+
    have "example_zone_stats = [example_zone_stats ! 0, example_zone_stats ! 1]"
      by (simp add: example_zone_stats_def)
    then have "map (\<lambda>z. butlast (zone_line z)) example_zone_stats
        = map (\<lambda>z. butlast (zone_line z)) [example_zone_stats ! 0, example_zone_stats ! 1]"
      by (rule arg_cong)
    then show ?thesis by (simp only: list.map a b)
  qed
  moreover have "9 + min 15 (length example_prices) = 12" "length example_zone_stats = 2"
    "17 + min 15 (length example_prices) + length example_zone_stats = 22"
    by (simp_all add: example_prices_def example_zone_stats_def)
  ultimately show ?thesis using s t n by (simp only:) blast
qed

theorem digest_average_close_witness:
  "\<exists>s v. data_summary example_prices example_zone_stats (Date 2025 3 7) = Inr s
     \<and> parse_metric ''Average LMP: $'' (split_nl s ! 17) = Some v \<and> \<bar>v - 44\<bar> \<le> 1/200"
proof -
  have "length example_prices = 3" "length example_zone_stats = 2"
    "mean (map lmp example_prices) = 44"
    by (simp_all add: example_prices_def example_zone_stats_def example_row_def mean_def)
  then show ?thesis
    using digest_average_close [OF example_digest_inputs, of "Date 2025 3 7"] by simp
qed

end
