(* ===== verification/Narrator.thy ===== *)
theory Narrator
  imports Summarizer
begin

text \<open>
  The Narrative Generator: \<open>analyze_with_claude\<close> (\<^verbatim>\<open>pjm_daily_agent.py\<close>
  lines 95-158). On an empty price list it returns a fixed text and calls
  nothing. Otherwise it builds the digest (the Summarizer), wraps it in the
  fixed instruction of lines 145-154, sends one request to the generation
  service (the world's \<open>llm\<close> oracle; the request is an event of the trace)
  and returns the text of the first content block of the reply. A failure
  of the service (authentication with the key of \<open>ANTHROPIC_API_KEY\<close>, rate
  limit, network) is the oracle's \<open>Inl APIError\<close> (after the client's own retries, which
  happen inside the one call); a reply without content
  blocks makes \<open>message.content[0]\<close> raise \<open>IndexError\<close>. Neither is caught.
\<close>

section \<open>The request\<close>

definition claude_model :: string where
  "claude_model = ''claude-sonnet-4-20250514''"

text \<open>Lines 145-154: the f-string around \<open>{data_summary}\<close>.\<close>

definition prompt_head :: string where
  "prompt_head =
     ''Analyze this PJM real-time market data and provide:\<newline>\<newline>''
     @ ''1. **Price Spikes Analysis**: Identify nodes/zones with unusual LMP spikes and potential causes\<newline>''
     @ ''2. **Congestion Hotspots**: Which areas showed significant congestion and why it matters\<newline>''
     @ ''3. **Trading Opportunities**: Actionable insights for energy traders based on the patterns\<newline>''
     @ ''4. **Zone Comparison**: Key differences between zones that traders should watch\<newline>\<newline>''"

definition prompt_tail :: string where
  "prompt_tail =
     ''\<newline>\<newline>Keep it concise, focused on trading insights, and highlight anything unusual for PJM markets.''"

definition claude_prompt :: "string \<Rightarrow> string" where
  "claude_prompt digest = prompt_head @ digest @ prompt_tail"

text \<open>Line 98: the text returned for an empty price list.\<close>

definition no_data_text :: string where
  "no_data_text = ''No data available to analyze.''"

text \<open>
  Lines 95-158. The digest cannot fail here (the list is not empty), but its
  \<open>ZeroDivisionError\<close> is passed on as the code would raise it.
\<close>

definition analyze_with_claude ::
  "price_row list \<Rightarrow> zone_stat list \<Rightarrow> date \<Rightarrow> world \<Rightarrow> (py_exc + string) \<times> world" where
  "analyze_with_claude price_data zone_stats analysis_date w =
     (if price_data = [] then (Inr no_data_text, w) else
      case data_summary price_data zone_stats analysis_date of
        Inl e \<Rightarrow> (Inl e, w)
      | Inr s \<Rightarrow>
          (let p = claude_prompt s; w1 = emit (Llm_request claude_model 2000 p) w in
           case llm w p of
             Inl e \<Rightarrow> (Inl e, w1)
           | Inr [] \<Rightarrow> (Inl IndexError, w1)
           | Inr (t # _) \<Rightarrow> (Inr t, w1)))"

text \<open>Reading the digest back out of a request.\<close>

definition prompt_digest :: "string \<Rightarrow> string option" where
  "prompt_digest p =
     (let n = length p; h = length prompt_head; t = length prompt_tail in
      if h + t \<le> n \<and> take h p = prompt_head \<and> drop (n - t) p = prompt_tail
      then Some (take (n - h - t) (drop h p)) else None)"

section \<open>Behaviour\<close>

lemma data_summary_Inr: "rows \<noteq> [] \<Longrightarrow> \<exists>s. data_summary rows zs d = Inr s"
  by (simp add: data_summary_def overall_metrics_def Let_def)

lemma analyze_with_claude_request:
  assumes "rows \<noteq> []" and "data_summary rows zs d = Inr s"
  shows "snd (analyze_with_claude rows zs d w) = trace_ext w [Llm_request claude_model 2000 (claude_prompt s)]"
    and "fst (analyze_with_claude rows zs d w) =
           (case llm w (claude_prompt s) of Inl e \<Rightarrow> Inl e | Inr [] \<Rightarrow> Inl IndexError
            | Inr (t # _) \<Rightarrow> Inr t)"
  using assms
  by (simp_all add: analyze_with_claude_def Let_def split: sum.split list.split)

text \<open>The digest is read back out of a request unchanged.\<close>

lemma prompt_digest_claude_prompt [simp]: "prompt_digest (claude_prompt s) = Some s"
  by (simp add: prompt_digest_def claude_prompt_def Let_def)

lemma analyze_with_claude_empty [simp]: "analyze_with_claude [] zs d w = (Inr no_data_text, w)"
  by (simp add: analyze_with_claude_def)

section \<open>Properties of the generator\<close>

text \<open>
  C14. On a non-empty price list the generator sends exactly one request, with
  the fixed model name, a limit of 2000 tokens and the digest wrapped in the
  instruction, and returns the text of the first block of a non-empty reply.
\<close>

theorem analyze_with_claude_reply:
  assumes "rows \<noteq> []" and "data_summary rows zs d = Inr s"
    and "llm w (claude_prompt s) = Inr (t # ts)"
  shows "analyze_with_claude rows zs d w
           = (Inr t, trace_ext w [Llm_request claude_model 2000 (claude_prompt s)])"
  using analyze_with_claude_request [OF assms(1,2), of w] assms(3)
  by (simp add: prod_eq_iff)

text \<open>
  C20. A failed \<open>messages.create\<close> call is passed on unchanged as the
  generator's error, and a reply without content blocks raises
  \<open>IndexError\<close>: the generator never turns a failure into a narrative, and
  it catches nothing. (The event is the one \<open>create\<close> call; the client's
  own retries inside it, \<open>max_retries=2\<close> by default, are not separate
  events: see the findings.)
\<close>

theorem analyze_with_claude_failure:
  assumes "rows \<noteq> []" and "data_summary rows zs d = Inr s"
    and "llm w (claude_prompt s) = Inl e \<or> llm w (claude_prompt s) = Inr []"
  shows "analyze_with_claude rows zs d w
           = (Inl (if llm w (claude_prompt s) = Inr [] then IndexError else e),
              trace_ext w [Llm_request claude_model 2000 (claude_prompt s)])"
  using analyze_with_claude_request [OF assms(1,2), of w] assms(3)
  by (auto simp: prod_eq_iff)

section \<open>Witnesses\<close>

theorem analyze_with_claude_reply_witness:
  "\<exists>s. analyze_with_claude example_prices example_zone_stats (Date 2025 3 7) example_world
        = (Inr ''Prices rose in zone A.'',
           trace_ext example_world [Llm_request claude_model 2000 (claude_prompt s)])"
proof -
  obtain s where s: "data_summary example_prices example_zone_stats (Date 2025 3 7) = Inr s"
    using data_summary_Inr [of example_prices] by (auto simp: example_prices_def)
  have "llm example_world (claude_prompt s) = Inr [''Prices rose in zone A.'']"
    by (simp add: example_world_def)
  from analyze_with_claude_reply [OF _ s this] show ?thesis
    by (auto simp: example_prices_def)
qed

theorem analyze_with_claude_failure_witness:
  "\<exists>s. analyze_with_claude example_prices example_zone_stats (Date 2025 3 7)
             (example_world\<lparr>llm := \<lambda>p. Inl APIError\<rparr>)
        = (Inl APIError, trace_ext (example_world\<lparr>llm := \<lambda>p. Inl APIError\<rparr>)
                     [Llm_request claude_model 2000 (claude_prompt s)])"
proof -
  obtain s where s: "data_summary example_prices example_zone_stats (Date 2025 3 7) = Inr s"
    using data_summary_Inr [of example_prices] by (auto simp: example_prices_def)
  have "llm (example_world\<lparr>llm := \<lambda>p. Inl APIError\<rparr>) (claude_prompt s) = Inl APIError
        \<or> llm (example_world\<lparr>llm := \<lambda>p. Inl APIError\<rparr>) (claude_prompt s) = Inr []"
    by simp
  from analyze_with_claude_failure [OF _ s this] show ?thesis
    by (auto simp: example_prices_def)
qed

end
