(* ===== verification/Report_Writer.thy ===== *)
theory Report_Writer
  imports PyFormat
begin

text \<open>
  The Report Writer: \<open>save_report\<close> (\<^verbatim>\<open>pjm_daily_agent.py\<close> lines 160-175)
  over the world's file system (a list of directories and a map from paths
  to contents). \<open>os.makedirs(..., exist_ok=True)\<close> creates the directory or
  leaves an existing one, and raises \<open>FileExistsError\<close> when a file holds
  its name; \<open>open(path, 'w')\<close> raises \<open>IsADirectoryError\<close> when a directory
  holds the path. Both are \<open>OSError\<close> and are not caught. The file's six
  \<open>write\<close> calls are modelled as one write of their concatenation, at the
  close of the \<open>with\<close> block; \<open>datetime.now()\<close> is the world's clock.
\<close>

section \<open>The report file\<close>

definition report_dir :: string where
  "report_dir = ''reports''"

text \<open>Line 165: the path is a function of the date only.\<close>

definition report_prefix :: string where
  "report_prefix = report_dir @ ''/pjm_market_brief_''"

definition report_path :: "date \<Rightarrow> string" where
  "report_path analysis_date = report_prefix @ strftime_Ymd analysis_date @ ''.txt''"

text \<open>Lines 168-173: the content of the file.\<close>

definition report_content :: "string \<Rightarrow> date \<Rightarrow> datetime \<Rightarrow> string" where
  "report_content analysis analysis_date now =
     ''PJM Real-Time Market Brief\<newline>''
     @ ''Analysis Date: '' @ strftime_Y_m_d analysis_date @ ''\<newline>''
     @ rep 70 ''='' @ ''\<newline>\<newline>''
     @ analysis
     @ ''\<newline>\<newline>'' @ rep 70 ''='' @ ''\<newline>''
     @ ''Report Generated: '' @ strftime_datetime now @ ''\<newline>''"

text \<open>
  Line 163: \<open>os.makedirs(reports_dir, exist_ok=True)\<close>; the first component
  of the result is the exception raised, if any.
\<close>

definition makedirs :: "string \<Rightarrow> world \<Rightarrow> py_exc option \<times> world" where
  "makedirs d w =
     (let w1 = emit (Fs_makedirs d) w in
      if fs_files w d \<noteq> None then (Some OSError, w1)
      else if d \<in> set (fs_dirs w) then (None, w1)
      else (None, w1\<lparr>fs_dirs := fs_dirs w @ [d]\<rparr>))"

text \<open>Lines 167-173: \<open>open(path, 'w')\<close>, the writes and the close.\<close>

definition write_file :: "string \<Rightarrow> string \<Rightarrow> world \<Rightarrow> py_exc option \<times> world" where
  "write_file path content w =
     (if path \<in> set (fs_dirs w) then (Some OSError, w)
      else (None, emit (Fs_write path content) (w\<lparr>fs_files := (fs_files w)(path \<mapsto> content)\<rparr>)))"

text \<open>Lines 160-175. A failing call leaves the events made so far in the trace.\<close>

definition save_report :: "string \<Rightarrow> date \<Rightarrow> world \<Rightarrow> (py_exc + string) \<times> world" where
  "save_report analysis analysis_date w =
     (case makedirs report_dir w of
        (Some e, w1) \<Rightarrow> (Inl e, w1)
      | (None, w1) \<Rightarrow>
          (let report_file = report_path analysis_date;
               content = report_content analysis analysis_date (clock w1) in
           case write_file report_file content w1 of
             (Some e, w2) \<Rightarrow> (Inl e, w2)
           | (None, w2) \<Rightarrow> (Inr report_file, w2)))"

section \<open>Reading a report back\<close>

text \<open>The date in a report's path, the inverse of \<open>report_path\<close>.\<close>

definition parse_report_path :: "string \<Rightarrow> date option" where
  "parse_report_path p =
     (let pre = report_prefix; n = length p; k = length pre in
      if k + 9 \<le> n \<and> take k p = pre \<and> drop (n - 4) p = ''.txt'' then
        (let m = take (n - k - 4) (drop k p); l = length m in
         case (parse_nat (take (l - 4) m), parse_nat (take 2 (drop (l - 4) m)), parse_nat (drop (l - 2) m)) of
           (Some y, Some mo, Some da) \<Rightarrow> Some (Date y mo da)
         | _ \<Rightarrow> None)
      else None)"

text \<open>\<open>drop_lines k s\<close>: \<open>s\<close> after its first \<open>k\<close> newlines.\<close>

fun drop_lines :: "nat \<Rightarrow> string \<Rightarrow> string" where
  "drop_lines 0 s = s"
| "drop_lines (Suc k) s = drop_lines k (drop 1 (dropWhile (\<lambda>c. c \<noteq> CHR ''\<newline>'') s))"

text \<open>
  The narrative in a report: what is left after the four header lines and
  before the four newlines of the trailer.
\<close>

definition report_analysis :: "string \<Rightarrow> string" where
  "report_analysis c = rev (drop_lines 4 (rev (drop_lines 4 c)))"

section \<open>Lemmas\<close>

lemma length_zpad2_str_nat: "n < 100 \<Longrightarrow> length (zpad 2 (str_nat n)) = 2"
  using length_str_nat_lt100 [of n] by simp

lemma drop_lines_line:
  "CHR ''\<newline>'' \<notin> set a \<Longrightarrow> drop_lines (Suc k) (a @ CHR ''\<newline>'' # b) = drop_lines k b"
proof -
  assume a: "CHR ''\<newline>'' \<notin> set a"
  have "dropWhile (\<lambda>c. c \<noteq> CHR ''\<newline>'') (a @ CHR ''\<newline>'' # b) = CHR ''\<newline>'' # b"
    using a by (subst dropWhile_append2) auto
  then show ?thesis by simp
qed

lemma nl_notin_strftime [simp]:
  "CHR ''\<newline>'' \<notin> set (strftime_Ymd d)" "CHR ''\<newline>'' \<notin> set (strftime_Y_m_d d)"
  "CHR ''\<newline>'' \<notin> set (strftime_datetime t)"
  by (simp_all add: strftime_Ymd_def strftime_Y_m_d_def strftime_datetime_def)

lemma drop_lines_nl [simp]: "drop_lines (Suc k) (CHR ''\<newline>'' # b) = drop_lines k b"
  by simp

lemma days_in_month_le: "days_in_month y m \<le> 31"
  by (simp add: days_in_month_def)

lemma report_path_ne_dir [simp]: "report_path d \<noteq> report_dir" "report_dir \<noteq> report_path d"
proof -
  have "length (report_path d) \<noteq> length report_dir"
    by (simp add: report_path_def report_prefix_def report_dir_def)
  then show "report_path d \<noteq> report_dir" "report_dir \<noteq> report_path d" by auto
qed

lemma makedirs_report_dir:
  "fs_files w report_dir = None \<Longrightarrow>
   makedirs report_dir w = (None, trace_ext (w\<lparr>fs_dirs := fs_dirs w @
     (if report_dir \<in> set (fs_dirs w) then [] else [report_dir])\<rparr>) [Fs_makedirs report_dir])"
  by (simp add: makedirs_def trace_ext_def)

text \<open>The whole effect of a successful save.\<close>

lemma save_report_ok:
  assumes "fs_files w report_dir = None" and "report_path d \<notin> set (fs_dirs w)"
  shows "save_report a d w =
    (Inr (report_path d),
     trace_ext (w\<lparr>fs_dirs := fs_dirs w @ (if report_dir \<in> set (fs_dirs w) then [] else [report_dir]),
                  fs_files := (fs_files w)(report_path d \<mapsto> report_content a d (clock w))\<rparr>)
       [Fs_makedirs report_dir, Fs_write (report_path d) (report_content a d (clock w))])"
  using assms
  by (simp add: save_report_def makedirs_report_dir write_file_def Let_def trace_ext_def)

lemma save_report_Inr:
  assumes "save_report a d w = (Inr p, w')"
  shows "fs_files w report_dir = None" and "report_path d \<notin> set (fs_dirs w)" and "p = report_path d"
proof -
  show f: "fs_files w report_dir = None"
    using assms by (auto simp: save_report_def makedirs_def Let_def split: if_splits)
  show "report_path d \<notin> set (fs_dirs w)"
    using assms by (auto simp: save_report_def makedirs_report_dir [OF f] write_file_def Let_def
        split: if_splits)
  then show "p = report_path d"
    using assms by (simp add: save_report_ok [OF f])
qed

text \<open>The path read back.\<close>

lemma parse_report_path_report_path:
  assumes "valid_date d"
  shows "parse_report_path (report_path d) = Some d"
proof -
  obtain y m dd where d: "d = Date y m dd" by (cases d)
  define Y where "Y = str_nat y"
  define M where "M = zpad 2 (str_nat m)"
  define D where "D = zpad 2 (str_nat dd)"
  have "m < 100" "dd < 100"
    using assms days_in_month_le [of y m] by (simp_all add: d valid_date_def)
  then have lm: "length M = 2" and ld: "length D = 2"
    unfolding M_def D_def by (simp_all only: length_zpad2_str_nat)
  have p: "report_path d = report_prefix @ Y @ M @ D @ ''.txt''"
    by (simp add: report_path_def strftime_Ymd_def d Y_def M_def D_def)
  have "Y \<noteq> []" by (simp add: Y_def)
  then have y1: "Suc 0 \<le> length Y" by (simp add: Suc_le_eq)
  have "parse_nat Y = Some y" "parse_nat M = Some m" "parse_nat D = Some dd"
    by (simp_all add: Y_def M_def D_def)
  with y1 show ?thesis
    unfolding p by (simp add: parse_report_path_def d Let_def lm ld)
qed

section \<open>Properties of the writer\<close>

text \<open>
  C15. Saving a second report for the same date, at any later time, writes
  to the same path as the first and fully replaces its content.
\<close>

theorem save_report_replaces:
  assumes "save_report a1 d w = (Inr p, w1)"
  shows "\<exists>w2. save_report a2 d (w1\<lparr>clock := t\<rparr>) = (Inr p, w2)
           \<and> fs_files w2 p = Some (report_content a2 d t) \<and> report_dir \<in> set (fs_dirs w2)"
proof -
  note ok = save_report_Inr [OF assms]
  have w1: "w1 = trace_ext (w\<lparr>fs_dirs := fs_dirs w @ (if report_dir \<in> set (fs_dirs w) then [] else [report_dir]),
                  fs_files := (fs_files w)(report_path d \<mapsto> report_content a1 d (clock w))\<rparr>)
       [Fs_makedirs report_dir, Fs_write (report_path d) (report_content a1 d (clock w))]"
    using assms by (simp add: save_report_ok [OF ok(1,2)] ok(3))
  have "fs_files (w1\<lparr>clock := t\<rparr>) report_dir = None" and "report_path d \<notin> set (fs_dirs (w1\<lparr>clock := t\<rparr>))"
    using ok(1,2) by (simp_all add: w1 trace_ext_def)
  from save_report_ok [OF this, of a2] show ?thesis
    by (simp add: ok(3) trace_ext_def)
qed

text \<open>
  C16. The date is read back from the report's path for every date a
  Python \<open>date\<close> can hold, and distinct dates get distinct files.
\<close>

theorem report_path_roundtrip:
  assumes "valid_date d1" and "valid_date d2"
  shows "parse_report_path (report_path d1) = Some d1
           \<and> (report_path d1 = report_path d2 \<longleftrightarrow> d1 = d2)"
proof -
  have p1: "parse_report_path (report_path d1) = Some d1" by (rule parse_report_path_report_path [OF assms(1)])
  have p2: "parse_report_path (report_path d2) = Some d2" by (rule parse_report_path_report_path [OF assms(2)])
  have "d1 = d2" if e: "report_path d1 = report_path d2"
  proof -
    from p1 have "parse_report_path (report_path d2) = Some d1" by (simp only: e)
    with p2 show "d1 = d2" by simp
  qed
  with p1 show ?thesis by blast
qed

text \<open>
  C26. The narrative is read back unchanged from the report file whatever
  it contains: the header and the trailer never merge with it.
\<close>

theorem report_content_roundtrip: "report_analysis (report_content a d t) = a"
proof -
  define l1 where "l1 = ''PJM Real-Time Market Brief''"
  define l2 where "l2 = ''Analysis Date: '' @ strftime_Y_m_d d"
  define l3 where "l3 = rep 70 ''=''"
  define l4 where "l4 = ''Report Generated: '' @ strftime_datetime t"
  define nl where "nl = CHR ''\<newline>''"
  have n: "nl \<notin> set l1" "nl \<notin> set l2" "nl \<notin> set l3" "nl \<notin> set l4"
    by (simp_all add: nl_def l1_def l2_def l3_def l4_def)
  have c: "report_content a d t = l1 @ nl # l2 @ nl # l3 @ nl # nl # (a @ nl # nl # l3 @ nl # l4 @ [nl])"
    by (simp add: report_content_def l1_def l2_def l3_def l4_def nl_def)
  have four: "(4::nat) = Suc (Suc (Suc (Suc 0)))" by simp
  have "drop_lines 4 (report_content a d t) = a @ nl # nl # l3 @ nl # l4 @ [nl]"
    unfolding c four
    by (simp only: drop_lines_line [folded nl_def, OF n(1)] drop_lines_line [folded nl_def, OF n(2)]
        drop_lines_line [folded nl_def, OF n(3)] drop_lines_nl [folded nl_def] drop_lines.simps(1))
  moreover have "rev (a @ nl # nl # l3 @ nl # l4 @ [nl]) = nl # rev l4 @ nl # rev l3 @ nl # nl # rev a"
    by simp
  moreover have "nl \<notin> set (rev l4)" "nl \<notin> set (rev l3)" using n by simp_all
  ultimately show ?thesis
    unfolding report_analysis_def four
    by (simp only: drop_lines_nl [folded nl_def] drop_lines_line [folded nl_def, of "rev l4"]
        drop_lines_line [folded nl_def, of "rev l3"] drop_lines.simps(1) rev_rev_ident not_False_eq_True)
qed

text \<open>
  C29. When a file holds the name of the reports directory the writer fails
  with \<open>OSError\<close> and writes nothing.
\<close>

theorem save_report_dir_blocked:
  assumes "fs_files w report_dir \<noteq> None"
  shows "save_report a d w = (Inl OSError, trace_ext w [Fs_makedirs report_dir])"
  using assms by (simp add: save_report_def makedirs_def)

section \<open>Witnesses\<close>

lemma example_world_fs: "fs_files example_world report_dir = None"
  "report_path (Date 2025 3 7) \<notin> set (fs_dirs example_world)"
  by (simp_all add: example_world_def)

theorem save_report_replaces_witness:
  "\<exists>w2. save_report ''Second.'' (Date 2025 3 7)
          ((snd (save_report ''First.'' (Date 2025 3 7) example_world))\<lparr>clock := clock example_world\<rparr>)
        = (Inr (report_path (Date 2025 3 7)), w2)
     \<and> fs_files w2 (report_path (Date 2025 3 7))
        = Some (report_content ''Second.'' (Date 2025 3 7) (clock example_world))
     \<and> report_dir \<in> set (fs_dirs w2)"
proof -
  obtain w1 where w1: "save_report ''First.'' (Date 2025 3 7) example_world
      = (Inr (report_path (Date 2025 3 7)), w1)"
    using save_report_ok [OF example_world_fs, of "''First.''"] by simp
  from save_report_replaces [OF w1, of "''Second.''" "clock example_world"] show ?thesis
    by (simp add: w1)
qed

theorem report_path_roundtrip_witness:
  "parse_report_path (report_path (Date 2025 3 7)) = Some (Date 2025 3 7)
     \<and> report_path (Date 2025 3 7) \<noteq> report_path (Date 2025 3 8)"
  using report_path_roundtrip [of "Date 2025 3 7" "Date 2025 3 8"]
  by (simp add: valid_date_def days_in_month_def)

theorem save_report_dir_blocked_witness:
  "save_report ''Text.'' (Date 2025 3 7) (example_world\<lparr>fs_files := [report_dir \<mapsto> ''old'']\<rparr>)
     = (Inl OSError, trace_ext (example_world\<lparr>fs_files := [report_dir \<mapsto> ''old'']\<rparr>) [Fs_makedirs report_dir])"
  using save_report_dir_blocked [of "example_world\<lparr>fs_files := [report_dir \<mapsto> ''old'']\<rparr>"] by simp

end
