(* ===== verification/Notifier.thy ===== *)
theory Notifier
  imports PyFormat
begin

text \<open>
  The Notifier: \<open>send_email\<close> (\<^verbatim>\<open>pjm_daily_agent.py\<close> lines 177-247). It
  reads its configuration from the environment, converts \<open>SMTP_PORT\<close> with
  \<open>int()\<close> before it validates anything, checks that sender, password and
  recipient are all truthy, composes the message, reads the report file,
  and runs one SMTP session: connect, STARTTLS, login, sendmail, quit. The
  whole body is one \<open>try\<close>: every exception (\<open>ValueError\<close> of the port,
  \<open>OSError\<close> of the file, any SMTP failure) becomes the result \<open>False\<close>, and
  the session is then left without \<open>quit\<close>. The world's \<open>smtp\<close> oracle says
  at which step the server given by host and port fails; the MIME encoding
  of the message (base64 of the attachment) is not modelled, the message is
  kept field by field.
\<close>

section \<open>Configuration\<close>

text \<open>Python truthiness of \<open>os.getenv(k)\<close>: set and not empty.\<close>

definition truthy :: "string option \<Rightarrow> bool" where
  "truthy v \<longleftrightarrow> v \<noteq> None \<and> v \<noteq> Some []"

text \<open>Line 190: \<open>all([email_from, email_password, email_to])\<close>.\<close>

definition mail_configured :: "world \<Rightarrow> bool" where
  "mail_configured w \<longleftrightarrow>
     truthy (environ w ''EMAIL_FROM'') \<and> truthy (environ w ''EMAIL_PASSWORD'')
     \<and> truthy (environ w ''EMAIL_TO'')"

text \<open>Line 186: \<open>os.getenv('SMTP_SERVER', 'smtp.gmail.com')\<close>.\<close>

definition smtp_server_of :: "world \<Rightarrow> string" where
  "smtp_server_of w = (case environ w ''SMTP_SERVER'' of None \<Rightarrow> ''smtp.gmail.com'' | Some s \<Rightarrow> s)"

text \<open>
  Line 187: \<open>int(os.getenv('SMTP_PORT', 587))\<close>; \<open>None\<close> is the
  \<open>ValueError\<close> of a malformed value.
\<close>

definition smtp_port_of :: "world \<Rightarrow> int option" where
  "smtp_port_of w = (case environ w ''SMTP_PORT'' of None \<Rightarrow> Some 587 | Some s \<Rightarrow> py_int s)"

section \<open>The message\<close>

text \<open>\<open>os.path.basename\<close>: the part after the last slash.\<close>

definition py_basename :: "string \<Rightarrow> string" where
  "py_basename p = rev (takeWhile (\<lambda>c. c \<noteq> CHR ''/'') (rev p))"

definition email_subject :: "date \<Rightarrow> string" where  \<comment> \<open>line 198\<close>
  "email_subject analysis_date = ''PJM Market Brief - '' @ strftime_B_d_Y analysis_date"

text \<open>Lines 201-214 (the character \<open>0x27\<close> is the apostrophe).\<close>

definition email_body :: "string \<Rightarrow> date \<Rightarrow> string \<Rightarrow> string" where
  "email_body analysis analysis_date report_file =
     ''\<newline>Good morning,\<newline>\<newline>Here'' @ [CHR 0x27]
     @ ''s your automated PJM Market Intelligence Brief for '' @ strftime_B_d_Y analysis_date
     @ ''.\<newline>\<newline>'' @ analysis @ ''\<newline>\<newline>---\<newline>''
     @ ''This report was automatically generated by your PJM Daily Agent.\<newline>''
     @ ''Report file attached: '' @ py_basename report_file @ ''\<newline>\<newline>''
     @ ''Best regards,\<newline>PJM Market Intelligence Agent\<newline>''"

text \<open>Lines 195-227: the message with its attachment.\<close>

definition compose_mail :: "string \<Rightarrow> string \<Rightarrow> string \<Rightarrow> date \<Rightarrow> string \<Rightarrow> string \<Rightarrow> mail" where
  "compose_mail email_from email_to analysis analysis_date report_file payload =
     \<lparr>mail_from = email_from, mail_to = email_to, mail_subject = email_subject analysis_date,
      mail_body = email_body analysis analysis_date report_file,
      attachment_name = py_basename report_file, attachment_payload = payload\<rparr>"

section \<open>The session\<close>

text \<open>Lines 230-240: connect, STARTTLS, login, sendmail, quit; the first failure ends it.\<close>

definition smtp_session ::
  "string \<Rightarrow> int \<Rightarrow> string \<Rightarrow> string \<Rightarrow> string \<Rightarrow> mail \<Rightarrow> world \<Rightarrow> bool \<times> world" where
  "smtp_session host port email_from email_password email_to msg w =
     (let f = smtp w host port; w1 = emit (Smtp_connect host port) w in
      if f = Connect_refused then (False, w1) else
      let w2 = emit Smtp_starttls w1 in
      if f = Starttls_fails then (False, w2) else
      let w3 = emit (Smtp_login email_from email_password) w2 in
      if f = Login_fails then (False, w3) else
      let w4 = emit (Smtp_sendmail email_from email_to msg) w3 in
      if f = Sendmail_fails then (False, w4) else
      let w5 = emit Smtp_quit w4 in
      if f = Quit_fails then (False, w5) else (True, w5))"

text \<open>Lines 177-247.\<close>

definition send_email :: "string \<Rightarrow> string \<Rightarrow> date \<Rightarrow> world \<Rightarrow> bool \<times> world" where
  "send_email report_file analysis analysis_date w =
     (case smtp_port_of w of
        None \<Rightarrow> (False, w)
      | Some smtp_port \<Rightarrow>
          if \<not> mail_configured w then (False, w) else
          (case (environ w ''EMAIL_FROM'', environ w ''EMAIL_PASSWORD'', environ w ''EMAIL_TO'') of
             (Some email_from, Some email_password, Some email_to) \<Rightarrow>
               (let w1 = emit (Fs_read report_file) w in
                case fs_files w report_file of
                  None \<Rightarrow> (False, w1)
                | Some payload \<Rightarrow>
                    smtp_session (smtp_server_of w) smtp_port email_from email_password email_to
                      (compose_mail email_from email_to analysis analysis_date report_file payload) w1)
           | _ \<Rightarrow> (False, w)))"

section \<open>Lemmas\<close>

lemma mail_configured_values:
  assumes "mail_configured w"
  obtains a b c where "environ w ''EMAIL_FROM'' = Some a" "environ w ''EMAIL_PASSWORD'' = Some b"
    "environ w ''EMAIL_TO'' = Some c"
  using assms by (auto simp: mail_configured_def truthy_def)

lemma send_email_configured:
  assumes "smtp_port_of w = Some port"
    and "environ w ''EMAIL_FROM'' = Some a" "environ w ''EMAIL_PASSWORD'' = Some b"
    "environ w ''EMAIL_TO'' = Some c" and "mail_configured w"
  shows "send_email f t d w =
    (case fs_files w f of
       None \<Rightarrow> (False, trace_ext w [Fs_read f])
     | Some payload \<Rightarrow> smtp_session (smtp_server_of w) port a b c (compose_mail a c t d f payload)
                         (trace_ext w [Fs_read f]))"
  using assms by (simp add: send_email_def Let_def split: option.split)

lemma smtp_session_events:
  "smtp_session h p a b c m w =
     (smtp w h p = Smtp_ok,
      trace_ext w ([Smtp_connect h p] @
        (if smtp w h p = Connect_refused then [] else [Smtp_starttls] @
         (if smtp w h p = Starttls_fails then [] else [Smtp_login a b] @
          (if smtp w h p = Login_fails then [] else [Smtp_sendmail a c m] @
           (if smtp w h p = Sendmail_fails then [] else [Smtp_quit]))))))"
  by (cases "smtp w h p") (simp_all add: smtp_session_def Let_def)

section \<open>Properties of the notifier\<close>

text \<open>
  C3. With sender, password or recipient unset or empty, the notifier
  reports failure and touches nothing: no file is read and no connection is
  opened (whatever the port setting).
\<close>

theorem send_email_unconfigured:
  assumes "\<exists>k\<in>{''EMAIL_FROM'', ''EMAIL_PASSWORD'', ''EMAIL_TO''}. environ w k = None \<or> environ w k = Some []"
  shows "send_email f t d w = (False, w)"
proof -
  from assms have "\<not> mail_configured w" by (auto simp: mail_configured_def truthy_def)
  then show ?thesis by (simp add: send_email_def split: option.split)
qed

text \<open>
  C12. With a complete configuration, a readable report and a working
  server, the notifier reads the report, then connects, upgrades to TLS, logs
  in, sends one message carrying the narrative and the report as attachment,
  quits, and reports success.
\<close>

theorem send_email_success:
  assumes "smtp_port_of w = Some port" and "mail_configured w"
    and "environ w ''EMAIL_FROM'' = Some a" "environ w ''EMAIL_PASSWORD'' = Some b"
    "environ w ''EMAIL_TO'' = Some c"
    and "fs_files w f = Some payload" and "smtp w (smtp_server_of w) port = Smtp_ok"
  shows "send_email f t d w =
    (True, trace_ext w [Fs_read f, Smtp_connect (smtp_server_of w) port, Smtp_starttls, Smtp_login a b,
                        Smtp_sendmail a c (compose_mail a c t d f payload), Smtp_quit])"
  using assms by (simp add: send_email_configured smtp_session_events)

text \<open>
  C23. When the session fails after the connection is opened (TLS, login or
  delivery) the notifier reports failure and never sends \<open>quit\<close>: the
  connection is left open.
\<close>

theorem send_email_session_left_open:
  assumes "smtp_port_of w = Some port" and "mail_configured w"
    and "environ w ''EMAIL_FROM'' = Some a" "environ w ''EMAIL_PASSWORD'' = Some b"
    "environ w ''EMAIL_TO'' = Some c"
    and "fs_files w f = Some payload"
    and "smtp w (smtp_server_of w) port \<in> {Starttls_fails, Login_fails, Sendmail_fails}"
  shows "\<exists>es. send_email f t d w = (False, trace_ext w (Fs_read f # Smtp_connect (smtp_server_of w) port # es))
              \<and> Smtp_quit \<notin> set es"
  using assms by (auto simp: send_email_configured smtp_session_events)

text \<open>
  C27. When only \<open>quit\<close> fails, the message has been handed to the server
  and the notifier still reports failure.
\<close>

theorem send_email_quit_failure:
  assumes "smtp_port_of w = Some port" and "mail_configured w"
    and "environ w ''EMAIL_FROM'' = Some a" "environ w ''EMAIL_PASSWORD'' = Some b"
    "environ w ''EMAIL_TO'' = Some c"
    and "fs_files w f = Some payload" and "smtp w (smtp_server_of w) port = Quit_fails"
  shows "\<exists>es. send_email f t d w = (False, trace_ext w es)
              \<and> Smtp_sendmail a c (compose_mail a c t d f payload) \<in> set es"
  using assms by (simp add: send_email_configured smtp_session_events)

text \<open>
  C28. An ASCII \<open>SMTP_PORT\<close> that Python's \<open>int()\<close> rejects (\<open>'smtp'\<close>,
  \<open>'5__87'\<close>, \<open>'587_'\<close>; \<open>'5_87'\<close> and \<open>' 587 '\<close> are accepted) makes the
  notifier report failure before anything else, even with a complete
  configuration: the port is parsed before the configuration check.
\<close>

theorem send_email_bad_port:
  assumes "environ w ''SMTP_PORT'' = Some s" and "list_all (\<lambda>c. of_char c < (128::nat)) s"
    and "py_int s = None"
  shows "send_email f t d w = (False, w)"
  using assms by (simp add: send_email_def smtp_port_of_def)

section \<open>Witnesses\<close>

definition example_mail_world :: world where
  "example_mail_world = example_world\<lparr>fs_files := [''reports/brief.txt'' \<mapsto> ''Report.'']\<rparr>"

lemma example_mail_world_env:
  "smtp_port_of example_mail_world = Some 587" "mail_configured example_mail_world"
  "environ example_mail_world ''EMAIL_FROM'' = Some ''agent@example.com''"
  "environ example_mail_world ''EMAIL_PASSWORD'' = Some ''pw''"
  "environ example_mail_world ''EMAIL_TO'' = Some ''trader@example.com''"
  "fs_files example_mail_world ''reports/brief.txt'' = Some ''Report.''"
  "smtp_server_of example_mail_world = ''smtp.gmail.com''"
  "environ example_mail_world ''SMTP_SERVER'' = None" "environ example_mail_world ''SMTP_PORT'' = None"
  "smtp example_mail_world h p = Smtp_ok"
  by (simp_all add: example_mail_world_def example_world_def smtp_port_of_def mail_configured_def
      truthy_def smtp_server_of_def)

theorem send_email_unconfigured_witness:
  "send_email ''reports/brief.txt'' ''Text.'' (Date 2025 3 7)
     (example_mail_world\<lparr>environ := (environ example_mail_world)(''EMAIL_TO'' \<mapsto> [])\<rparr>)
   = (False, example_mail_world\<lparr>environ := (environ example_mail_world)(''EMAIL_TO'' \<mapsto> [])\<rparr>)"
  using send_email_unconfigured
    [of "example_mail_world\<lparr>environ := (environ example_mail_world)(''EMAIL_TO'' \<mapsto> [])\<rparr>"]
  by simp

theorem send_email_success_witness:
  "send_email ''reports/brief.txt'' ''Text.'' (Date 2025 3 7) example_mail_world =
    (True, trace_ext example_mail_world
       [Fs_read ''reports/brief.txt'', Smtp_connect ''smtp.gmail.com'' 587, Smtp_starttls,
        Smtp_login ''agent@example.com'' ''pw'',
        Smtp_sendmail ''agent@example.com'' ''trader@example.com''
          (compose_mail ''agent@example.com'' ''trader@example.com'' ''Text.'' (Date 2025 3 7)
             ''reports/brief.txt'' ''Report.''),
        Smtp_quit])"
  using send_email_success [OF example_mail_world_env(1-6)]
  by (simp add: example_mail_world_env(7,10))

theorem send_email_session_left_open_witness:
  "\<exists>es. send_email ''reports/brief.txt'' ''Text.'' (Date 2025 3 7)
          (example_mail_world\<lparr>smtp := \<lambda>h p. Login_fails\<rparr>)
        = (False, trace_ext (example_mail_world\<lparr>smtp := \<lambda>h p. Login_fails\<rparr>)
             (Fs_read ''reports/brief.txt'' # Smtp_connect ''smtp.gmail.com'' 587 # es))
      \<and> Smtp_quit \<notin> set es"
  using send_email_session_left_open [of "example_mail_world\<lparr>smtp := \<lambda>h p. Login_fails\<rparr>"]
  by (simp add: example_mail_world_env smtp_port_of_def mail_configured_def smtp_server_of_def
      truthy_def)

theorem send_email_quit_failure_witness:
  "\<exists>es. send_email ''reports/brief.txt'' ''Text.'' (Date 2025 3 7)
          (example_mail_world\<lparr>smtp := \<lambda>h p. Quit_fails\<rparr>)
        = (False, trace_ext (example_mail_world\<lparr>smtp := \<lambda>h p. Quit_fails\<rparr>) es)
      \<and> Smtp_sendmail ''agent@example.com'' ''trader@example.com''
          (compose_mail ''agent@example.com'' ''trader@example.com'' ''Text.'' (Date 2025 3 7)
             ''reports/brief.txt'' ''Report.'') \<in> set es"
  using send_email_quit_failure [of "example_mail_world\<lparr>smtp := \<lambda>h p. Quit_fails\<rparr>"]
  by (simp add: example_mail_world_env smtp_port_of_def mail_configured_def smtp_server_of_def
      truthy_def)

theorem send_email_bad_port_witness:
  "send_email ''reports/brief.txt'' ''Text.'' (Date 2025 3 7)
     (example_mail_world\<lparr>environ := (environ example_mail_world)(''SMTP_PORT'' \<mapsto> ''5__87'')\<rparr>)
   = (False, example_mail_world\<lparr>environ := (environ example_mail_world)(''SMTP_PORT'' \<mapsto> ''5__87'')\<rparr>)"
proof -
  have "list_all (\<lambda>c. of_char c < (128::nat)) ''5__87''" "py_int ''5__87'' = None" by code_simp+
  with send_email_bad_port
    [of "example_mail_world\<lparr>environ := (environ example_mail_world)(''SMTP_PORT'' \<mapsto> ''5__87'')\<rparr>"]
  show ?thesis by simp
qed

end
