(* ===== verification/Orchestrator.thy ===== *)
theory Orchestrator
  imports Price_Reader Narrator Report_Writer Notifier
begin

text \<open>
  The Orchestrator: \<open>main\<close> (\<^verbatim>\<open>pjm_daily_agent.py\<close> lines 249-281) runs the
  reader, stops with exit status 0 when it has no prices or no zone rows,
  then runs the generator, the writer and the notifier in that order. An
  exception of the generator or the writer is not caught: the process stops
  with a traceback (\<open>Crashed\<close>); the notifier never raises and its boolean
  only selects the message printed. The console output (progress lines and
  the 500-character preview) is not modelled.

  The specification describes the run as a machine of phases (section 4.6);
  it is the inductive relation \<open>spec_step\<close>. The run of \<open>main\<close> is mapped to
  the phases it passes by \<open>run_phases\<close>, which reads only the outcome and
  the external events of the run; \<open>main_refines_spec\<close> shows that every
  run is a path of the machine from \<open>Start\<close> to \<open>Done\<close> whose phases agree
  with the calls made.
\<close>

section \<open>The run\<close>

datatype outcome =
    Exit_no_data         \<comment> \<open>line 257: \<open>return\<close>, exit status 0\<close>
  | Crashed py_exc       \<comment> \<open>an uncaught exception of lines 261 or 264\<close>
  | Completed bool       \<comment> \<open>line 281 reached; the value of \<open>email_sent\<close>\<close>

definition main :: "world \<Rightarrow> outcome \<times> world" where
  "main w =
     (case get_yesterday_prices w of
        (None, w1) \<Rightarrow> (Exit_no_data, w1)
      | (Some (prices, zone_stats, analysis_date), w1) \<Rightarrow>
          if prices = [] \<or> zone_stats = [] then (Exit_no_data, w1) else
          (case analyze_with_claude prices zone_stats analysis_date w1 of
             (Inl e, w2) \<Rightarrow> (Crashed e, w2)
           | (Inr analysis, w2) \<Rightarrow>
               (case save_report analysis analysis_date w2 of
                  (Inl e, w3) \<Rightarrow> (Crashed e, w3)
                | (Inr report_file, w3) \<Rightarrow>
                    (case send_email report_file analysis analysis_date w3 of
                       (email_sent, w4) \<Rightarrow> (Completed email_sent, w4)))))"

text \<open>The external service an event goes to.\<close>

datatype service = Database | Generation | File_system | Mail_server

fun event_service :: "event \<Rightarrow> service" where
  "event_service Db_connect = Database"
| "event_service (Db_execute n) = Database"
| "event_service Db_close = Database"
| "event_service (Llm_request m k p) = Generation"
| "event_service (Fs_makedirs d) = File_system"
| "event_service (Fs_write p c) = File_system"
| "event_service (Fs_read p) = File_system"
| "event_service (Smtp_connect h p) = Mail_server"
| "event_service Smtp_starttls = Mail_server"
| "event_service (Smtp_login a b) = Mail_server"
| "event_service (Smtp_sendmail a b m) = Mail_server"
| "event_service Smtp_quit = Mail_server"

section \<open>The phase machine of the specification\<close>

datatype phase =
  Start | DataFetched | Summarized | Narrated | Written | Notified | NotifyFailed | Done bool

text \<open>
  Section 4.6: each arrow needs the success of the step before it; a failure
  of the reader or of the generator ends the run in \<open>Done False\<close>; a failed
  notification is a terminal state that still counts as success. The
  specification has no arrow for a failing write; \<open>write_fail\<close> is the
  early end that the same rule gives it.
\<close>

inductive spec_step :: "phase \<Rightarrow> phase \<Rightarrow> bool" where
  fetch_ok: "spec_step Start DataFetched"
| fetch_fail: "spec_step Start (Done False)"
| summarize: "spec_step DataFetched Summarized"
| narrate_ok: "spec_step Summarized Narrated"
| narrate_fail: "spec_step Summarized (Done False)"
| write_ok: "spec_step Narrated Written"
| write_fail: "spec_step Narrated (Done False)"
| notify_ok: "spec_step Written Notified"
| notify_fail: "spec_step Written NotifyFailed"
| finish: "spec_step Notified (Done True)"
| finish_failed: "spec_step NotifyFailed (Done True)"

code_pred spec_step .

inductive_cases spec_step_WrittenE: "spec_step Written q"
inductive_cases spec_step_NotifiedE: "spec_step Notified q"
inductive_cases spec_step_NotifyFailedE: "spec_step NotifyFailed q"
inductive_cases spec_step_DoneE: "spec_step (Done b) q"

inductive_simps spec_step_simps: "spec_step p q"

text \<open>
  The phases a run of \<open>main\<close> passes, read from its outcome and its events:
  a crash after the directory call is a failed write, any other crash a
  failed narration.
\<close>

definition run_phases :: "outcome \<Rightarrow> event list \<Rightarrow> phase list" where
  "run_phases r es =
     (case r of
        Exit_no_data \<Rightarrow> [Start, Done False]
      | Crashed e \<Rightarrow>
          if Fs_makedirs report_dir \<in> set es then [Start, DataFetched, Summarized, Narrated, Done False]
          else [Start, DataFetched, Summarized, Done False]
      | Completed b \<Rightarrow>
          [Start, DataFetched, Summarized, Narrated, Written, if b then Notified else NotifyFailed,
           Done True])"

section \<open>Effects of the components\<close>

lemma get_yesterday_prices_Some:
  assumes "get_yesterday_prices w = (Some r, w1)"
  shows "w1 = trace_ext w [Db_connect, Db_execute 1, Db_execute 2, Db_execute 3, Db_close]"
  using assms by (simp add: get_yesterday_prices_def Let_def split: if_splits)

lemma get_yesterday_prices_None:
  assumes "get_yesterday_prices w = (None, w1)"
  shows "\<exists>es. w1 = trace_ext w es \<and> (\<forall>e\<in>set es. event_service e = Database)"
  using assms by (auto simp: get_yesterday_prices_def Let_def split: if_splits)

lemma analyze_with_claude_effect:
  assumes "rows \<noteq> []" and "analyze_with_claude rows zs d w = (r, w2)"
  shows "\<exists>p. w2 = trace_ext w [Llm_request claude_model 2000 p]"
proof -
  obtain s where "data_summary rows zs d = Inr s" using data_summary_Inr [OF assms(1)] by blast
  from analyze_with_claude_request(1) [OF assms(1) this, of w] assms(2) show ?thesis by auto
qed

lemma save_report_Inl:
  assumes "save_report a d w = (Inl e, w')"
  shows "w' = (trace_ext w [Fs_makedirs report_dir])\<lparr>fs_dirs := fs_dirs w'\<rparr>"
  using assms
  by (auto simp: save_report_def makedirs_def write_file_def Let_def trace_ext_def split: if_splits)

lemma save_report_Inr_world:
  assumes "save_report a d w = (Inr p, w')"
  shows "w' = (trace_ext w [Fs_makedirs report_dir, Fs_write p (report_content a d (clock w))])
                \<lparr>fs_dirs := fs_dirs w', fs_files := (fs_files w)(p \<mapsto> report_content a d (clock w))\<rparr>"
proof -
  note ok = save_report_Inr [OF assms]
  from assms show ?thesis
    by (auto simp: save_report_ok [OF ok(1,2)] ok(3) trace_ext_def)
qed

text \<open>What the notifier does to the world: it reads the report and talks to the mail server.\<close>

lemma send_email_effect:
  "\<exists>es. snd (send_email f t d w) = trace_ext w es
     \<and> (\<forall>e\<in>set es. event_service e = Mail_server \<or> e = Fs_read f)
     \<and> (\<forall>a b m. Smtp_sendmail a b m \<in> set es \<longrightarrow>
          fs_files w f = Some (attachment_payload m) \<and> attachment_name m = py_basename f)
     \<and> (fst (send_email f t d w) \<longrightarrow> map event_service es = File_system # replicate 5 Mail_server)"
proof (cases "smtp_port_of w = None \<or> \<not> mail_configured w")
  case True
  then show ?thesis by (auto simp: send_email_def split: option.split)
next
  case False
  then obtain port a b c where "smtp_port_of w = Some port" "mail_configured w"
    "environ w ''EMAIL_FROM'' = Some a" "environ w ''EMAIL_PASSWORD'' = Some b"
    "environ w ''EMAIL_TO'' = Some c"
    by (auto elim: mail_configured_values)
  then show ?thesis
    by (auto simp: send_email_configured smtp_session_events compose_mail_def
        numeral_eq_Suc split: option.split)
qed

section \<open>The runs of \<open>main\<close>\<close>

text \<open>
  Every run of \<open>main\<close> is one of four: it stops after the reader, it crashes
  in the generator after its one request, it crashes in the writer after the
  directory call, or it completes with the report written and the notifier's
  events after it.
\<close>

lemma main_trace:
  fixes w :: world
  obtains (no_data) es where "fst (main w) = Exit_no_data" "trace (snd (main w)) = trace w @ es"
      "\<forall>e\<in>set es. event_service e = Database"
  | (narrate_crash) e p where "fst (main w) = Crashed e"
      "trace (snd (main w)) = trace w @ [Db_connect, Db_execute 1, Db_execute 2, Db_execute 3, Db_close,
          Llm_request claude_model 2000 p]"
  | (write_crash) e p where "fst (main w) = Crashed e"
      "trace (snd (main w)) = trace w @ [Db_connect, Db_execute 1, Db_execute 2, Db_execute 3, Db_close,
          Llm_request claude_model 2000 p, Fs_makedirs report_dir]"
  | (completed) b p f c es where "fst (main w) = Completed b"
      "trace (snd (main w)) = trace w @ [Db_connect, Db_execute 1, Db_execute 2, Db_execute 3, Db_close,
          Llm_request claude_model 2000 p, Fs_makedirs report_dir, Fs_write f c] @ es"
      "fs_files (snd (main w)) f = Some c"
      "\<forall>e\<in>set es. event_service e = Mail_server \<or> e = Fs_read f"
      "\<forall>a b m. Smtp_sendmail a b m \<in> set es \<longrightarrow> attachment_payload m = c \<and> attachment_name m = py_basename f"
      "b \<longrightarrow> map event_service es = File_system # replicate 5 Mail_server"
proof -
  obtain r w1 where g: "get_yesterday_prices w = (r, w1)" by fastforce
  show ?thesis
  proof (cases r)
    case None
    with g obtain es where "w1 = trace_ext w es" "\<forall>e\<in>set es. event_service e = Database"
      using get_yesterday_prices_None by blast
    with g None show ?thesis by (intro no_data [of es]) (simp_all add: main_def)
  next
    case (Some x)
    then obtain rs zs d where x: "r = Some (rs, zs, d)" by (cases x) auto
    have w1: "w1 = trace_ext w [Db_connect, Db_execute 1, Db_execute 2, Db_execute 3, Db_close]"
    proof (rule get_yesterday_prices_Some)
      show "get_yesterday_prices w = (Some (rs, zs, d), w1)" using g x by simp
    qed
    show ?thesis
    proof (cases "rs = [] \<or> zs = []")
      case True
      with g x w1 show ?thesis
        by (intro no_data [of "[Db_connect, Db_execute 1, Db_execute 2, Db_execute 3, Db_close]"])
          (auto simp: main_def)
    next
      case False
      then have ne: "rs \<noteq> []" "zs \<noteq> []" by simp_all
      obtain r2 w2 where a: "analyze_with_claude rs zs d w1 = (r2, w2)" by fastforce
      obtain p where w2: "w2 = trace_ext w1 [Llm_request claude_model 2000 p]"
        using analyze_with_claude_effect [OF ne(1) a] by blast
      show ?thesis
      proof (cases r2)
        case (Inl e)
        with g x ne a w1 w2 show ?thesis
          by (intro narrate_crash [of e p]) (simp_all add: main_def)
      next
        case (Inr an)
        obtain r3 w3 where sv: "save_report an d w2 = (r3, w3)" by fastforce
        show ?thesis
        proof (cases r3)
          case (Inl e)
          with sv have "w3 = (trace_ext w2 [Fs_makedirs report_dir])\<lparr>fs_dirs := fs_dirs w3\<rparr>"
            by (simp add: save_report_Inl)
          from arg_cong [OF this, of trace] have t3: "trace w3 = trace w2 @ [Fs_makedirs report_dir]"
            by (simp add: trace_ext_def)
          from g x ne a Inr sv Inl have "main w = (Crashed e, w3)" by (simp add: main_def)
          with t3 w1 w2 show ?thesis
            by (intro write_crash [of e p]) (simp_all add: trace_ext_def)
        next
          case (Inr f)
          let ?c = "report_content an d (clock w2)"
          have w3: "w3 = (trace_ext w2 [Fs_makedirs report_dir, Fs_write f ?c])
                \<lparr>fs_dirs := fs_dirs w3, fs_files := (fs_files w2)(f \<mapsto> ?c)\<rparr>"
            using sv Inr by (simp add: save_report_Inr_world)
          from arg_cong [OF w3, of fs_files] have f3: "fs_files w3 f = Some ?c" by simp
          from arg_cong [OF w3, of trace]
          have t3: "trace w3 = trace w2 @ [Fs_makedirs report_dir, Fs_write f ?c]"
            by (simp add: trace_ext_def)
          obtain es where s: "snd (send_email f an d w3) = trace_ext w3 es"
            and s1: "\<forall>e\<in>set es. event_service e = Mail_server \<or> e = Fs_read f"
            and s2: "\<forall>a b m. Smtp_sendmail a b m \<in> set es \<longrightarrow>
                       fs_files w3 f = Some (attachment_payload m) \<and> attachment_name m = py_basename f"
            and s3: "fst (send_email f an d w3) \<longrightarrow> map event_service es = File_system # replicate 5 Mail_server"
            using send_email_effect [of f an d w3] by (elim exE conjE) (rule that)
          have m: "main w = (Completed (fst (send_email f an d w3)), trace_ext w3 es)"
            using g x ne a \<open>r2 = Inr an\<close> sv Inr s by (simp add: main_def prod.case_eq_if)
          show ?thesis
          proof (rule completed [of "fst (send_email f an d w3)" p f ?c es])
            show "fst (main w) = Completed (fst (send_email f an d w3))" by (simp add: m)
            show "trace (snd (main w)) = trace w @ [Db_connect, Db_execute 1, Db_execute 2, Db_execute 3,
                Db_close, Llm_request claude_model 2000 p, Fs_makedirs report_dir, Fs_write f ?c] @ es"
              by (simp add: m t3 w2 w1 trace_ext_def)
            show "fs_files (snd (main w)) f = Some ?c" by (simp add: m f3)
            show "\<forall>e\<in>set es. event_service e = Mail_server \<or> e = Fs_read f" by (rule s1)
            show "\<forall>a b m. Smtp_sendmail a b m \<in> set es \<longrightarrow>
                    attachment_payload m = ?c \<and> attachment_name m = py_basename f"
              using s2 f3 by simp
            show "fst (send_email f an d w3) \<longrightarrow> map event_service es = File_system # replicate 5 Mail_server"
              by (rule s3)
          qed
        qed
      qed
    qed
  qed
qed

text \<open>\<open>main\<close> once the reader has returned data, and the trace only grows.\<close>

lemma main_fetched:
  assumes "get_yesterday_prices w = (Some (rs, zs, d), w1)" and "rs \<noteq> []" and "zs \<noteq> []"
  shows "main w =
    (case analyze_with_claude rs zs d w1 of
       (Inl e, w2) \<Rightarrow> (Crashed e, w2)
     | (Inr analysis, w2) \<Rightarrow>
         (case save_report analysis d w2 of
            (Inl e, w3) \<Rightarrow> (Crashed e, w3)
          | (Inr report_file, w3) \<Rightarrow>
              (case send_email report_file analysis d w3 of
                 (email_sent, w4) \<Rightarrow> (Completed email_sent, w4))))"
  using assms by (simp add: main_def)

lemma save_report_trace: "\<exists>es. trace (snd (save_report a d w)) = trace w @ es"
proof (cases "save_report a d w")
  case (Pair r w')
  show ?thesis
  proof (cases r)
    case (Inl e)
    with Pair have "w' = (trace_ext w [Fs_makedirs report_dir])\<lparr>fs_dirs := fs_dirs w'\<rparr>"
      by (simp add: save_report_Inl)
    from arg_cong [OF this, of trace] Pair show ?thesis by (simp add: trace_ext_def)
  next
    case (Inr p)
    with Pair have "w' = (trace_ext w [Fs_makedirs report_dir, Fs_write p (report_content a d (clock w))])
        \<lparr>fs_dirs := fs_dirs w', fs_files := (fs_files w)(p \<mapsto> report_content a d (clock w))\<rparr>"
      by (simp add: save_report_Inr_world)
    from arg_cong [OF this, of trace] Pair show ?thesis by (simp add: trace_ext_def)
  qed
qed

text \<open>The generation request made after the reader stays in the trace, whatever follows.\<close>

lemma main_keeps_request:
  assumes "get_yesterday_prices w = (Some (rs, zs, d), w1)" and "rs \<noteq> []" and "zs \<noteq> []"
    and "data_summary rs zs d = Inr s"
  shows "Llm_request claude_model 2000 (claude_prompt s) \<in> set (trace (snd (main w)))"
proof -
  obtain r2 w2 where a: "analyze_with_claude rs zs d w1 = (r2, w2)" by fastforce
  have w2: "w2 = trace_ext w1 [Llm_request claude_model 2000 (claude_prompt s)]"
    using analyze_with_claude_request(1) [OF assms(2,4), of w1] a by simp
  have "\<exists>es. trace (snd (main w)) = trace w2 @ es"
  proof (cases r2)
    case (Inl e)
    then show ?thesis using main_fetched [OF assms(1-3)] a by simp
  next
    case (Inr an)
    obtain r3 w3 where sv: "save_report an d w2 = (r3, w3)" by fastforce
    obtain es3 where t3: "trace w3 = trace w2 @ es3"
      using save_report_trace [of an d w2] sv by auto
    show ?thesis
    proof (cases r3)
      case (Inl e)
      then show ?thesis using main_fetched [OF assms(1-3)] a Inr sv t3 by simp
    next
      case (Inr f)
      obtain es4 where "snd (send_email f an d w3) = trace_ext w3 es4"
        using send_email_effect [of f an d w3] by blast
      then show ?thesis using main_fetched [OF assms(1-3)] a \<open>r2 = Inr an\<close> sv Inr t3
        by (simp add: prod.case_eq_if trace_ext_def)
    qed
  qed
  with w2 show ?thesis by auto
qed

section \<open>The phase machine\<close>

text \<open>From \<open>Written\<close> on, only success is reachable: a failed notification does not fail the run.\<close>

lemma spec_step_after_write:
  "spec_step p q \<Longrightarrow> p \<in> {Written, Notified, NotifyFailed, Done True} \<Longrightarrow>
   q \<in> {Written, Notified, NotifyFailed, Done True}"
  by (induction rule: spec_step.induct) simp_all

lemma spec_reach_after_write:
  assumes "spec_step\<^sup>*\<^sup>* p q" and "p \<in> {Written, Notified, NotifyFailed, Done True}"
  shows "q \<in> {Written, Notified, NotifyFailed, Done True}"
  using assms by (induction rule: rtranclp_induct) (auto dest: spec_step_after_write)

lemma successively_rtranclp_last:
  "successively R xs \<Longrightarrow> x \<in> set xs \<Longrightarrow> R\<^sup>*\<^sup>* x (last xs)"
proof (induction xs arbitrary: x)
  case Nil
  then show ?case by simp
next
  case (Cons y ys)
  show ?case
  proof (cases ys)
    case Nil
    with Cons.prems show ?thesis by simp
  next
    case (Cons z zs)
    with Cons.prems(1) have r: "R y z" and s: "successively R ys" by simp_all
    have l: "last (y # ys) = last ys" using Cons by simp
    have "R\<^sup>*\<^sup>* z (last ys)" using Cons.IH [OF s, of z] Cons by simp
    with r have "R\<^sup>*\<^sup>* y (last ys)" by (rule converse_rtranclp_into_rtranclp)
    moreover have "x \<in> set ys \<Longrightarrow> R\<^sup>*\<^sup>* x (last ys)" using Cons.IH [OF s, of x] by simp
    ultimately show ?thesis using Cons.prems(2) l by auto
  qed
qed

section \<open>Properties of the run\<close>

text \<open>
  C11. When the reader returns no data (an unreachable database or an empty
  table alike), \<open>main\<close> exits normally after the database calls only: the
  generator, the file system and the mail server are never called.
\<close>

theorem main_no_data:
  assumes "fst (get_yesterday_prices w) = None"
  shows "\<exists>es. main w = (Exit_no_data, trace_ext w es) \<and> (\<forall>e\<in>set es. event_service e = Database)"
proof -
  obtain w1 where g: "get_yesterday_prices w = (None, w1)"
    using assms by (cases "get_yesterday_prices w") simp
  from get_yesterday_prices_None [OF g] g show ?thesis by (auto simp: main_def)
qed

text \<open>
  C5. A run that completes and sends its mail makes one database round trip
  (connect, three statements, close), one generation request, one directory
  call and one file write, reads the report back, and runs one mail session
  of five steps, in that order and nothing else.
\<close>

theorem main_completed_order:
  assumes "fst (main w) = Completed True"
  shows "\<exists>es. trace (snd (main w)) = trace w @ es
           \<and> map event_service es = replicate 5 Database @ [Generation] @ replicate 3 File_system
                                    @ replicate 5 Mail_server"
  using assms by (cases rule: main_trace [of w]) (auto simp: numeral_eq_Suc)

text \<open>
  C4. A completed run has written its report, whether or not the mail went
  out, and a message it sends carries exactly that report, under the file's
  base name, as attachment.
\<close>

theorem main_attachment_is_report:
  assumes "fst (main w) = Completed b"
  shows "\<exists>f c es. trace (snd (main w)) = trace w @ es \<and> Fs_write f c \<in> set es
           \<and> fs_files (snd (main w)) f = Some c
           \<and> (\<forall>a t m. Smtp_sendmail a t m \<in> set es \<longrightarrow> attachment_payload m = c \<and> attachment_name m = py_basename f)"
  using assms
proof (cases rule: main_trace [of w])
  case (completed b' p f c es)
  then show ?thesis
    by (intro exI [of _ f] exI [of _ c]) auto
qed simp_all

text \<open>
  C13. A run that crashes (in the generator or the writer) has closed the
  database connection before, writes no report and never contacts the mail
  server.
\<close>

theorem main_crash_no_mail:
  assumes "fst (main w) = Crashed e"
  shows "\<exists>es. trace (snd (main w)) = trace w @ es \<and> Db_close \<in> set es
           \<and> (\<forall>x\<in>set es. event_service x \<noteq> Mail_server) \<and> (\<forall>f c. Fs_write f c \<notin> set es)"
  using assms by (cases rule: main_trace [of w]) auto

text \<open>
  C1. Refinement of the phase machine of the specification: every run of
  \<open>main\<close>, read as phases, is a path of the machine from \<open>Start\<close> to a
  \<open>Done\<close> state; it passes \<open>Summarized\<close> exactly when a generation request
  was sent and \<open>Written\<close> exactly when a report was written, and a run that
  passes \<open>Written\<close> ends in success.
\<close>

theorem main_refines_spec:
  "\<exists>es. trace (snd (main w)) = trace w @ es \<and>
     (let ps = run_phases (fst (main w)) es in
        successively spec_step ps \<and> hd ps = Start \<and> (\<exists>ok. last ps = Done ok)
        \<and> (Summarized \<in> set ps \<longleftrightarrow> (\<exists>p. Llm_request claude_model 2000 p \<in> set es))
        \<and> (Written \<in> set ps \<longleftrightarrow> (\<exists>f c. Fs_write f c \<in> set es))
        \<and> (Written \<in> set ps \<longrightarrow> last ps = Done True))"
proof (cases rule: main_trace [of w])
  case (no_data es)
  then show ?thesis
    by (intro exI [of _ es]) (auto simp: run_phases_def spec_step_simps)
next
  case (narrate_crash e p)
  then show ?thesis
    by (auto simp: run_phases_def spec_step_simps)
next
  case (write_crash e p)
  then show ?thesis
    by (auto simp: run_phases_def spec_step_simps)
next
  case (completed b p f c es)
  let ?ps = "run_phases (Completed b) ([Db_connect, Db_execute 1, Db_execute 2, Db_execute 3, Db_close,
          Llm_request claude_model 2000 p, Fs_makedirs report_dir, Fs_write f c] @ es)"
  have path: "successively spec_step ?ps" by (simp add: run_phases_def spec_step_simps)
  have "Written \<in> set ?ps" by (simp add: run_phases_def)
  from spec_reach_after_write [OF successively_rtranclp_last [OF path this]]
  have "last ?ps \<in> {Written, Notified, NotifyFailed, Done True}" by simp
  moreover have nl: "\<forall>x\<in>set es. \<forall>q. x \<noteq> Llm_request claude_model 2000 q"
    using completed(4) by fastforce
  ultimately show ?thesis
    using completed path by (auto simp: run_phases_def)
qed

section \<open>Witnesses\<close>

text \<open>The example world runs to the end and mails its report.\<close>

lemma example_world_completes: "fst (main example_world) = Completed True"
proof -
  let ?t = "table (db example_world)"
  let ?d = "Max (set (map row_date ?t))"
  let ?rs = "price_query ?t ?d" and ?zs = "stats_query ?t ?d"
  define w1 where "w1 = trace_ext example_world [Db_connect, Db_execute 1, Db_execute 2, Db_execute 3, Db_close]"
  have t: "?t \<noteq> []" by (simp add: example_world_def example_table_def)
  note ne = latest_date_queries_ne [OF t]
  have g: "get_yesterday_prices example_world = (Some (?rs, ?zs, ?d), w1)"
    unfolding w1_def using t by (simp add: get_yesterday_prices_success example_world_def)
  obtain s where s: "data_summary ?rs ?zs ?d = Inr s" using data_summary_Inr [OF ne(1)] by blast
  define w2 where "w2 = trace_ext w1 [Llm_request claude_model 2000 (claude_prompt s)]"
  have a: "analyze_with_claude ?rs ?zs ?d w1 = (Inr ''Prices rose in zone A.'', w2)"
    using analyze_with_claude_request [OF ne(1) s, of w1] unfolding w2_def
    by (simp add: prod_eq_iff w1_def example_world_def)
  have fs: "fs_files w2 report_dir = None" "report_path ?d \<notin> set (fs_dirs w2)"
    by (simp_all add: w2_def w1_def example_world_def)
  define c where "c = report_content ''Prices rose in zone A.'' ?d (clock w2)"
  define w3 where "w3 = trace_ext (w2\<lparr>fs_dirs := fs_dirs w2 @ [report_dir],
      fs_files := (fs_files w2)(report_path ?d \<mapsto> c)\<rparr>) [Fs_makedirs report_dir, Fs_write (report_path ?d) c]"
  have sv: "save_report ''Prices rose in zone A.'' ?d w2 = (Inr (report_path ?d), w3)"
    using save_report_ok [OF fs, of "''Prices rose in zone A.''"]
    by (simp add: w3_def c_def w2_def w1_def example_world_def)
  have env: "smtp_port_of w3 = Some 587" "mail_configured w3"
    "environ w3 ''EMAIL_FROM'' = Some ''agent@example.com''" "environ w3 ''EMAIL_PASSWORD'' = Some ''pw''"
    "environ w3 ''EMAIL_TO'' = Some ''trader@example.com''" "fs_files w3 (report_path ?d) = Some c"
    "smtp w3 = (\<lambda>h p. Smtp_ok)"
    by (simp_all add: w3_def w2_def w1_def example_world_def smtp_port_of_def mail_configured_def truthy_def)
  have "send_email (report_path ?d) ''Prices rose in zone A.'' ?d w3 =
      smtp_session (smtp_server_of w3) 587 ''agent@example.com'' ''pw'' ''trader@example.com''
        (compose_mail ''agent@example.com'' ''trader@example.com'' ''Prices rose in zone A.'' ?d
           (report_path ?d) c) (trace_ext w3 [Fs_read (report_path ?d)])"
    by (simp only: send_email_configured [OF env(1,3,4,5,2)] env(6) option.case)
  then have "fst (send_email (report_path ?d) ''Prices rose in zone A.'' ?d w3)"
    by (simp add: smtp_session_events env(7))
  with g ne a sv show ?thesis by (simp add: main_def prod.case_eq_if)
qed

theorem main_no_data_witness:
  "\<exists>es. main (example_world\<lparr>db := \<lparr>fault = Connect_fails, table = example_table, catalogue = []\<rparr>\<rparr>)
        = (Exit_no_data, trace_ext (example_world\<lparr>db := \<lparr>fault = Connect_fails, table = example_table, catalogue = []\<rparr>\<rparr>) es)
      \<and> list_all (\<lambda>e. event_service e = Database) es"
  using main_no_data [of "example_world\<lparr>db := \<lparr>fault = Connect_fails, table = example_table, catalogue = []\<rparr>\<rparr>"]
  by (simp add: get_yesterday_prices_connect_fails list_all_iff)

theorem main_completed_order_witness:
  "\<exists>es. trace (snd (main example_world)) = trace example_world @ es
     \<and> map event_service es = replicate 5 Database @ [Generation] @ replicate 3 File_system
                              @ replicate 5 Mail_server"
  using main_completed_order [OF example_world_completes] .

theorem main_attachment_is_report_witness:
  "\<exists>f c es. trace (snd (main example_world)) = trace example_world @ es \<and> Fs_write f c \<in> set es
     \<and> fs_files (snd (main example_world)) f = Some c
     \<and> list_all (\<lambda>e. case e of Smtp_sendmail a t m \<Rightarrow> attachment_payload m = c \<and> attachment_name m = py_basename f
                              | _ \<Rightarrow> True) es"
proof -
  from main_attachment_is_report [OF example_world_completes] obtain f c es where
    "trace (snd (main example_world)) = trace example_world @ es" "Fs_write f c \<in> set es"
    "fs_files (snd (main example_world)) f = Some c"
    "\<forall>a t m. Smtp_sendmail a t m \<in> set es \<longrightarrow> attachment_payload m = c \<and> attachment_name m = py_basename f"
    by blast
  then show ?thesis
    by (intro exI [of _ f] exI [of _ c] exI [of _ es]) (auto simp: list_all_iff split: event.split)
qed

theorem main_crash_no_mail_witness:
  "\<exists>es. trace (snd (main (example_world\<lparr>llm := \<lambda>p. Inl APIError\<rparr>))) = trace example_world @ es
     \<and> Db_close \<in> set es \<and> list_all (\<lambda>x. event_service x \<noteq> Mail_server) es
     \<and> list_all (\<lambda>x. case x of Fs_write f c \<Rightarrow> False | _ \<Rightarrow> True) es"
proof -
  let ?w = "example_world\<lparr>llm := \<lambda>p. Inl APIError\<rparr>"
  let ?t = "table (db ?w)"
  let ?d = "Max (set (map row_date ?t))"
  have t: "?t \<noteq> []" by (simp add: example_world_def example_table_def)
  note ne = latest_date_queries_ne [OF t]
  have g: "get_yesterday_prices ?w = (Some (price_query ?t ?d, stats_query ?t ?d, ?d),
      trace_ext ?w [Db_connect, Db_execute 1, Db_execute 2, Db_execute 3, Db_close])"
    using t by (simp add: get_yesterday_prices_success example_world_def)
  obtain s where s: "data_summary (price_query ?t ?d) (stats_query ?t ?d) ?d = Inr s"
    using data_summary_Inr [OF ne(1)] by blast
  have "fst (main ?w) = Crashed APIError"
    using g ne analyze_with_claude_request(2) [OF ne(1) s] by (simp add: main_def prod.case_eq_if)
  from main_crash_no_mail [OF this] obtain es where
    "trace (snd (main ?w)) = trace ?w @ es" "Db_close \<in> set es"
    "\<forall>x\<in>set es. event_service x \<noteq> Mail_server" "\<forall>f c. Fs_write f c \<notin> set es"
    by blast
  then show ?thesis
    by (intro exI [of _ es]) (auto simp: list_all_iff split: event.split)
qed

theorem main_refines_spec_witness:
  "\<exists>es. trace (snd (main example_world)) = trace example_world @ es
     \<and> run_phases (fst (main example_world)) es
         = [Start, DataFetched, Summarized, Narrated, Written, Notified, Done True]
     \<and> successively spec_step [Start, DataFetched, Summarized, Narrated, Written, Notified, Done True]"
  using main_refines_spec [of example_world]
  by (simp add: example_world_completes run_phases_def Let_def spec_step.intros) blast

end
