(* ===== verification/Catalog.thy ===== *)
theory Catalog
  imports World "HOL-Library.List_Lexorder" "HOL-Library.Char_ord"
begin

text \<open>
  The catalogue queries of the diagnostic scripts. The scripts list the
  relations of schema \<open>pjm_data\<close> from \<open>information_schema.tables\<close>,
  read a relation's columns from \<open>information_schema.columns\<close> (the name
  is matched exactly, as a string literal) and read its rows through the
  name written unquoted into the statement (\<^verbatim>\<open>pjm_data.{table_name}\<close>), which
  PostgreSQL folds to lower case. The theory also names the shape of the
  database events a script leaves in the trace. Names are ordered as PostgreSQL orders the
  type \<open>name\<close>: byte by byte (collation \<open>C\<close>), which is the lexicographic order
  on character lists.
\<close>

section \<open>Queries\<close>

definition in_pjm_data :: "relation \<Rightarrow> bool" where
  "in_pjm_data r \<longleftrightarrow> rel_schema r = ''pjm_data''"

text \<open>\<^verbatim>\<open>explore_db.py\<close> lines 20-27: the names of the schema's relations, \<open>ORDER BY table_name\<close>.\<close>

definition tables_query :: "relation list \<Rightarrow> string list" where
  "tables_query cat = sort (map rel_name (filter in_pjm_data cat))"

text \<open>
  \<^verbatim>\<open>explore_db.py\<close> lines 40-48 and \<^verbatim>\<open>check_prices.py\<close> lines 21-28: the
  columns of the relations of the schema named exactly \<open>t\<close>, in ordinal order.
\<close>

definition columns_query :: "relation list \<Rightarrow> string \<Rightarrow> (string \<times> string) list" where
  "columns_query cat t = concat (map rel_columns (filter (\<lambda>r. in_pjm_data r \<and> rel_name r = t) cat))"

text \<open>
  The lexical rule for an unquoted identifier: a letter (ASCII, or any byte
  of a multi-byte character) or underscore, then letters, digits,
  underscores and dollar signs. PostgreSQL folds its ASCII capitals to lower
  case.
\<close>

definition ident_start :: "char \<Rightarrow> bool" where
  "ident_start c \<longleftrightarrow> (CHR ''a'' \<le> c \<and> c \<le> CHR ''z'') \<or> (CHR ''A'' \<le> c \<and> c \<le> CHR ''Z'')
                       \<or> c = CHR ''_'' \<or> (128::nat) \<le> of_char c"

definition ident_char :: "char \<Rightarrow> bool" where
  "ident_char c \<longleftrightarrow> ident_start c \<or> (CHR ''0'' \<le> c \<and> c \<le> CHR ''9'') \<or> c = CHR ''$''"

definition plain_ident :: "string \<Rightarrow> bool" where
  "plain_ident s \<longleftrightarrow> s \<noteq> [] \<and> ident_start (hd s) \<and> list_all ident_char s"

definition pg_lower :: "char \<Rightarrow> char" where
  "pg_lower c = (if CHR ''A'' \<le> c \<and> c \<le> CHR ''Z'' then char_of (of_char c + (32::nat)) else c)"

text \<open>
  \<^verbatim>\<open>explore_db.py\<close> lines 54 and 60: the relation \<^verbatim>\<open>pjm_data.{t}\<close> denotes.
  A name that is not a plain identifier is taken as an error of the
  statement.
\<close>

definition resolve_relation :: "relation list \<Rightarrow> string \<Rightarrow> relation option" where
  "resolve_relation cat t =
     (if plain_ident t then find (\<lambda>r. in_pjm_data r \<and> rel_name r = map pg_lower t) cat else None)"

text \<open>PostgreSQL keeps the names of a schema distinct.\<close>

definition catalogue_wf :: "relation list \<Rightarrow> bool" where
  "catalogue_wf cat \<longleftrightarrow> distinct (map (\<lambda>r. (rel_schema r, rel_name r)) cat)"

text \<open>
  The database events of a script that connects, runs its statements
  \<open>1..k\<close> and closes the connection if \<open>closes\<close>: the shape every run of a
  diagnostic script leaves in the trace.
\<close>

definition db_session :: "nat \<Rightarrow> bool \<Rightarrow> event list" where
  "db_session k closes = Db_connect # map Db_execute [1..<Suc k] @ (if closes then [Db_close] else [])"

section \<open>Lemmas\<close>

lemma plain_ident_no_quote: "plain_ident t \<Longrightarrow> CHR 0x27 \<notin> set t"
  by (auto simp: plain_ident_def list_all_iff ident_char_def ident_start_def)

lemma filter_key_unique:
  assumes "distinct (map f xs)" and "x \<in> set xs"
  shows "filter (\<lambda>y. f y = f x) xs = [x]"
  using assms by (induction xs) (auto simp: filter_empty_conv image_iff)

lemma find_filter_single: "filter P xs = [x] \<Longrightarrow> find P xs = Some x"
  by (induction xs) (auto split: if_splits simp: filter_empty_conv find_None_iff)

lemma map_insort_key: "map f (insort_key f x xs) = insort (f x) (map f xs)"
  by (induction xs) auto

lemma map_sort_key: "map f (sort_key f xs) = sort (map f xs)"
  by (induction xs) (simp_all add: map_insort_key)

lemma pjm_data_key:
  "(\<lambda>r. in_pjm_data r \<and> rel_name r = rel_name x) = (\<lambda>r. (rel_schema r, rel_name r) = (rel_schema x, rel_name x))"
  if "in_pjm_data x"
  using that by (auto simp: in_pjm_data_def)

lemma filter_pjm_data_name:
  assumes "catalogue_wf cat" and "r \<in> set cat" and "in_pjm_data r"
  shows "filter (\<lambda>x. in_pjm_data x \<and> rel_name x = rel_name r) cat = [r]"
  using filter_key_unique [of "\<lambda>r. (rel_schema r, rel_name r)" cat r] assms
  by (simp add: catalogue_wf_def pjm_data_key)

lemma columns_query_wf:
  "catalogue_wf cat \<Longrightarrow> r \<in> set cat \<Longrightarrow> in_pjm_data r \<Longrightarrow> columns_query cat (rel_name r) = rel_columns r"
  by (simp add: columns_query_def filter_pjm_data_name)

lemma resolve_relation_folded:
  assumes "catalogue_wf cat" and "r \<in> set cat" and "in_pjm_data r"
    and "plain_ident t" and "rel_name r = map pg_lower t"
  shows "resolve_relation cat t = Some r"
  using find_filter_single [OF filter_pjm_data_name [OF assms(1-3)]] assms(4,5)
  by (simp add: resolve_relation_def)

lemma resolve_relation_in:
  "resolve_relation cat t = Some r \<Longrightarrow> r \<in> set cat \<and> in_pjm_data r \<and> rel_name r = map pg_lower t"
  by (auto simp: resolve_relation_def find_Some_iff split: if_splits)

end
