(* ===== verification/Diagnostics.thy ===== *)
theory Diagnostics
  imports Price_Reader Catalog "HOL-Library.Product_Lexorder"
begin

text \<open>
  The diagnostic script \<^verbatim>\<open>src/check_prices.py\<close>, which inspects the price
  table the agent reads: it connects, lists the table's columns from the
  catalogue (\<open>Catalog\<close>), prints the range of timestamps and the row count with
  thousands separators, computes yesterday's date from the clock and prints
  up to five rows of that date. The script has no \<open>try\<close>: a database error
  or the \<open>OverflowError\<close> of \<open>datetime.now() - timedelta(days=1)\<close> on the
  first day of year 1 ends it without closing the connection. Timestamps are
  taken as naive \<open>datetime\<close> values; the printed rows (their \<open>repr\<close>) are
  kept as rows.
\<close>

section \<open>The calendar\<close>

text \<open>
  Line 44: \<open>datetime.now() - timedelta(days=1)\<close>, of which only the date is
  used. Below \<open>0001-01-01\<close> Python raises \<open>OverflowError\<close> (\<open>None\<close>).
\<close>

definition prev_day :: "date \<Rightarrow> date option" where
  "prev_day d =
     (if 1 < day d then Some (Date (year d) (month d) (day d - 1))
      else if 1 < month d then Some (Date (year d) (month d - 1) (days_in_month (year d) (month d - 1)))
      else if 1 < year d then Some (Date (year d - 1) 12 31)
      else None)"

text \<open>The converse step, \<open>+ timedelta(days=1)\<close>, as the reference for \<open>prev_day\<close>.\<close>

definition next_day :: "date \<Rightarrow> date option" where
  "next_day d =
     (if day d < days_in_month (year d) (month d) then Some (Date (year d) (month d) (day d + 1))
      else if month d < 12 then Some (Date (year d) (month d + 1) 1)
      else if year d < 9999 then Some (Date (year d + 1) 1 1)
      else None)"

section \<open>Formatting\<close>

text \<open>
  Line 41: \<open>f"{count:,}"\<close>, the digits in groups of three from the right,
  separated by commas. \<open>group3\<close> works on the reversed digits.
\<close>

fun group3 :: "string \<Rightarrow> string" where
  "group3 (a # b # c # d # rest) = a # b # c # CHR '','' # group3 (d # rest)"
| "group3 s = s"

definition fmt_thousands :: "nat \<Rightarrow> string" where
  "fmt_thousands n = rev (group3 (rev (str_nat n)))"

definition parse_thousands :: "string \<Rightarrow> nat option" where
  "parse_thousands s = parse_nat (filter (\<lambda>c. c \<noteq> CHR '','') s)"

text \<open>Line 36: \<open>str\<close> of a \<open>datetime\<close> (ISO format, space separated) or of \<open>None\<close>.\<close>

definition py_str_datetime :: "datetime \<Rightarrow> string" where
  "py_str_datetime t =
     date_str (dt_date t) @ '' '' @ zpad 2 (str_nat (dt_hour t)) @ '':''
     @ zpad 2 (str_nat (dt_minute t)) @ '':'' @ zpad 2 (str_nat (dt_second t))"

definition py_str_opt :: "datetime option \<Rightarrow> string" where
  "py_str_opt t = (case t of None \<Rightarrow> ''None'' | Some x \<Rightarrow> py_str_datetime x)"

section \<open>The queries\<close>

text \<open>The order of \<open>timestamp\<close> values: date, then time of day.\<close>

definition dt_key :: "datetime \<Rightarrow> date \<times> nat \<times> nat \<times> nat" where
  "dt_key t = (dt_date t, dt_hour t, dt_minute t, dt_second t)"

text \<open>Line 34: \<open>SELECT MIN(timestamp), MAX(timestamp)\<close>; both are \<open>NULL\<close> on an empty table.\<close>

definition min_timestamp :: "price_row list \<Rightarrow> datetime option" where
  "min_timestamp rows =
     (case rows of [] \<Rightarrow> None
      | r # rs \<Rightarrow> Some (fold (\<lambda>x m. if dt_key (timestamp x) < dt_key m then timestamp x else m) rs (timestamp r)))"

definition max_timestamp :: "price_row list \<Rightarrow> datetime option" where
  "max_timestamp rows =
     (case rows of [] \<Rightarrow> None
      | r # rs \<Rightarrow> Some (fold (\<lambda>x m. if dt_key m < dt_key (timestamp x) then timestamp x else m) rs (timestamp r)))"

text \<open>
  Line 47: PostgreSQL reads the date literal \<open>'Y-M-D'\<close>; a literal that is
  no date of the calendar is an error of the statement.
\<close>

definition split_dash :: "string \<Rightarrow> string \<times> string \<times> string" where
  "split_dash s =
     (let a = takeWhile (\<lambda>c. c \<noteq> CHR ''-'') s; r = drop (Suc (length a)) s;
          b = takeWhile (\<lambda>c. c \<noteq> CHR ''-'') r in
      (a, b, drop (Suc (length b)) r))"

definition pg_date_literal :: "string \<Rightarrow> date option" where
  "pg_date_literal s =
     (case split_dash s of (a, b, e) \<Rightarrow>
        (case (parse_nat a, parse_nat b, parse_nat e) of
           (Some y, Some m, Some dd) \<Rightarrow> if valid_date (Date y m dd) then Some (Date y m dd) else None
         | _ \<Rightarrow> None))"

text \<open>
  Lines 45-49: five rows of the date, \<open>LIMIT 5\<close> without \<open>ORDER BY\<close>; the
  model takes them in table order.
\<close>

definition sample_query :: "price_row list \<Rightarrow> date \<Rightarrow> price_row list" where
  "sample_query rows d = take 5 (filter (\<lambda>r. row_date r = d) rows)"

section \<open>The script\<close>

record check_report =
  columns :: "(string \<times> string) list"
  range_line :: string
  rows_line :: string
  sample_date :: string
  samples :: "price_row list"

text \<open>Lines 9-56, statement by statement; the connection is closed only at the end.\<close>

definition check_prices :: "world \<Rightarrow> (py_exc + check_report) \<times> world" where
  "check_prices w =
     (let srv = db w; t = table srv in
      if fault srv = Connect_fails then (Inl DatabaseError, w) else
      let w1 = emit Db_connect w in
      if fault srv = Execute_fails 1 then (Inl DatabaseError, emit (Db_execute 1) w1) else
      let cols = columns_query (catalogue srv) ''realtime_prices''; w2 = emit (Db_execute 1) w1 in
      if fault srv = Execute_fails 2 then (Inl DatabaseError, emit (Db_execute 2) w2) else
      let date_range = ''Date range: '' @ py_str_opt (min_timestamp t) @ '' to '' @ py_str_opt (max_timestamp t);
          w3 = emit (Db_execute 2) w2 in
      if fault srv = Execute_fails 3 then (Inl DatabaseError, emit (Db_execute 3) w3) else
      let count = ''Total rows: '' @ fmt_thousands (length t); w4 = emit (Db_execute 3) w3 in
      case prev_day (dt_date (clock w)) of
        None \<Rightarrow> (Inl OverflowError, w4)
      | Some y \<Rightarrow>
          (let yesterday = strftime_Y_m_d y; w5 = emit (Db_execute 4) w4 in
           if fault srv = Execute_fails 4 then (Inl DatabaseError, w5) else
           case pg_date_literal yesterday of
             None \<Rightarrow> (Inl DatabaseError, w5)
           | Some d \<Rightarrow>
               (Inr \<lparr>columns = cols, range_line = date_range, rows_line = count, sample_date = yesterday,
                     samples = sample_query t d\<rparr>, emit Db_close w5)))"

section \<open>Lemmas\<close>

lemma days_in_month_ge: "28 \<le> days_in_month y m"
  by (simp add: days_in_month_def)

lemma comma_notin_str_nat [simp]: "CHR '','' \<notin> set (str_nat n)"
  by (rule notin_str_nat) simp

lemma filter_group3:
  "CHR '','' \<notin> set s \<Longrightarrow> filter (\<lambda>c. c \<noteq> CHR '','') (group3 s) = s"
  by (induction s rule: group3.induct) auto

lemma takeWhile_upto: "c \<notin> set a \<Longrightarrow> takeWhile (\<lambda>x. x \<noteq> c) (a @ c # r) = a"
  by (induction a) auto

lemma split_dash_parts:
  "CHR ''-'' \<notin> set a \<Longrightarrow> CHR ''-'' \<notin> set b \<Longrightarrow>
   split_dash (a @ CHR ''-'' # b @ CHR ''-'' # e) = (a, b, e)"
  by (simp add: split_dash_def takeWhile_upto)

lemma length_group3: "length (group3 s) = length s + (length s - 1) div 3"
  by (induction s rule: group3.induct) simp_all

lemma fold_min_key:
  "dt_key (fold (\<lambda>x m. if dt_key (timestamp x) < dt_key m then timestamp x else m) rs t0) \<le> dt_key t0
   \<and> (\<forall>r\<in>set rs. dt_key (fold (\<lambda>x m. if dt_key (timestamp x) < dt_key m then timestamp x else m) rs t0)
                   \<le> dt_key (timestamp r))
   \<and> fold (\<lambda>x m. if dt_key (timestamp x) < dt_key m then timestamp x else m) rs t0 \<in> insert t0 (timestamp ` set rs)"
proof (induction rs arbitrary: t0)
  case Nil
  then show ?case by simp
next
  case (Cons r rs)
  let ?f = "\<lambda>x m. if dt_key (timestamp x) < dt_key m then timestamp x else m"
  let ?t1 = "?f r t0"
  have k: "dt_key ?t1 \<le> dt_key t0" "dt_key ?t1 \<le> dt_key (timestamp r)" "?t1 \<in> {t0, timestamp r}"
    by auto
  from Cons.IH [of ?t1] k show ?case by (auto intro: order_trans)
qed

lemma fold_max_key:
  "dt_key t0 \<le> dt_key (fold (\<lambda>x m. if dt_key m < dt_key (timestamp x) then timestamp x else m) rs t0)
   \<and> (\<forall>r\<in>set rs. dt_key (timestamp r)
                   \<le> dt_key (fold (\<lambda>x m. if dt_key m < dt_key (timestamp x) then timestamp x else m) rs t0))
   \<and> fold (\<lambda>x m. if dt_key m < dt_key (timestamp x) then timestamp x else m) rs t0 \<in> insert t0 (timestamp ` set rs)"
proof (induction rs arbitrary: t0)
  case Nil
  then show ?case by simp
next
  case (Cons r rs)
  let ?t1 = "if dt_key t0 < dt_key (timestamp r) then timestamp r else t0"
  have k: "dt_key t0 \<le> dt_key ?t1" "dt_key (timestamp r) \<le> dt_key ?t1" "?t1 \<in> {t0, timestamp r}"
    by auto
  from Cons.IH [of ?t1] k show ?case by (auto intro: order_trans)
qed

lemma days_in_month_12 [simp]: "days_in_month y 12 = 31"
  by (simp add: days_in_month_def)

text \<open>The three ways \<open>prev_day\<close> steps back: within the month, into the previous month, into the previous year.\<close>

lemma prev_day_cases:
  assumes "valid_date (Date y m dd)" and "Date y m dd \<noteq> Date 1 1 1"
  obtains (same_month) "1 < dd" "prev_day (Date y m dd) = Some (Date y m (dd - 1))"
  | (prev_month) "dd = 1" "1 < m" "prev_day (Date y m dd) = Some (Date y (m - 1) (days_in_month y (m - 1)))"
  | (prev_year) "dd = 1" "m = 1" "1 < y" "prev_day (Date y m dd) = Some (Date (y - 1) 12 31)"
proof -
  have v: "1 \<le> y" "1 \<le> m" "1 \<le> dd" using assms(1) by (simp_all add: valid_date_def)
  consider "1 < dd" | "dd = 1" "1 < m" | "dd = 1" "m = 1" "1 < y" | "dd = 1" "m = 1" "y = 1"
    using v by linarith
  then show ?thesis
  proof cases
    case 1
    then show ?thesis by (intro same_month) (simp_all add: prev_day_def)
  next
    case 2
    then show ?thesis by (intro prev_month) (simp_all add: prev_day_def)
  next
    case 3
    then show ?thesis by (intro prev_year) (simp_all add: prev_day_def)
  next
    case 4
    with assms(2) show ?thesis by simp
  qed
qed

lemma prev_day_valid:
  assumes "valid_date d" and "d \<noteq> Date 1 1 1"
  shows "\<exists>p. prev_day d = Some p \<and> valid_date p"
proof -
  obtain y m dd where d: "d = Date y m dd" by (cases d)
  have ge: "28 \<le> days_in_month y (m - 1)" by (rule days_in_month_ge)
  from assms(1) have v: "1 \<le> y" "y \<le> 9999" "1 \<le> m" "m \<le> 12" "dd \<le> days_in_month y m"
    by (simp_all add: valid_date_def d)
  have "valid_date (Date y m dd)" "Date y m dd \<noteq> Date 1 1 1" using assms by (simp_all add: d)
  then show ?thesis
  proof (cases rule: prev_day_cases)
    case same_month
    then show ?thesis using v by (auto simp: d valid_date_def)
  next
    case prev_month
    moreover have "1 \<le> m - 1" "m - 1 \<le> 12" using prev_month(2) v by linarith+
    ultimately show ?thesis using v ge by (simp add: d valid_date_def)
  next
    case prev_year
    then show ?thesis using v by (auto simp: d valid_date_def)
  qed
qed

lemma pg_date_literal_strftime:
  assumes "valid_date d"
  shows "pg_date_literal (strftime_Y_m_d d) = Some d"
proof -
  obtain y m dd where d: "d = Date y m dd" by (cases d)
  have ny: "CHR ''-'' \<notin> set (str_nat y)" by (rule notin_str_nat) simp
  have nm: "CHR ''-'' \<notin> set (zpad 2 (str_nat m))"
    by (auto simp: zpad_def dest: str_nat_not_minus)
  have "strftime_Y_m_d d = str_nat y @ CHR ''-'' # zpad 2 (str_nat m) @ CHR ''-'' # zpad 2 (str_nat dd)"
    by (simp add: strftime_Y_m_d_def d)
  then have "split_dash (strftime_Y_m_d d) = (str_nat y, zpad 2 (str_nat m), zpad 2 (str_nat dd))"
    using split_dash_parts [OF ny nm] by simp
  then show ?thesis using assms by (simp add: pg_date_literal_def d)
qed

lemma check_prices_reaches_sample:
  assumes "fault (db w) \<notin> {Connect_fails, Execute_fails 1, Execute_fails 2, Execute_fails 3, Execute_fails 4}"
    and "prev_day (dt_date (clock w)) = Some y" and "valid_date y"
  shows "check_prices w =
    (Inr \<lparr>columns = columns_query (catalogue (db w)) ''realtime_prices'',
          range_line = ''Date range: '' @ py_str_opt (min_timestamp (table (db w))) @ '' to ''
                        @ py_str_opt (max_timestamp (table (db w))),
          rows_line = ''Total rows: '' @ fmt_thousands (length (table (db w))),
          sample_date = strftime_Y_m_d y, samples = sample_query (table (db w)) y\<rparr>,
     trace_ext w [Db_connect, Db_execute 1, Db_execute 2, Db_execute 3, Db_execute 4, Db_close])"
  using assms by (simp add: check_prices_def Let_def pg_date_literal_strftime)

text \<open>Every run leaves one session in the trace, closed exactly when the script succeeds.\<close>

lemma check_prices_session:
  "\<exists>es. snd (check_prices w) = trace_ext w es
      \<and> (es = [] \<and> fault (db w) = Connect_fails \<or> (\<exists>k. es = db_session k (\<not> isl (fst (check_prices w)))))"
proof -
  have s: "\<exists>es. snd (check_prices w) = trace_ext w es
      \<and> (es = [] \<and> fault (db w) = Connect_fails \<or> (\<exists>k. es = db_session k (\<not> isl (fst (check_prices w)))))"
    if "snd (check_prices w) = trace_ext w (db_session k c)" and "c = (\<not> isl (fst (check_prices w)))" for k c
    using that by blast
  consider "fault (db w) = Connect_fails" | "fault (db w) = Execute_fails 1" | "fault (db w) = Execute_fails 2"
    | "fault (db w) = Execute_fails 3"
    | "fault (db w) \<notin> {Connect_fails, Execute_fails 1, Execute_fails 2, Execute_fails 3}" by blast
  then show ?thesis
  proof cases
    case 1
    then show ?thesis by (simp add: check_prices_def)
  next
    case 2
    then show ?thesis by (intro s [of 1 False]) (simp_all add: check_prices_def db_session_def)
  next
    case 3
    then show ?thesis by (intro s [of 2 False]) (simp_all add: check_prices_def db_session_def Let_def upt_rec)
  next
    case 4
    then show ?thesis by (intro s [of 3 False]) (simp_all add: check_prices_def db_session_def Let_def upt_rec)
  next
    case 5
    show ?thesis
    proof (cases "prev_day (dt_date (clock w))")
      case None
      with 5 show ?thesis
        by (intro s [of 3 False]) (simp_all add: check_prices_def db_session_def Let_def upt_rec)
    next
      case (Some y)
      show ?thesis
      proof (cases "fault (db w) = Execute_fails 4 \<or> pg_date_literal (strftime_Y_m_d y) = None")
        case True
        with 5 Some show ?thesis
          by (intro s [of 4 False]) (auto simp: check_prices_def db_session_def Let_def upt_rec)
      next
        case False
        with 5 Some show ?thesis
          by (intro s [of 4 True]) (auto simp: check_prices_def db_session_def Let_def upt_rec)
      qed
    qed
  qed
qed

lemma group3_comma_at:
  "CHR '','' \<notin> set s \<Longrightarrow> i < length (group3 s) \<Longrightarrow> (group3 s ! i = CHR '','') = ((i + 1) mod 4 = 0)"
proof (induction s arbitrary: i rule: group3.induct)
  case (1 a b c d rest)
  show ?case
  proof (cases "i < 4")
    case True
    then consider "i = 0" | "i = 1" | "i = 2" | "i = 3" by linarith
    then show ?thesis using "1.prems"(1) by cases auto
  next
    case False
    define j where "j = i - 4"
    with False have i: "i = Suc (Suc (Suc (Suc j)))" by linarith
    have "j < length (group3 (d # rest))" using "1.prems"(2) i by simp
    moreover have "(5 + j) mod 4 = Suc j mod 4" by presburger
    ultimately show ?thesis using "1.IH" [of j] "1.prems"(1) by (simp add: i)
  qed
qed (auto simp: nth_Cons' split: if_splits)

lemma fmt_thousands_comma_at:
  assumes "i < length (fmt_thousands n)"
  shows "(fmt_thousands n ! i = CHR '','') = ((length (fmt_thousands n) - i) mod 4 = 0)"
proof -
  let ?g = "group3 (rev (str_nat n))"
  have c: "CHR '','' \<notin> set (rev (str_nat n))" by simp
  have l: "length (fmt_thousands n) = length ?g" by (simp add: fmt_thousands_def)
  have "fmt_thousands n ! i = ?g ! (length ?g - Suc i)"
    using assms by (simp add: fmt_thousands_def rev_nth)
  moreover have "length ?g - Suc i < length ?g" using assms l by simp
  moreover have "length ?g - Suc i + 1 = length ?g - i" using assms l by simp
  ultimately show ?thesis using group3_comma_at [OF c, of "length ?g - Suc i"] l by simp
qed

lemma check_prices_Inr_range:
  "check_prices w = (Inr r, w') \<Longrightarrow>
   range_line r = ''Date range: '' @ py_str_opt (min_timestamp (table (db w))) @ '' to ''
                  @ py_str_opt (max_timestamp (table (db w)))"
  unfolding check_prices_def Let_def by (auto split: if_splits option.splits)

lemma timestamp_bounds:
  assumes "rows \<noteq> []"
  shows "\<exists>lo hi. min_timestamp rows = Some lo \<and> max_timestamp rows = Some hi
     \<and> lo \<in> timestamp ` set rows \<and> hi \<in> timestamp ` set rows
     \<and> (\<forall>r\<in>set rows. dt_key lo \<le> dt_key (timestamp r) \<and> dt_key (timestamp r) \<le> dt_key hi)"
proof -
  obtain r rs where rows: "rows = r # rs" using assms by (cases rows) auto
  show ?thesis
    using fold_min_key [of rs "timestamp r"] fold_max_key [of "timestamp r" rs]
    by (auto simp: rows min_timestamp_def max_timestamp_def)
qed

section \<open>Properties of the script\<close>

text \<open>
  C30. Yesterday is computed correctly on every date a Python \<open>date\<close> can
  hold except the first: it is a valid date, earlier than today, and the day
  after it is today (month ends, leap years and new year included).
\<close>

theorem prev_day_roundtrip:
  assumes "valid_date d" and "d \<noteq> Date 1 1 1"
  shows "\<exists>p. prev_day d = Some p \<and> valid_date p \<and> p < d \<and> next_day p = Some d"
proof -
  obtain y m dd where d: "d = Date y m dd" by (cases d)
  obtain p where p: "prev_day d = Some p" and vp: "valid_date p"
    using prev_day_valid [OF assms] by blast
  have ge: "28 \<le> days_in_month y (m - 1)" by (rule days_in_month_ge)
  from assms(1) have v: "dd \<le> days_in_month y m" by (simp add: valid_date_def d)
  have "valid_date (Date y m dd)" "Date y m dd \<noteq> Date 1 1 1" using assms by (simp_all add: d)
  then have "p < d \<and> next_day p = Some d"
  proof (cases rule: prev_day_cases)
    case same_month
    then have "p = Date y m (dd - 1)" using p d by simp
    moreover have "dd - 1 < days_in_month y m" using same_month(1) v by linarith
    ultimately show ?thesis using same_month by (simp add: d less_date_def less_eq_date_def next_day_def)
  next
    case prev_month
    then have "p = Date y (m - 1) (days_in_month y (m - 1))" using p d by simp
    moreover have "m - 1 < 12" "m - 1 < m" using prev_month(2) assms(1) by (auto simp: d valid_date_def)
    ultimately show ?thesis using prev_month by (auto simp: d less_date_def less_eq_date_def next_day_def)
  next
    case prev_year
    then have "p = Date (y - 1) 12 31" using p d by simp
    moreover have "y - 1 < 9999" "y - 1 < y" using prev_year(3) assms(1) by (auto simp: d valid_date_def)
    ultimately show ?thesis using prev_year by (auto simp: d less_date_def less_eq_date_def next_day_def)
  qed
  with p vp show ?thesis by blast
qed

text \<open>
  C33. The row count is printed as \<open>{:,}\<close> prints it: the digits of the
  count, read back exactly, with a comma at every fourth position counted
  from the right (groups of three from the right, the first group of one to
  three digits), and nowhere else.
\<close>

theorem fmt_thousands_groups:
  "parse_thousands (fmt_thousands n) = Some n
   \<and> length (fmt_thousands n) = length (str_nat n) + (length (str_nat n) - 1) div 3
   \<and> (\<forall>i < length (fmt_thousands n).
        (fmt_thousands n ! i = CHR '','') = ((length (fmt_thousands n) - i) mod 4 = 0))"
proof (intro conjI allI impI)
  have "CHR '','' \<notin> set (rev (str_nat n))" by simp
  then have "filter (\<lambda>c. c \<noteq> CHR '','') (fmt_thousands n) = str_nat n"
    by (simp add: fmt_thousands_def rev_filter [symmetric] filter_group3)
  then show "parse_thousands (fmt_thousands n) = Some n" by (simp add: parse_thousands_def)
  show "length (fmt_thousands n) = length (str_nat n) + (length (str_nat n) - 1) div 3"
    by (simp add: fmt_thousands_def length_group3)
  fix i assume "i < length (fmt_thousands n)"
  then show "(fmt_thousands n ! i = CHR '','') = ((length (fmt_thousands n) - i) mod 4 = 0)"
    by (rule fmt_thousands_comma_at)
qed

text \<open>
  C32. The printed range is the least and the greatest timestamp of the
  table, in that order: on a non-empty table, the range line of a run that
  succeeds is \<open>Date range: lo to hi\<close> with \<open>lo\<close> and \<open>hi\<close> timestamps of
  the table, every timestamp between them.
\<close>

theorem check_prices_range:
  assumes "check_prices w = (Inr r, w')" and "table (db w) \<noteq> []"
  shows "\<exists>lo hi. range_line r = ''Date range: '' @ py_str_datetime lo @ '' to '' @ py_str_datetime hi
     \<and> lo \<in> timestamp ` set (table (db w)) \<and> hi \<in> timestamp ` set (table (db w))
     \<and> (\<forall>x\<in>set (table (db w)). dt_key lo \<le> dt_key (timestamp x) \<and> dt_key (timestamp x) \<le> dt_key hi)"
proof -
  obtain lo hi where m: "min_timestamp (table (db w)) = Some lo" "max_timestamp (table (db w)) = Some hi"
    and b: "lo \<in> timestamp ` set (table (db w))" "hi \<in> timestamp ` set (table (db w))"
      "\<forall>x\<in>set (table (db w)). dt_key lo \<le> dt_key (timestamp x) \<and> dt_key (timestamp x) \<le> dt_key hi"
    using timestamp_bounds [OF assms(2)] by blast
  have "range_line r = ''Date range: '' @ py_str_datetime lo @ '' to '' @ py_str_datetime hi"
    using check_prices_Inr_range [OF assms(1)] m by (simp add: py_str_opt_def)
  with b show ?thesis by blast
qed

text \<open>
  C31. With a working database and a clock on a valid date after the first,
  the script runs its four statements and closes the connection, its sample
  is the first five rows of yesterday's date, and the columns it lists are
  those of \<open>pjm_data.realtime_prices\<close> in ordinal order.
\<close>

theorem check_prices_samples:
  assumes "fault (db w) = No_fault" and "valid_date (dt_date (clock w))"
    and "dt_date (clock w) \<noteq> Date 1 1 1"
  shows "\<exists>y r. prev_day (dt_date (clock w)) = Some y
     \<and> check_prices w = (Inr r, trace_ext w [Db_connect, Db_execute 1, Db_execute 2, Db_execute 3,
                                          Db_execute 4, Db_close])
     \<and> samples r = take 5 (filter (\<lambda>x. row_date x = y) (table (db w)))
     \<and> sample_date r = strftime_Y_m_d y
     \<and> columns r = columns_query (catalogue (db w)) ''realtime_prices''"
proof -
  obtain y where y: "prev_day (dt_date (clock w)) = Some y" and vy: "valid_date y"
    using prev_day_valid [OF assms(2,3)] by blast
  have "fault (db w) \<notin> {Connect_fails, Execute_fails 1, Execute_fails 2, Execute_fails 3, Execute_fails 4}"
    using assms(1) by simp
  from check_prices_reaches_sample [OF this y vy] y show ?thesis
    by (simp add: sample_query_def)
qed

section \<open>Witnesses\<close>

theorem prev_day_roundtrip_witness:
  "prev_day (Date 2024 3 1) = Some (Date 2024 2 29) \<and> valid_date (Date 2024 2 29)
   \<and> Date 2024 2 29 < Date 2024 3 1 \<and> next_day (Date 2024 2 29) = Some (Date 2024 3 1)"
proof -
  have "valid_date (Date 2024 3 1)" "Date 2024 3 1 \<noteq> Date 1 1 1"
    by (simp_all add: valid_date_def days_in_month_def)
  from prev_day_roundtrip [OF this] obtain p where
    "prev_day (Date 2024 3 1) = Some p" "valid_date p" "p < Date 2024 3 1" "next_day p = Some (Date 2024 3 1)"
    by blast
  moreover have "prev_day (Date 2024 3 1) = Some (Date 2024 2 29)"
    by (simp add: prev_day_def days_in_month_def leap_year_def)
  ultimately show ?thesis by simp
qed


theorem check_prices_samples_witness:
  "\<exists>y r. prev_day (dt_date (clock example_world)) = Some y
     \<and> check_prices example_world = (Inr r, trace_ext example_world [Db_connect, Db_execute 1, Db_execute 2,
                                        Db_execute 3, Db_execute 4, Db_close])
     \<and> samples r = take 5 (filter (\<lambda>x. row_date x = y) (table (db example_world)))
     \<and> sample_date r = strftime_Y_m_d y
     \<and> columns r = columns_query (catalogue (db example_world)) ''realtime_prices''"
  by (rule check_prices_samples) (simp_all add: example_world_def valid_date_def days_in_month_def)

lemma str_nat_1234: "str_nat 1234 = ''1234''"
  by (simp add: str_nat.simps digit_char_def, code_simp)

theorem fmt_thousands_groups_witness:
  "fmt_thousands 1234 = ''1,234'' \<and> parse_thousands (fmt_thousands 1234) = Some 1234
   \<and> list_all (\<lambda>i. (fmt_thousands 1234 ! i = CHR '','') = ((length (fmt_thousands 1234) - i) mod 4 = 0))
       [0..<length (fmt_thousands 1234)]"
proof -
  have f: "fmt_thousands 1234 = ''1,234''" by (simp add: fmt_thousands_def str_nat_1234)
  note g = fmt_thousands_groups [of 1234]
  have p: "parse_thousands (fmt_thousands 1234) = Some 1234" using g by (rule conjunct1)
  have c: "\<forall>i<length (fmt_thousands 1234).
      (fmt_thousands 1234 ! i = CHR '','') = ((length (fmt_thousands 1234) - i) mod 4 = 0)"
    using g by (rule conjunct2 [THEN conjunct2])
  have l: "list_all (\<lambda>i. (fmt_thousands 1234 ! i = CHR '','') = ((length (fmt_thousands 1234) - i) mod 4 = 0))
      [0..<length (fmt_thousands 1234)]"
    unfolding list_all_iff
  proof
    fix i assume "i \<in> set [0..<length (fmt_thousands 1234)]"
    then have i: "i < length (fmt_thousands 1234)" by (simp only: set_upt atLeastLessThan_iff)
    from spec [OF c, of i] i
    show "(fmt_thousands 1234 ! i = CHR '','') = ((length (fmt_thousands 1234) - i) mod 4 = 0)"
      by (rule mp)
  qed
  from f p l show ?thesis by (intro conjI)
qed

theorem check_prices_range_witness:
  "\<exists>r w' lo hi. check_prices example_world = (Inr r, w')
     \<and> range_line r = ''Date range: '' @ py_str_datetime lo @ '' to '' @ py_str_datetime hi
     \<and> lo \<in> timestamp ` set example_table \<and> hi \<in> timestamp ` set example_table
     \<and> list_all (\<lambda>x. dt_key lo \<le> dt_key (timestamp x) \<and> dt_key (timestamp x) \<le> dt_key hi) example_table"
proof -
  have y: "prev_day (dt_date (clock example_world)) = Some (Date 2025 3 7)" "valid_date (Date 2025 3 7)"
    by (simp_all add: example_world_def prev_day_def valid_date_def days_in_month_def)
  have "fault (db example_world) \<notin> {Connect_fails, Execute_fails 1, Execute_fails 2, Execute_fails 3, Execute_fails 4}"
    by (simp add: example_world_def)
  from check_prices_reaches_sample [OF this y] obtain r w' where c: "check_prices example_world = (Inr r, w')"
    by blast
  have t: "table (db example_world) = example_table" "example_table \<noteq> []"
    by (simp_all add: example_world_def example_table_def)
  from check_prices_range [OF c] t show ?thesis using c by (auto simp: list_all_iff)
qed

end
