(* ===== verification/Explorer.thy ===== *)
theory Explorer
  imports Catalog
begin

text \<open>
  The diagnostic script \<^verbatim>\<open>src/explore_db.py\<close>: it connects, lists the
  relations of schema \<open>pjm_data\<close> in name order, and for each prints its
  columns, its row count and, when the count is positive, its first three
  rows numbered from 1. Its statements are numbered in the order the script
  runs them, so that a fault of the n-th \<open>cur.execute\<close> stops it there. The
  script has no \<open>try\<close>: an error ends it without closing the connection. The
  printed text is kept as the values it prints (\<open>table_report\<close>).
\<close>

section \<open>The script\<close>

record table_report =
  tr_name :: string
  tr_columns :: "(string \<times> string) list"
  tr_count :: nat
  tr_samples :: "(nat \<times> string) list"

text \<open>
  Lines 35-64, the body of the loop for one table, after \<open>n\<close> statements:
  the columns (a name with a quote ends the string literal early and the
  statement fails), the count through the unquoted name, and the sample
  only when the count is positive. It returns the number of statements run
  so far.
\<close>

definition describe_table ::
  "db_server \<Rightarrow> string \<Rightarrow> nat \<Rightarrow> world \<Rightarrow> (py_exc + table_report \<times> nat) \<times> world" where
  "describe_table srv t n w =
     (let w1 = emit (Db_execute (Suc n)) w in
      if fault srv = Execute_fails (Suc n) \<or> CHR 0x27 \<in> set t then (Inl DatabaseError, w1) else
      let columns = columns_query (catalogue srv) t; w2 = emit (Db_execute (n + 2)) w1 in
      if fault srv = Execute_fails (n + 2) then (Inl DatabaseError, w2) else
      case resolve_relation (catalogue srv) t of
        None \<Rightarrow> (Inl DatabaseError, w2)
      | Some r \<Rightarrow>
          (let count = length (rel_rows r) in
           if 0 < count then
             (let w3 = emit (Db_execute (n + 3)) w2 in
              if fault srv = Execute_fails (n + 3) then (Inl DatabaseError, w3)
              else (Inr (\<lparr>tr_name = t, tr_columns = columns, tr_count = count,
                          tr_samples = enumerate 1 (take 3 (rel_rows r))\<rparr>, n + 3), w3))
           else (Inr (\<lparr>tr_name = t, tr_columns = columns, tr_count = count, tr_samples = []\<rparr>, n + 2), w2)))"

text \<open>Line 34: \<open>for table in tables\<close>, threading the statement count and the world.\<close>

fun explore_loop ::
  "db_server \<Rightarrow> string list \<Rightarrow> nat \<Rightarrow> world \<Rightarrow> (py_exc + table_report list) \<times> world" where
  "explore_loop srv [] n w = (Inr [], w)"
| "explore_loop srv (t # ts) n w =
     (case describe_table srv t n w of
        (Inl e, w1) \<Rightarrow> (Inl e, w1)
      | (Inr (r, n1), w1) \<Rightarrow>
          (case explore_loop srv ts n1 w1 of
             (Inl e, w2) \<Rightarrow> (Inl e, w2)
           | (Inr rs, w2) \<Rightarrow> (Inr (r # rs), w2)))"

record explore_report =
  listed :: "string list"
  reports :: "table_report list"

text \<open>Lines 8-66.\<close>

definition explore_db :: "world \<Rightarrow> (py_exc + explore_report) \<times> world" where
  "explore_db w =
     (let srv = db w in
      if fault srv = Connect_fails then (Inl DatabaseError, w) else
      let w1 = emit Db_connect w; w2 = emit (Db_execute 1) w1 in
      if fault srv = Execute_fails 1 then (Inl DatabaseError, w2) else
      let tables = tables_query (catalogue srv) in
      case explore_loop srv tables 1 w2 of
        (Inl e, w3) \<Rightarrow> (Inl e, w3)
      | (Inr rs, w3) \<Rightarrow> (Inr \<lparr>listed = tables, reports = rs\<rparr>, emit Db_close w3))"

section \<open>The reference\<close>

text \<open>
  What the script means to print for a relation, without the guard on the
  sample (an empty relation has no first rows), and the statements it needs.
\<close>

definition relation_report :: "string \<Rightarrow> (string \<times> string) list \<Rightarrow> relation \<Rightarrow> table_report" where
  "relation_report t cols r =
     \<lparr>tr_name = t, tr_columns = cols, tr_count = length (rel_rows r),
      tr_samples = enumerate 1 (take 3 (rel_rows r))\<rparr>"

definition statements :: "relation \<Rightarrow> nat" where
  "statements r = (if rel_rows r = [] then 2 else 3)"

definition explore_spec :: "world \<Rightarrow> (py_exc + explore_report) \<times> world" where
  "explore_spec w =
     (let cat = catalogue (db w); ts = tables_query cat; rel = (\<lambda>t. the (resolve_relation cat t)) in
      (Inr \<lparr>listed = ts, reports = map (\<lambda>t. relation_report t (columns_query cat t) (rel t)) ts\<rparr>,
       trace_ext w (db_session (1 + sum_list (map (statements \<circ> rel) ts)) True)))"

text \<open>
  A schema with a relation created under the quoted name \<open>Prices\<close> beside
  \<open>prices\<close>, and one created as \<open>LoadForecast\<close> with no lower-case namesake.
\<close>

definition mixed_case_server :: db_server where
  "mixed_case_server =
     \<lparr>fault = No_fault, table = [],
      catalogue =
        [\<lparr>rel_schema = ''pjm_data'', rel_name = ''Prices'', rel_columns = [(''node'', ''text'')],
          rel_rows = [''(N1,)'', ''(N2,)'']\<rparr>,
         \<lparr>rel_schema = ''pjm_data'', rel_name = ''prices'', rel_columns = [(''lmp'', ''numeric'')],
          rel_rows = []\<rparr>,
         \<lparr>rel_schema = ''pjm_data'', rel_name = ''LoadForecast'', rel_columns = [(''mw'', ''numeric'')],
          rel_rows = [''(1,)'']\<rparr>]\<rparr>"

section \<open>Lemmas\<close>

lemma upt_Suc_2: "[Suc n..<Suc n + 2] = [Suc n, n + 2]"
  by (simp add: upt_rec)

lemma upt_Suc_3: "[Suc n..<Suc n + 3] = [Suc n, n + 2, n + 3]"
  by (simp add: upt_rec)

lemma describe_table_ok:
  assumes "fault srv = No_fault" and "CHR 0x27 \<notin> set t" and "resolve_relation (catalogue srv) t = Some r"
  shows "describe_table srv t n w =
           (Inr (relation_report t (columns_query (catalogue srv) t) r, n + statements r),
            trace_ext w (map Db_execute [Suc n..<Suc n + statements r]))"
proof (cases "rel_rows r = []")
  case True
  then show ?thesis using assms
    by (simp add: describe_table_def relation_report_def statements_def Let_def upt_Suc_2)
next
  case False
  then have s3: "statements r = 3" by (simp add: statements_def)
  show ?thesis unfolding s3 upt_Suc_3 using assms False
    by (simp add: describe_table_def relation_report_def Let_def)
qed

lemma describe_table_fails:
  assumes "fault srv = No_fault" and "CHR 0x27 \<in> set t \<or> resolve_relation (catalogue srv) t = None"
  shows "\<exists>k. describe_table srv t n w = (Inl DatabaseError, trace_ext w (map Db_execute [Suc n..<Suc n + k]))"
proof (cases "CHR 0x27 \<in> set t")
  case True
  then have "describe_table srv t n w = (Inl DatabaseError, trace_ext w (map Db_execute [Suc n..<Suc n + 1]))"
    using assms(1) by (simp add: describe_table_def Let_def)
  then show ?thesis ..
next
  case False
  then have "describe_table srv t n w = (Inl DatabaseError, trace_ext w (map Db_execute [Suc n..<Suc n + 2]))"
    using assms by (simp add: describe_table_def Let_def upt_Suc_2)
  then show ?thesis ..
qed

lemma upt_Suc_append:
  "map f [Suc n..<Suc (n + a)] @ map f [Suc (n + a)..<Suc (n + a + b)] = map f [Suc n..<Suc (n + (a + b))]"
  using upt_add_eq_append [of "Suc n" "Suc n + a" b] by (simp add: add.assoc del: upt_Suc)

lemma case_cons_Inl:
  "fst x = Inl e \<Longrightarrow> (case x of (Inl e, w2) \<Rightarrow> (Inl e, w2) | (Inr rs, w2) \<Rightarrow> (Inr (r # rs), w2)) = (Inl e, snd x)"
  by (cases x) simp

lemma snd_case_cons:
  "snd (case x of (Inl e, w2) \<Rightarrow> (Inl e, w2) | (Inr rs, w2) \<Rightarrow> (Inr (r # rs), w2)) = snd x"
  by (cases x rule: prod.exhaust, rename_tac a b, case_tac a) simp_all

lemma describe_table_trace:
  "\<exists>k. snd (describe_table srv t n w) = trace_ext w (map Db_execute [Suc n..<Suc n + k])
       \<and> (\<forall>rep n1. fst (describe_table srv t n w) = Inr (rep, n1) \<longrightarrow> n1 = n + k)"
proof (cases "fault srv = Execute_fails (Suc n) \<or> CHR 0x27 \<in> set t")
  case True
  then show ?thesis by (intro exI [of _ 1]) (simp add: describe_table_def)
next
  case c1: False
  show ?thesis
  proof (cases "fault srv = Execute_fails (n + 2)")
    case True
    with c1 show ?thesis by (intro exI [of _ 2]) (simp add: describe_table_def Let_def upt_Suc_2)
  next
    case c2: False
    show ?thesis
    proof (cases "resolve_relation (catalogue srv) t")
      case None
      with c1 c2 show ?thesis by (intro exI [of _ 2]) (simp add: describe_table_def Let_def upt_Suc_2)
    next
      case (Some r)
      show ?thesis
      proof (cases "rel_rows r = []")
        case True
        with c1 c2 Some show ?thesis by (intro exI [of _ 2]) (simp add: describe_table_def Let_def upt_Suc_2)
      next
        case False
        with c1 c2 Some show ?thesis
          by (intro exI [of _ 3], unfold upt_Suc_3) (simp add: describe_table_def Let_def)
      qed
    qed
  qed
qed

lemma explore_loop_trace:
  "\<exists>k. snd (explore_loop srv ts n w) = trace_ext w (map Db_execute [Suc n..<Suc n + k])"
proof (induction ts arbitrary: n w)
  case Nil
  show ?case by (intro exI [of _ 0]) simp
next
  case (Cons t ts)
  obtain k where k: "snd (describe_table srv t n w) = trace_ext w (map Db_execute [Suc n..<Suc n + k])"
    and n1: "\<forall>rep n1. fst (describe_table srv t n w) = Inr (rep, n1) \<longrightarrow> n1 = n + k"
    using describe_table_trace by blast
  show ?case
  proof (cases "fst (describe_table srv t n w)")
    case (Inl e)
    then have "describe_table srv t n w = (Inl e, trace_ext w (map Db_execute [Suc n..<Suc n + k]))"
      using k by (simp add: prod_eq_iff)
    then show ?thesis by (auto simp del: upt_Suc)
  next
    case (Inr p)
    obtain rep m where p: "p = (rep, m)" by (cases p)
    with Inr n1 have m: "m = n + k" by simp
    have d: "describe_table srv t n w = (Inr (rep, n + k), trace_ext w (map Db_execute [Suc n..<Suc n + k]))"
      using Inr p m k by (simp add: prod_eq_iff)
    obtain k' where "snd (explore_loop srv ts (n + k) (trace_ext w (map Db_execute [Suc n..<Suc n + k])))
        = trace_ext (trace_ext w (map Db_execute [Suc n..<Suc n + k])) (map Db_execute [Suc (n + k)..<Suc (n + k) + k'])"
      using Cons.IH by blast
    then have "snd (explore_loop srv (t # ts) n w) = trace_ext w (map Db_execute [Suc n..<Suc n + (k + k')])"
      by (simp add: d snd_case_cons upt_Suc_append del: upt_Suc)
    then show ?thesis ..
  qed
qed

lemma explore_loop_ok:
  assumes "fault srv = No_fault"
    and "list_all (\<lambda>t. CHR 0x27 \<notin> set t \<and> resolve_relation (catalogue srv) t \<noteq> None) ts"
  shows "explore_loop srv ts n w =
     (Inr (map (\<lambda>t. relation_report t (columns_query (catalogue srv) t) (the (resolve_relation (catalogue srv) t))) ts),
      trace_ext w (map Db_execute
        [Suc n..<Suc n + sum_list (map (statements \<circ> (\<lambda>t. the (resolve_relation (catalogue srv) t))) ts)]))"
  using assms(2)
proof (induction ts arbitrary: n w)
  case Nil
  show ?case by simp
next
  case (Cons t ts)
  then obtain r where r: "resolve_relation (catalogue srv) t = Some r" and q: "CHR 0x27 \<notin> set t"
    and ts: "list_all (\<lambda>t. CHR 0x27 \<notin> set t \<and> resolve_relation (catalogue srv) t \<noteq> None) ts"
    by auto
  show ?case
    using describe_table_ok [OF assms(1) q r, of n w] Cons.IH [OF ts, of "n + statements r"]
    by (simp add: r upt_Suc_append del: upt_Suc)
qed

lemma explore_loop_fails:
  assumes "fault srv = No_fault"
    and "\<exists>t\<in>set ts. CHR 0x27 \<in> set t \<or> resolve_relation (catalogue srv) t = None"
  shows "fst (explore_loop srv ts n w) = Inl DatabaseError"
  using assms(2)
proof (induction ts arbitrary: n w)
  case Nil
  then show ?case by simp
next
  case (Cons t ts)
  show ?case
  proof (cases "CHR 0x27 \<in> set t \<or> resolve_relation (catalogue srv) t = None")
    case True
    then obtain k where "describe_table srv t n w = (Inl DatabaseError, trace_ext w (map Db_execute [Suc n..<Suc n + k]))"
      using describe_table_fails [OF assms(1)] by blast
    then show ?thesis by simp
  next
    case False
    then obtain r where r: "resolve_relation (catalogue srv) t = Some r" and q: "CHR 0x27 \<notin> set t" by auto
    from False Cons.prems have "\<exists>t\<in>set ts. CHR 0x27 \<in> set t \<or> resolve_relation (catalogue srv) t = None" by auto
    from Cons.IH [OF this, of "n + statements r"] show ?thesis
      by (simp add: describe_table_ok [OF assms(1) q r] case_cons_Inl del: upt_Suc)
  qed
qed

lemma explore_db_loop:
  assumes "fault (db w) \<noteq> Connect_fails" and "fault (db w) \<noteq> Execute_fails 1"
  shows "explore_db w =
     (case explore_loop (db w) (tables_query (catalogue (db w))) 1 (trace_ext w [Db_connect, Db_execute 1]) of
        (Inl e, w3) \<Rightarrow> (Inl e, w3)
      | (Inr rs, w3) \<Rightarrow> (Inr \<lparr>listed = tables_query (catalogue (db w)), reports = rs\<rparr>, trace_ext w3 [Db_close]))"
  using assms unfolding explore_db_def Let_def emit_def by simp

lemma db_session_Suc:
  "db_session (Suc k) c = [Db_connect, Db_execute 1] @ map Db_execute [Suc 1..<Suc 1 + k] @ (if c then [Db_close] else [])"
  unfolding db_session_def by (subst upt_conv_Cons) (simp_all del: upt_Suc)

lemma db_session_closes: "db_session k False @ [Db_close] = db_session k True"
  by (simp add: db_session_def)

text \<open>Every run leaves one session in the trace, closed exactly when the script succeeds.\<close>

lemma explore_db_session:
  "\<exists>es. snd (explore_db w) = trace_ext w es
      \<and> (es = [] \<and> fault (db w) = Connect_fails \<or> (\<exists>k. es = db_session k (\<not> isl (fst (explore_db w)))))"
proof (cases "fault (db w) = Connect_fails \<or> fault (db w) = Execute_fails 1")
  case True
  then show ?thesis
  proof
    assume "fault (db w) = Connect_fails"
    then show ?thesis by (simp add: explore_db_def)
  next
    assume f: "fault (db w) = Execute_fails 1"
    then have "explore_db w = (Inl DatabaseError, trace_ext w (db_session 1 False))"
      by (simp add: explore_db_def db_session_def)
    then show ?thesis by auto
  qed
next
  case False
  let ?w2 = "trace_ext w [Db_connect, Db_execute 1]"
  let ?l = "explore_loop (db w) (tables_query (catalogue (db w))) 1 ?w2"
  obtain k where k: "snd ?l = trace_ext ?w2 (map Db_execute [Suc 1..<Suc 1 + k])"
    using explore_loop_trace by blast
  have tr: "trace_ext ?w2 (map Db_execute [Suc 1..<Suc 1 + k]) = trace_ext w (db_session (Suc k) False)"
    by (simp only: db_session_Suc trace_ext_trace_ext) simp
  have e: "explore_db w = (case ?l of (Inl e, w3) \<Rightarrow> (Inl e, w3)
      | (Inr rs, w3) \<Rightarrow> (Inr \<lparr>listed = tables_query (catalogue (db w)), reports = rs\<rparr>, trace_ext w3 [Db_close]))"
    using False by (intro explore_db_loop) simp_all
  show ?thesis
  proof (cases "fst ?l")
    case (Inl x)
    then have "explore_db w = (Inl x, trace_ext w (db_session (Suc k) False))"
      using e k tr by (cases ?l) simp
    then show ?thesis by auto
  next
    case (Inr x)
    then have "explore_db w = (Inr \<lparr>listed = tables_query (catalogue (db w)), reports = x\<rparr>,
                               trace_ext w (db_session (Suc k) True))"
      using e k tr by (cases ?l) (simp add: db_session_closes [symmetric])
    then show ?thesis by auto
  qed
qed

text \<open>A run on a catalogue whose listed names all resolve, once the connection and the listing succeed.\<close>

lemma explore_db_ok:
  assumes "fault (db w) = No_fault"
    and "list_all (\<lambda>t. CHR 0x27 \<notin> set t \<and> resolve_relation (catalogue (db w)) t \<noteq> None)
           (tables_query (catalogue (db w)))"
  shows "explore_db w =
     (let cat = catalogue (db w); ts = tables_query cat; rel = (\<lambda>t. the (resolve_relation cat t)) in
      (Inr \<lparr>listed = ts, reports = map (\<lambda>t. relation_report t (columns_query cat t) (rel t)) ts\<rparr>,
       trace_ext w (db_session (1 + sum_list (map (statements \<circ> rel) ts)) True)))"
  using explore_db_loop [of w] explore_loop_ok [OF assms, of 1 "trace_ext w [Db_connect, Db_execute 1]"] assms(1)
  by (simp add: Let_def db_session_Suc del: upt_Suc)

section \<open>Properties of the script\<close>

text \<open>
  C34. Equivalence of the script with its reference: when every listed name
  resolves and has no quote, the loop with its guard on the sample and its
  running statement count prints, for each table in name order, the report
  of the reference and runs exactly the reference's statements, numbered
  consecutively, then closes the connection.
\<close>

theorem explore_db_reference:
  assumes "fault (db w) = No_fault"
    and "list_all (\<lambda>t. CHR 0x27 \<notin> set t \<and> resolve_relation (catalogue (db w)) t \<noteq> None)
           (tables_query (catalogue (db w)))"
  shows "explore_db w = explore_spec w"
  using explore_db_ok [OF assms] by (simp add: explore_spec_def Let_def)

text \<open>
  C10. On a working database whose schema \<open>pjm_data\<close> has distinct names, all
  plain lower-case identifiers, the script reports every relation of the
  schema once, in name order, with its own columns, its row count and its
  first three rows numbered from 1 (none for an empty relation), runs two
  statements per empty relation and three per other one after the listing,
  and closes the connection.
\<close>

theorem explore_db_reports:
  assumes "fault (db w) = No_fault" and "catalogue_wf (catalogue (db w))"
    and "list_all (\<lambda>r. in_pjm_data r \<longrightarrow> plain_ident (rel_name r) \<and> map pg_lower (rel_name r) = rel_name r)
           (catalogue (db w))"
  shows "explore_db w =
     (let rs = sort_key rel_name (filter in_pjm_data (catalogue (db w))) in
      (Inr \<lparr>listed = map rel_name rs,
            reports = map (\<lambda>r. \<lparr>tr_name = rel_name r, tr_columns = rel_columns r, tr_count = length (rel_rows r),
                                 tr_samples = enumerate 1 (take 3 (rel_rows r))\<rparr>) rs\<rparr>,
       trace_ext w (db_session (1 + sum_list (map (\<lambda>r. if rel_rows r = [] then 2 else 3) rs)) True)))"
proof -
  define cat where "cat = catalogue (db w)"
  define rs where "rs = sort_key rel_name (filter in_pjm_data cat)"
  have ts: "tables_query cat = map rel_name rs" by (simp add: rs_def tables_query_def map_sort_key)
  have rel: "resolve_relation cat (rel_name r) = Some r" and col: "columns_query cat (rel_name r) = rel_columns r"
    and q: "CHR 0x27 \<notin> set (rel_name r)" if "r \<in> set rs" for r
  proof -
    from that have r: "r \<in> set cat" "in_pjm_data r" by (auto simp: rs_def)
    with assms(3) have p: "plain_ident (rel_name r)" "map pg_lower (rel_name r) = rel_name r"
      by (auto simp: cat_def list_all_iff)
    with r assms(2) show "resolve_relation cat (rel_name r) = Some r"
      by (intro resolve_relation_folded) (simp_all add: cat_def)
    from r assms(2) show "columns_query cat (rel_name r) = rel_columns r"
      by (intro columns_query_wf) (simp_all add: cat_def)
    from p(1) show "CHR 0x27 \<notin> set (rel_name r)" by (rule plain_ident_no_quote)
  qed
  have ok: "list_all (\<lambda>t. CHR 0x27 \<notin> set t \<and> resolve_relation (catalogue (db w)) t \<noteq> None)
              (tables_query (catalogue (db w)))"
    using rel q by (simp add: cat_def [symmetric] ts list_all_iff)
  have reps: "map (\<lambda>t. relation_report t (columns_query cat t) (the (resolve_relation cat t))) (tables_query cat)
      = map (\<lambda>r. \<lparr>tr_name = rel_name r, tr_columns = rel_columns r, tr_count = length (rel_rows r),
                   tr_samples = enumerate 1 (take 3 (rel_rows r))\<rparr>) rs"
    by (simp add: ts relation_report_def rel col cong: map_cong)
  have sums: "map (statements \<circ> (\<lambda>t. the (resolve_relation cat t))) (tables_query cat)
      = map (\<lambda>r. if rel_rows r = [] then 2 else 3) rs"
    by (simp add: ts statements_def rel cong: map_cong)
  from explore_db_ok [OF assms(1) ok] have e: "explore_db w =
      (Inr \<lparr>listed = tables_query cat,
             reports = map (\<lambda>t. relation_report t (columns_query cat t) (the (resolve_relation cat t))) (tables_query cat)\<rparr>,
       trace_ext w (db_session (1 + sum_list (map (statements \<circ> (\<lambda>t. the (resolve_relation cat t))) (tables_query cat))) True))"
    by (simp add: Let_def cat_def)
  show ?thesis unfolding e reps sums Let_def by (simp only: ts) (simp add: rs_def cat_def)
qed

text \<open>
  C35. The count and the sample go through the unquoted name, which
  PostgreSQL folds to lower case, while the columns are looked up by the
  exact name: for a name with capitals the script prints the columns of that
  relation with the row count and first rows of its lower-case namesake.
\<close>

theorem describe_table_case_fold:
  assumes "fault srv = No_fault" and "catalogue_wf (catalogue srv)" and "r \<in> set (catalogue srv)"
    and "in_pjm_data r" and "plain_ident t" and "rel_name r = map pg_lower t"
  shows "fst (describe_table srv t n w) =
           Inr (\<lparr>tr_name = t, tr_columns = columns_query (catalogue srv) t, tr_count = length (rel_rows r),
                 tr_samples = enumerate 1 (take 3 (rel_rows r))\<rparr>, n + (if rel_rows r = [] then 2 else 3))"
  using describe_table_ok [OF assms(1) plain_ident_no_quote [OF assms(5)] resolve_relation_folded [OF assms(2-6)]]
  by (simp add: relation_report_def statements_def)

text \<open>
  C36. A listed name that does not resolve through the unquoted reference
  (capitals without a lower-case namesake, or a character outside an
  identifier) ends the script with a database error, and the connection is
  never closed.
\<close>

theorem explore_db_unresolved_crash:
  assumes "fault (db w) = No_fault" and "t \<in> set (tables_query (catalogue (db w)))"
    and "resolve_relation (catalogue (db w)) t = None"
  shows "\<exists>es. explore_db w = (Inl DatabaseError, trace_ext w es) \<and> Db_close \<notin> set es"
proof -
  let ?w2 = "trace_ext w [Db_connect, Db_execute 1]"
  let ?l = "explore_loop (db w) (tables_query (catalogue (db w))) 1 ?w2"
  have f: "fst ?l = Inl DatabaseError"
    using assms by (intro explore_loop_fails) auto
  obtain k where k: "snd ?l = trace_ext ?w2 (map Db_execute [Suc 1..<Suc 1 + k])"
    using explore_loop_trace by blast
  have "explore_db w = (Inl DatabaseError, trace_ext w ([Db_connect, Db_execute 1] @ map Db_execute [Suc 1..<Suc 1 + k]))"
    using explore_db_loop [of w] assms(1) f k by (cases ?l) (simp del: upt_Suc)
  then show ?thesis by auto
qed

section \<open>Witnesses\<close>

lemma example_world_catalogue:
  "fault (db example_world) = No_fault" "catalogue (db example_world) = example_catalogue"
  by (simp_all add: example_world_def)

theorem explore_db_reference_witness:
  "explore_db example_world = explore_spec example_world"
proof -
  have "list_all (\<lambda>t. CHR 0x27 \<notin> set t \<and> resolve_relation example_catalogue t \<noteq> None)
          (tables_query example_catalogue)"
    by code_simp
  with explore_db_reference [of example_world] show ?thesis by (simp add: example_world_catalogue)
qed

theorem explore_db_reports_witness:
  "explore_db example_world =
     (Inr \<lparr>listed = [''load_forecast'', ''realtime_prices''],
           reports =
             [\<lparr>tr_name = ''load_forecast'', tr_columns = [(''mw'', ''numeric'')], tr_count = 0, tr_samples = []\<rparr>,
              \<lparr>tr_name = ''realtime_prices'',
                tr_columns = [(''node_name'', ''text''), (''lmp'', ''numeric''),
                              (''timestamp'', ''timestamp without time zone'')],
                tr_count = 4, tr_samples = [(1, ''(N1, 50)''), (2, ''(N2, 30)''), (3, ''(N3, 61)'')]\<rparr>]\<rparr>,
      trace_ext example_world (db_session 6 True))"
proof -
  have wf: "catalogue_wf example_catalogue" by code_simp
  have ids: "list_all (\<lambda>r. in_pjm_data r \<longrightarrow> plain_ident (rel_name r) \<and> map pg_lower (rel_name r) = rel_name r)
               example_catalogue" by code_simp
  have rs: "sort_key rel_name (filter in_pjm_data example_catalogue) = [example_catalogue ! 2, example_catalogue ! 0]"
    by code_simp
  from explore_db_reports [of example_world] wf ids show ?thesis
    by (simp add: example_world_catalogue rs Let_def) (simp add: example_catalogue_def)
qed

theorem describe_table_case_fold_witness:
  "fst (describe_table mixed_case_server ''Prices'' 1 example_world) =
     Inr (\<lparr>tr_name = ''Prices'', tr_columns = [(''node'', ''text'')], tr_count = 0, tr_samples = []\<rparr>, 3)"
proof -
  let ?r = "catalogue mixed_case_server ! 1"
  have h: "fault mixed_case_server = No_fault" "catalogue_wf (catalogue mixed_case_server)"
    "?r \<in> set (catalogue mixed_case_server)" "in_pjm_data ?r" "plain_ident ''Prices''"
    "rel_name ?r = map pg_lower ''Prices''"
    by code_simp+
  have c: "columns_query (catalogue mixed_case_server) ''Prices'' = [(''node'', ''text'')]" by code_simp
  from describe_table_case_fold [OF h, of 1 example_world] show ?thesis
    by (simp add: c) (simp add: mixed_case_server_def)
qed

theorem explore_db_unresolved_crash_witness:
  "\<exists>es. explore_db (example_world\<lparr>db := mixed_case_server\<rparr>)
          = (Inl DatabaseError, trace_ext (example_world\<lparr>db := mixed_case_server\<rparr>) es)
        \<and> Db_close \<notin> set es"
proof -
  have h: "fault (db (example_world\<lparr>db := mixed_case_server\<rparr>)) = No_fault"
    "''LoadForecast'' \<in> set (tables_query (catalogue (db (example_world\<lparr>db := mixed_case_server\<rparr>))))"
    "resolve_relation (catalogue (db (example_world\<lparr>db := mixed_case_server\<rparr>))) ''LoadForecast'' = None"
    by code_simp+
  from explore_db_unresolved_crash [OF h] show ?thesis .
qed

end
