(* ===== verification/Probes.thy ===== *)
theory Probes
  imports Catalog
begin

text \<open>
  The two connection probes. \<^verbatim>\<open>src/test_db.py\<close> connects, lists the
  relations of schema \<open>public\<close> and closes the connection, all inside a
  \<open>try\<close> whose handler prints the exception and ends the script normally
  (the caught exception is the \<open>Inl\<close> value). \<^verbatim>\<open>src/test_connection.py\<close>
  creates a client with the key of \<open>ANTHROPIC_API_KEY\<close>, sends one short
  message and prints the text of the first content block, with no handler.
\<close>

section \<open>\<^verbatim>\<open>test_db.py\<close>\<close>

text \<open>
  Lines 22-26: the names of schema \<open>public\<close>. The statement has no
  \<open>ORDER BY\<close>; the model takes the catalogue's order.
\<close>

definition public_tables :: "relation list \<Rightarrow> string list" where
  "public_tables cat = map rel_name (filter (\<lambda>r. rel_schema r = ''public'') cat)"

text \<open>Lines 8-37. The handler does not close a connection that is open.\<close>

definition test_db :: "world \<Rightarrow> (py_exc + string list) \<times> world" where
  "test_db w =
     (let srv = db w in
      if fault srv = Connect_fails then (Inl DatabaseError, w) else
      let w1 = emit Db_connect w; w2 = emit (Db_execute 1) w1 in
      if fault srv = Execute_fails 1 then (Inl DatabaseError, w2) else
      (Inr (public_tables (catalogue srv)), emit Db_close w2))"

section \<open>\<^verbatim>\<open>test_connection.py\<close>\<close>

definition probe_message :: string where
  "probe_message = ''Hello! Just testing the connection.''"

text \<open>
  Lines 10-21. The constructor accepts \<open>api_key=None\<close>; it then falls back
  on \<open>ANTHROPIC_AUTH_TOKEN\<close>, and when neither is set
  \<open>messages.create\<close> raises \<open>TypeError\<close> while building the request, before
  anything is sent. A reply without content blocks makes
  \<open>message.content[0]\<close> raise \<open>IndexError\<close>.
\<close>

definition test_connection :: "world \<Rightarrow> (py_exc + string) \<times> world" where
  "test_connection w =
     (if environ w ''ANTHROPIC_API_KEY'' = None \<and> environ w ''ANTHROPIC_AUTH_TOKEN'' = None
      then (Inl TypeError, w) else
      let w1 = emit (Llm_request ''claude-sonnet-4-20250514'' 1024 probe_message) w in
      case llm w probe_message of
        Inl e \<Rightarrow> (Inl e, w1)
      | Inr [] \<Rightarrow> (Inl IndexError, w1)
      | Inr (t # _) \<Rightarrow> (Inr t, w1))"

section \<open>Lemmas\<close>

lemma test_db_session:
  "\<exists>es. snd (test_db w) = trace_ext w es
      \<and> (es = [] \<and> fault (db w) = Connect_fails \<or> (\<exists>k. es = db_session k (\<not> isl (fst (test_db w)))))"
proof (cases "fault (db w) = Connect_fails \<or> fault (db w) = Execute_fails 1")
  case True
  then show ?thesis
  proof
    assume "fault (db w) = Connect_fails"
    then show ?thesis by (simp add: test_db_def)
  next
    assume "fault (db w) = Execute_fails 1"
    then have "test_db w = (Inl DatabaseError, trace_ext w (db_session 1 False))"
      by (simp add: test_db_def db_session_def)
    then show ?thesis by auto
  qed
next
  case False
  then have "test_db w = (Inr (public_tables (catalogue (db w))), trace_ext w (db_session 1 True))"
    by (simp add: test_db_def db_session_def)
  then show ?thesis by auto
qed

end
