(* ===== verification/Spec2Isabelle.thy ===== *)
theory Spec2Isabelle
  imports Orchestrator Diagnostics Explorer Probes
begin

text \<open>
  Verification development of \<^verbatim>\<open>src/pjm_daily_agent.py\<close>, the daily PJM
  market agent: it reads yesterday's real-time prices from PostgreSQL, builds
  a text digest, asks a text-generation service for a market brief, writes
  the brief to \<^verbatim>\<open>reports/\<close>, and mails it with the report attached. The
  program is one straight-line script; the model is a shallow embedding in
  which every external system is a field of the record \<open>world\<close> and every
  external call appends an \<open>event\<close> to the world's trace, so that the order
  and the absence of calls are facts about the trace.

  \<^bold>\<open>Theories and the code they model.\<close>
  \<^item> \<open>Prelude\<close>: named collections (\<open>fmt_simps\<close>, \<open>sql_simps\<close>,
    \<open>frame_simps\<close>), the descending stable sort \<open>sort_desc\<close> that models
    \<open>ORDER BY ... DESC\<close>, the mean, and shared list lemmas.
  \<^item> \<open>World\<close>: dates with the calendar order, the rows of the two queries
    (\<open>price_row\<close>, lines 48-55; \<open>zone_stat\<close>, lines 66-79), the exceptions
    (\<open>py_exc\<close>), the events, the world record, and the example fixtures.
  \<^item> \<open>PyFormat\<close>: Python's \<open>str\<close> of naturals, the padding specs,
    \<open>.2f\<close> with round-half-even, \<open>strftime\<close>, \<open>int()\<close>, \<open>split('\\n')\<close>, each
    with its parser and round trip.
  \<^item> \<open>Price_Reader\<close>: \<open>get_yesterday_prices\<close> (lines 15-93) with its three
    SQL statements as functions of the table (\<open>available_dates_query\<close>,
    \<open>price_query\<close>, \<open>stats_query\<close> with \<open>pg_round2\<close>); a database fault
    happens at the connection or at one of the statements.
  \<^item> \<open>Summarizer\<close>: the digest built at lines 103-138 (\<open>data_summary\<close>,
    one definition per f-string) and its reading as lines (\<open>digest_lines\<close>).
  \<^item> \<open>Narrator\<close>: \<open>analyze_with_claude\<close> (lines 95-158): the fixed
    instruction around the digest, one request to the \<open>llm\<close> oracle, the
    first content block of the reply.
  \<^item> \<open>Report_Writer\<close>: \<open>save_report\<close> (lines 160-175) over the world's
    directories and files, with \<open>makedirs\<close> and \<open>write_file\<close>.
  \<^item> \<open>Notifier\<close>: \<open>send_email\<close> (lines 177-247): configuration from the
    environment, the composed message, the SMTP session against the
    \<open>smtp\<close> oracle, every exception turned into \<open>False\<close>.
  \<^item> \<open>Orchestrator\<close>: \<open>main\<close> (lines 249-281), the phase machine of the
    specification (\<open>spec_step\<close>, section 4.6) and the abstraction
    \<open>run_phases\<close> from runs to phases.
  \<^item> \<open>Catalog\<close>: the catalogue the diagnostic scripts read (the
    \<open>relation\<close> records of the database server, with columns and rows):
    the listing of schema \<open>pjm_data\<close> in byte order (\<open>tables_query\<close>), the
    column query by exact name (\<open>columns_query\<close>), the lexical rule and case
    folding of an unquoted identifier (\<open>plain_ident\<close>, \<open>pg_lower\<close>,
    \<open>resolve_relation\<close>), and the shape of a database session
    (\<open>db_session\<close>).
  \<^item> \<open>Diagnostics\<close>: the script \<^verbatim>\<open>src/check_prices.py\<close> (\<open>check_prices\<close>):
    the column listing, the timestamp range, the row count printed with
    \<open>{:,}\<close>, yesterday's date from the clock (\<open>prev_day\<close>, with
    \<open>OverflowError\<close> before year 1) and five sample rows of that date.
  \<^item> \<open>Explorer\<close>: the script \<^verbatim>\<open>src/explore_db.py\<close> (\<open>explore_db\<close>): the
    loop over the listed tables (\<open>explore_loop\<close>) threading the world and the
    number of statements run, its body (\<open>describe_table\<close>: columns, count,
    and the sample only for a positive count), and the reference
    \<open>explore_spec\<close> it is proved equal to.
  \<^item> \<open>Probes\<close>: \<^verbatim>\<open>src/test_db.py\<close> (\<open>test_db\<close>, the listing of schema
    \<open>public\<close> inside a \<open>try\<close>) and \<^verbatim>\<open>src/test_connection.py\<close>
    (\<open>test_connection\<close>, one request to the \<open>llm\<close> oracle).

  \<^bold>\<open>What the lemmas show.\<close> The reader keeps the top hundred rows of the
  latest date in descending order and one statistics row per zone, with
  averages within half a cent; on a failing statement it leaves the
  connection open, and it cannot tell an empty table from a dead database.
  It never reads the clock: the date it picks is the latest of the table
  (the specification's ``most recent available date''), not yesterday as
  its name and docstring say, so on a live table it returns today's partial
  day (\<open>get_yesterday_prices_today\<close>).
  The digest lists the ranked rows, the zone table in the reader's order
  and the mean price of the rows it was given. The generator makes one
  \<open>messages.create\<close> call and passes its error, or \<open>IndexError\<close> for an
  empty reply, on unchanged.
  The report's path reads back to its date, its narrative reads back
  unchanged, and a second save for the same date replaces the first. The
  notifier touches nothing without a complete configuration, runs connect,
  STARTTLS, login, send and quit in that order, never sends \<open>quit\<close> after a
  failure inside the session, and reports failure when only \<open>quit\<close> fails.
  \<open>main\<close> calls nothing after the reader when there is no data, never mails
  after a crash, mails exactly the report it wrote, and refines the phase
  machine of the specification (\<open>main_refines_spec\<close>). Across components
  (this theory): the request that \<open>main\<close> sends carries the digest of the
  reader's latest date, its zone table in descending order of average price
  and its mean price within half a cent (\<open>pipeline_request_digest\<close>, the
  end-to-end scenario of the specification's section 8), and a completed
  run writes its report under the name of that date
  (\<open>pipeline_report_named_by_date\<close>).
  For \<^verbatim>\<open>check_prices.py\<close>: yesterday is a valid earlier date whose next
  day is today, on every date but the first; the count is printed with a
  comma exactly at every fourth position from the right and reads back;
  the printed range line shows the least and then the greatest timestamp;
  the sample holds rows of yesterday only. For
  \<^verbatim>\<open>explore_db.py\<close>: the loop equals its reference
  (\<open>explore_db_reference\<close>); on a well-formed catalogue of lower-case names
  every relation is reported once, in name order, with its own columns,
  count and first three rows (\<open>explore_db_reports\<close>); a name with capitals
  is printed with its own columns but the count and rows of its lower-case
  namesake, and a name that does not resolve crashes the script with the
  connection open. Across the four database clients (this theory): each
  leaves exactly one well-formed session in the trace, closed exactly when
  a script succeeds (\<open>db_sessions_well_formed\<close>).

  \<^bold>\<open>Modelling choices.\<close> Prices are exact rationals: \<open>float()\<close> of a
  \<open>numeric\<close> is taken as exact, so the binary rounding of doubles is not
  modelled; \<open>.2f\<close> rounds halves to even, SQL \<open>ROUND\<close> away from zero.
  Strings are byte lists; the emoji are their UTF-8 bytes. The ordering of
  rows with equal keys, which SQL leaves open, is the stable sort's. The
  file's six writes are one write of their concatenation. The statements
  of a script are numbered in the order it runs them, so that a fault of
  the server is a statement number. A \<open>Llm_request\<close> event is one call of
  \<open>messages.create\<close>, and the \<open>llm\<close> oracle gives its outcome. No loop of the program can fail to
  terminate (each runs over a finite list), so no fuel or partial function
  is needed: every definition is total and executable.

  \<^bold>\<open>Not modelled.\<close> Console output (the progress prints and the report
  preview), \<open>load_dotenv\<close> (the environment is a field of the world), the
  MIME wire format and base64 encoding of the attachment, the network and
  TLS below the SMTP commands. In the catalogue, the privileges that hide
  relations from \<open>information_schema\<close> are not modelled, and a table name
  that is not a plain identifier is taken as an error of the statement
  that interpolates it (PostgreSQL reads some such names otherwise, for
  instance a space as the start of an alias); a quote in a name is taken
  as ending the column query with an error. Rows of other relations than
  the price table are kept as the \<open>repr\<close> strings the scripts print.
  Inside a \<open>messages.create\<close> call, the client's own retries
  (\<open>max_retries=2\<close> by default, on rate limits, server errors and network
  failures) are not separate events. For the agent a missing key is not
  modelled separately: the oracle's failure stands for every failure of
  the call, including the \<open>TypeError\<close> the client raises before sending
  when neither \<open>ANTHROPIC_API_KEY\<close> nor \<open>ANTHROPIC_AUTH_TOKEN\<close> is set (the
  probe \<open>test_connection\<close> models that branch). \<open>int()\<close> of the SMTP port
  is modelled on ASCII text; the non-ASCII digits and spaces Python also
  accepts are not.
\<close>

section \<open>Properties across components\<close>

lemma example_world_inputs:
  "fault (db example_world) = No_fault" "table (db example_world) \<noteq> []"
  "\<forall>r\<in>set (table (db example_world)). no_nl (node_name r) \<and> no_nl (zone r)"
  "\<forall>r\<in>set (table (db example_world)). valid_date (row_date r)"
  by (simp_all add: example_world_def example_table_def example_row_def no_nl_def valid_date_def
      days_in_month_def row_date_def)

text \<open>
  C9. End to end (specification, section 8): with a working database, the
  request that \<open>main\<close> sends to the generation service carries a digest
  whose zone table is the reader's zone rows of the latest date of the
  table (the specification's most recent date; not yesterday, as the
  reader's name and docstring say: see C21 and the findings), in
  descending order of average price, and whose Average LMP line reads back
  as the mean price of the reader's rows to within half a cent.
\<close>

theorem pipeline_request_digest:
  assumes "fault (db w) = No_fault" and "table (db w) \<noteq> []"
    and "\<forall>r\<in>set (table (db w)). no_nl (node_name r) \<and> no_nl (zone r)"
  shows "\<exists>p s. Llm_request claude_model 2000 p \<in> set (trace (snd (main w))) \<and> prompt_digest p = Some s
     \<and> (let t = table (db w); d = Max (set (map row_date t)); rs = price_query t d; zs = stats_query t d in
          take (length zs) (drop (9 + min 15 (length rs)) (split_nl s)) = map (\<lambda>z. butlast (zone_line z)) zs
          \<and> sorted_wrt (\<lambda>a b. avg_lmp b \<le> avg_lmp a) zs
          \<and> (\<exists>v. parse_metric ''Average LMP: $'' (split_nl s ! (12 + min 15 (length rs) + length zs)) = Some v
                 \<and> \<bar>v - mean (map lmp rs)\<bar> \<le> 1/200))"
proof -
  let ?t = "table (db w)"
  let ?d = "Max (set (map row_date ?t))"
  let ?rs = "price_query ?t ?d" and ?zs = "stats_query ?t ?d"
  note ne = latest_date_queries_ne [OF assms(2)]
  have g: "get_yesterday_prices w = (Some (?rs, ?zs, ?d),
      trace_ext w [Db_connect, Db_execute 1, Db_execute 2, Db_execute 3, Db_close])"
    using assms(1,2) by (simp add: get_yesterday_prices_success)
  have h2: "\<forall>r\<in>set (take 15 ?rs). no_nl (node_name r) \<and> no_nl (zone r)"
    using assms(3) set_price_query [of ?t ?d] by (auto dest: in_set_takeD)
  have h3: "\<forall>z\<in>set ?zs. no_nl (stat_zone z)"
    using assms(3) by (auto dest: stat_zone_stats_query)
  obtain s where s: "data_summary ?rs ?zs ?d = Inr s" and l: "split_nl s = digest_lines ?rs ?zs ?d"
    using data_summary_split [OF ne(1) h2 h3] by blast
  have req: "Llm_request claude_model 2000 (claude_prompt s) \<in> set (trace (snd (main w)))"
    by (rule main_keeps_request [OF g ne s])
  have sorted: "sorted_wrt (\<lambda>a b. avg_lmp b \<le> avg_lmp a) ?zs"
    by (simp add: stats_query_def Let_def)
  have avg: "parse_metric ''Average LMP: $'' (split_nl s ! (12 + min 15 (length ?rs) + length ?zs))
      = Some (f2_value (mean (map lmp ?rs)))"
    unfolding l by (rule digest_lines_average)
  have tab: "take (length ?zs) (drop (9 + min 15 (length ?rs)) (split_nl s)) = map (\<lambda>z. butlast (zone_line z)) ?zs"
    unfolding l by (rule digest_lines_zone_table)
  show ?thesis
    unfolding Let_def
    using req tab sorted avg f2_value_dist [of "mean (map lmp ?rs)"] by auto
qed

text \<open>
  C17. The report of a completed run is written at the path named after the
  latest date of the table, and that date is read back from the path. That
  date is the specification's most recent date, not yesterday as the
  reader's name and docstring say (C21, findings): on a live table the brief
  is named after today's partial day.
\<close>

theorem pipeline_report_named_by_date:
  assumes "fault (db w) = No_fault" and "table (db w) \<noteq> []"
    and "\<forall>r\<in>set (table (db w)). valid_date (row_date r)" and "fst (main w) = Completed b"
  shows "\<exists>c es. trace (snd (main w)) = trace w @ es
     \<and> Fs_write (report_path (Max (set (map row_date (table (db w)))))) c \<in> set es
     \<and> parse_report_path (report_path (Max (set (map row_date (table (db w))))))
         = Some (Max (set (map row_date (table (db w)))))"
proof -
  let ?t = "table (db w)"
  let ?d = "Max (set (map row_date ?t))"
  let ?rs = "price_query ?t ?d" and ?zs = "stats_query ?t ?d"
  note ne = latest_date_queries_ne [OF assms(2)]
  define w1 where "w1 = trace_ext w [Db_connect, Db_execute 1, Db_execute 2, Db_execute 3, Db_close]"
  have g: "get_yesterday_prices w = (Some (?rs, ?zs, ?d), w1)"
    using assms(1,2) by (simp add: get_yesterday_prices_success w1_def)
  have "?d \<in> set (map row_date ?t)" using assms(2) by simp
  then have valid: "valid_date ?d" using assms(3) by auto
  obtain r2 w2 where a: "analyze_with_claude ?rs ?zs ?d w1 = (r2, w2)" by fastforce
  obtain p where w2: "w2 = trace_ext w1 [Llm_request claude_model 2000 p]"
    using analyze_with_claude_effect [OF ne(1) a] by blast
  obtain an where an: "r2 = Inr an"
    using assms(4) main_fetched [OF g ne] a by (cases r2) auto
  obtain r3 w3 where sv: "save_report an ?d w2 = (r3, w3)" by fastforce
  obtain f where f: "r3 = Inr f"
    using assms(4) main_fetched [OF g ne] a an sv by (cases r3) auto
  have pf: "f = report_path ?d" using save_report_Inr(3) sv f by blast
  let ?c = "report_content an ?d (clock w2)"
  have "w3 = (trace_ext w2 [Fs_makedirs report_dir, Fs_write f ?c])
      \<lparr>fs_dirs := fs_dirs w3, fs_files := (fs_files w2)(f \<mapsto> ?c)\<rparr>"
    using sv f by (simp add: save_report_Inr_world)
  from arg_cong [OF this, of trace]
  have t3: "trace w3 = trace w2 @ [Fs_makedirs report_dir, Fs_write f ?c]" by (simp add: trace_ext_def)
  obtain es4 where s4: "snd (send_email f an ?d w3) = trace_ext w3 es4"
    using send_email_effect [of f an ?d w3] by blast
  have "trace (snd (main w)) = trace w @ ([Db_connect, Db_execute 1, Db_execute 2, Db_execute 3, Db_close,
      Llm_request claude_model 2000 p, Fs_makedirs report_dir, Fs_write f ?c] @ es4)"
    using main_fetched [OF g ne] a an sv f s4 t3 w2 w1_def by (simp add: prod.case_eq_if trace_ext_def)
  then show ?thesis
    using parse_report_path_report_path [OF valid] pf by auto
qed

text \<open>The reader's session: closed on an empty table and on success, left open on a failing statement.\<close>

lemma get_yesterday_prices_session:
  "\<exists>es. snd (get_yesterday_prices w) = trace_ext w es
      \<and> (es = [] \<and> fault (db w) = Connect_fails \<or> (\<exists>k c. es = db_session k c))"
proof -
  have s: "\<exists>es. snd (get_yesterday_prices w) = trace_ext w es
      \<and> (es = [] \<and> fault (db w) = Connect_fails \<or> (\<exists>k c. es = db_session k c))"
    if "snd (get_yesterday_prices w) = trace_ext w (db_session k c)" for k c
    using that by blast
  consider "fault (db w) = Connect_fails" | "fault (db w) = Execute_fails 1"
    | "fault (db w) \<noteq> Connect_fails" "fault (db w) \<noteq> Execute_fails 1" "table (db w) = []"
    | "fault (db w) = Execute_fails 2" "table (db w) \<noteq> []"
    | "fault (db w) = Execute_fails 3" "table (db w) \<noteq> []"
    | "fault (db w) \<notin> {Connect_fails, Execute_fails 1, Execute_fails 2, Execute_fails 3}" "table (db w) \<noteq> []"
    by blast
  then show ?thesis
  proof cases
    case 1
    then show ?thesis by (simp add: get_yesterday_prices_connect_fails)
  next
    case 2
    then show ?thesis by (intro s [of 1 False]) (simp add: get_yesterday_prices_execute1_fails db_session_def)
  next
    case 3
    then show ?thesis by (intro s [of 1 True]) (simp add: get_yesterday_prices_empty db_session_def)
  next
    case 4
    then show ?thesis
      by (intro s [of 2 False]) (simp add: get_yesterday_prices_execute2_fails db_session_def upt_rec)
  next
    case 5
    then show ?thesis
      by (intro s [of 3 False]) (simp add: get_yesterday_prices_execute3_fails db_session_def upt_rec)
  next
    case 6
    then show ?thesis
      by (intro s [of 3 True]) (simp add: get_yesterday_prices_success db_session_def upt_rec)
  qed
qed

text \<open>
  C37. Every database client of the repository (the agent's reader, the
  two diagnostic scripts and the connection probe) leaves exactly one well-formed session in the
  trace: nothing when the connection fails, otherwise a connect, its
  statements numbered from 1 without a gap, then a close or nothing. The
  scripts and the probe close the connection exactly when they succeed
  (the probe's handler catches the error but leaves the connection open).
\<close>

theorem db_sessions_well_formed:
  "(\<exists>es. snd (get_yesterday_prices w) = trace_ext w es
      \<and> (es = [] \<and> fault (db w) = Connect_fails \<or> (\<exists>k c. es = db_session k c)))
   \<and> (\<exists>es. snd (check_prices w) = trace_ext w es
      \<and> (es = [] \<and> fault (db w) = Connect_fails \<or> (\<exists>k. es = db_session k (\<not> isl (fst (check_prices w))))))
   \<and> (\<exists>es. snd (explore_db w) = trace_ext w es
      \<and> (es = [] \<and> fault (db w) = Connect_fails \<or> (\<exists>k. es = db_session k (\<not> isl (fst (explore_db w))))))
   \<and> (\<exists>es. snd (test_db w) = trace_ext w es
      \<and> (es = [] \<and> fault (db w) = Connect_fails \<or> (\<exists>k. es = db_session k (\<not> isl (fst (test_db w))))))"
  by (intro conjI get_yesterday_prices_session check_prices_session explore_db_session test_db_session)

section \<open>Witnesses\<close>

theorem pipeline_request_digest_witness:
  "\<exists>p s. Llm_request claude_model 2000 p \<in> set (trace (snd (main example_world))) \<and> prompt_digest p = Some s
     \<and> (let t = table (db example_world); d = Max (set (map row_date t)); rs = price_query t d;
            zs = stats_query t d in
          take (length zs) (drop (9 + min 15 (length rs)) (split_nl s)) = map (\<lambda>z. butlast (zone_line z)) zs
          \<and> sorted_wrt (\<lambda>a b. avg_lmp b \<le> avg_lmp a) zs
          \<and> (\<exists>v. parse_metric ''Average LMP: $'' (split_nl s ! (12 + min 15 (length rs) + length zs)) = Some v
                 \<and> \<bar>v - mean (map lmp rs)\<bar> \<le> 1/200))"
  by (rule pipeline_request_digest [OF example_world_inputs(1-3)])

theorem pipeline_report_named_by_date_witness:
  "\<exists>c es. trace (snd (main example_world)) = trace example_world @ es
     \<and> Fs_write (report_path (Max (set (map row_date (table (db example_world)))))) c \<in> set es
     \<and> parse_report_path (report_path (Max (set (map row_date (table (db example_world))))))
         = Some (Max (set (map row_date (table (db example_world)))))"
  by (rule pipeline_report_named_by_date [OF example_world_inputs(1,2,4) example_world_completes])

end
